theory Spec2Isabelle
  imports Main
begin

unbundle bit_operations_syntax

section \<open>The platform: what the headers and the build define\<close>

text \<open>
  \<^verbatim>\<open>io_utils.h\<close> is written against \<^verbatim>\<open>errno.h\<close> and a set of build macros.
  Neither is part of the file, so both are parameters of the model.

  The record \<open>errno_h\<close> holds the error numbers the header names. \<open>ENONET\<close> is
  Linux-specific: the header tests \<^verbatim>\<open>#ifdef ENONET\<close>, so the field is optional.
\<close>

record errno_h =
  EINTR :: int
  EAGAIN :: int
  EWOULDBLOCK :: int
  EPIPE :: int
  EINPROGRESS :: int
  ENETDOWN :: int
  EPROTO :: int
  ENOPROTOOPT :: int
  EHOSTDOWN :: int
  ENONET :: "int option"
  EHOSTUNREACH :: int
  EOPNOTSUPP :: int
  ENETUNREACH :: int
  ECONNRESET :: int

text \<open>
  The record \<open>build\<close> holds the macros the header tests with \<^verbatim>\<open>#ifdef\<close>:
  \<^verbatim>\<open>XAPIAND_CHECK_IO_FDES\<close> (the diagnostic build), an override of
  \<^verbatim>\<open>XAPIAND_MINIMUM_FILE_DESCRIPTOR\<close>, \<^verbatim>\<open>HAVE_FDATASYNC\<close>, \<^verbatim>\<open>HAVE_FSYNC\<close>,
  \<^verbatim>\<open>F_FULLFSYNC\<close> (a command number of \<^verbatim>\<open>fcntl\<close> where it exists),
  \<^verbatim>\<open>HAVE_FALLOCATE\<close> and \<^verbatim>\<open>HAVE_POSIX_FADVISE\<close>.
\<close>

record build =
  errnos :: errno_h
  check_io_fdes :: bool
  minimum_file_descriptor_override :: "int option"
  have_fdatasync :: bool
  have_fsync :: bool
  f_fullfsync :: "int option"
  have_fallocate :: bool
  have_posix_fadvise :: bool

section \<open>The process state\<close>

text \<open>
  \<open>os_state\<close> is everything the primitives of the operating system read and write:
  the error number \<^verbatim>\<open>errno\<close> and the rest of the kernel, of any type \<open>'k\<close>.
  \<open>process\<close> adds what belongs to the program: the registry of the lifecycle
  tracker (a bit set per descriptor number, all zero at start) and the flag behind
  \<^verbatim>\<open>ignore_intr()\<close>.
\<close>

record 'k os_state =
  errno :: int
  kernel :: 'k

record 'k process =
  os :: "'k os_state"
  fdes :: "int \<Rightarrow> int"
  ignore_intr :: bool

section \<open>Error classification\<close>

text \<open>
  \<^verbatim>\<open>
  static inline bool ignored_errorno(int e, bool again, bool tcp, bool udp) {
      switch(e) {
          case EINTR:        return ignore_intr().load();
          case EAGAIN:
  #if EAGAIN != EWOULDBLOCK
          case EWOULDBLOCK:
  #endif
                             return again;
          case EPIPE: case EINPROGRESS:
                             return tcp;
          case ENETDOWN: case EPROTO: case ENOPROTOOPT: case EHOSTDOWN:
  #ifdef ENONET
          case ENONET:
  #endif
          case EHOSTUNREACH: case EOPNOTSUPP: case ENETUNREACH: case ECONNRESET:
                             return udp;
          default:           return false;
      }
  }
  \<close>
  The result \<open>True\<close> is the outcome Ignore, \<open>False\<close> is Propagate. The switch is
  written as the chain of its cases in the order of the source.
\<close>

definition ignored_errorno ::
  "errno_h \<Rightarrow> int \<Rightarrow> bool \<Rightarrow> bool \<Rightarrow> bool \<Rightarrow> 'k process \<Rightarrow> bool" where
  "ignored_errorno E e again tcp udp p =
     (if e = EINTR E then ignore_intr p
      else if e = EAGAIN E \<or> (EAGAIN E \<noteq> EWOULDBLOCK E \<and> e = EWOULDBLOCK E) then again
      else if e = EPIPE E \<or> e = EINPROGRESS E then tcp
      else if e = ENETDOWN E \<or> e = EPROTO E \<or> e = ENOPROTOOPT E \<or> e = EHOSTDOWN E
            \<or> (case ENONET E of None \<Rightarrow> False | Some enonet \<Rightarrow> e = enonet)
            \<or> e = EHOSTUNREACH E \<or> e = EOPNOTSUPP E \<or> e = ENETUNREACH E
            \<or> e = ECONNRESET E then udp
      else False)"

text \<open>
  The labels of the switch, group by group, in the order of the source. A C compiler
  refuses a switch with two equal labels, so on every platform where the header
  compiles the labels are distinct.
\<close>

definition again_labels :: "errno_h \<Rightarrow> int list" where
  "again_labels E =
     EAGAIN E # (if EAGAIN E \<noteq> EWOULDBLOCK E then [EWOULDBLOCK E] else [])"

definition tcp_labels :: "errno_h \<Rightarrow> int list" where
  "tcp_labels E = [EPIPE E, EINPROGRESS E]"

definition udp_labels :: "errno_h \<Rightarrow> int list" where
  "udp_labels E =
     [ENETDOWN E, EPROTO E, ENOPROTOOPT E, EHOSTDOWN E]
     @ (case ENONET E of None \<Rightarrow> [] | Some enonet \<Rightarrow> [enonet])
     @ [EHOSTUNREACH E, EOPNOTSUPP E, ENETUNREACH E, ECONNRESET E]"

definition case_labels :: "errno_h \<Rightarrow> int list" where
  "case_labels E = EINTR E # again_labels E @ tcp_labels E @ udp_labels E"

section \<open>Calls into the operating system\<close>

text \<open>
  The primitives the header calls with a leading \<^verbatim>\<open>::\<close>, with their arguments,
  and \<^verbatim>\<open>::open\<close> and \<^verbatim>\<open>::close\<close>, which the wrappers it only declares stand for.
  Pointers (paths, buffers, addresses, result structures) are opaque addresses; sizes,
  offsets and flags are integers. The header passes every argument on as it came, so
  their widths play no role.
\<close>

type_synonym addr = nat

datatype call =
    Sys_open addr int int
  | Sys_close int
  | Sys_unlink addr
  | Sys_lseek int int int
  | Sys_fcntl int int "int list"
  | Sys_fstat int addr
  | Sys_dup int
  | Sys_dup2 int int
  | Sys_shutdown int int
  | Sys_send int addr int int
  | Sys_sendto int addr int int addr int
  | Sys_recv int addr int int
  | Sys_socket int int int
  | Sys_recvfrom int addr int int addr addr
  | Sys_getsockopt int int int addr addr
  | Sys_setsockopt int int int addr int
  | Sys_listen int int
  | Sys_accept int addr addr
  | Sys_bind int addr int
  | Sys_connect int addr int
  | Sys_fdatasync int
  | Sys_fsync int
  | Sys_fallocate int int int int
  | Sys_posix_fadvise int int int int

text \<open>
  The operating system is a parameter: any function from a call and a state to the
  value the call returns and the state it leaves (\<^verbatim>\<open>errno\<close> included).
\<close>

type_synonym 'k sys = "call \<Rightarrow> 'k os_state \<Rightarrow> int \<times> 'k os_state"

text \<open>
  A piece of the program runs on a process state and has one of three ends: it never
  returns (\<open>None\<close>), the process aborts (\<open>Some (Inl a)\<close>), or it returns a value
  and leaves a state (\<open>Some (Inr (v, p))\<close>).
\<close>

datatype abort = Configuration_error | Lifecycle_violation string

type_synonym ('a, 'k) io = "'k process \<Rightarrow> (abort + 'a \<times> 'k process) option"

definition return_io :: "'a \<Rightarrow> ('a, 'k) io" where
  "return_io v p = Some (Inr (v, p))"

definition bind_io :: "('a, 'k) io \<Rightarrow> ('a \<Rightarrow> ('b, 'k) io) \<Rightarrow> ('b, 'k) io" where
  "bind_io m f p =
     (case m p of
        None \<Rightarrow> None
      | Some (Inl a) \<Rightarrow> Some (Inl a)
      | Some (Inr (v, p')) \<Rightarrow> f v p')"

definition syscall :: "'k sys \<Rightarrow> call \<Rightarrow> (int, 'k) io" where
  "syscall sys c p = (case sys c (os p) of (r, k) \<Rightarrow> Some (Inr (r, p\<lparr>os := k\<rparr>)))"

section \<open>The retry macro\<close>

text \<open>
  \<^verbatim>\<open>
  #define TEMP_FAILURE_RETRY(exp) \
      ({ decltype(exp) _err; \
         do { _err = (exp); } while unlikely(_err == -1 && errno == EINTR); \
         _err; })
  \<close>
  The header defines the macro unless the C library already has one of that name;
  the one of glibc runs the same loop. The loop has no bound, so the macro is a
  partial function: \<open>None\<close> is the loop that never ends. The expression is any
  piece of the program; in the header it is always a primitive of the operating
  system or the no-op of the sync fallback.
\<close>

partial_function (option) TEMP_FAILURE_RETRY ::
  "errno_h \<Rightarrow> (int, 'k) io \<Rightarrow> 'k process \<Rightarrow> (abort + int \<times> 'k process) option" where
  "TEMP_FAILURE_RETRY E exp p =
     (case exp p of
        None \<Rightarrow> None
      | Some (Inl a) \<Rightarrow> Some (Inl a)
      | Some (Inr (err, p')) \<Rightarrow>
          if err = - 1 \<and> errno (os p') = EINTR E then TEMP_FAILURE_RETRY E exp p'
          else Some (Inr (err, p')))"

declare TEMP_FAILURE_RETRY.simps [code]

section \<open>The lifecycle tracker\<close>

definition OPENED :: int where "OPENED = 1"
definition SOCKET :: int where "SOCKET = 2"
definition CLOSED :: int where "CLOSED = 4"

text \<open>
  \<^verbatim>\<open>
  #ifndef XAPIAND_MINIMUM_FILE_DESCRIPTOR
  #define XAPIAND_MINIMUM_FILE_DESCRIPTOR STDERR_FILENO + 1
  #endif
  \<close>
  \<^verbatim>\<open>STDERR_FILENO\<close> is 2 on every POSIX system.
\<close>

definition STDERR_FILENO :: int where "STDERR_FILENO = 2"

definition XAPIAND_MINIMUM_FILE_DESCRIPTOR :: "build \<Rightarrow> int" where
  "XAPIAND_MINIMUM_FILE_DESCRIPTOR B =
     (case minimum_file_descriptor_override B of
        None \<Rightarrow> STDERR_FILENO + 1
      | Some v \<Rightarrow> v)"

text \<open>
  Modelled from the spec: the state of a descriptor as a call of \<^verbatim>\<open>io::check\<close> finds
  it; the body of \<^verbatim>\<open>io::check\<close> is not in the header. The specification says that
  the operating system may issue the number of a closed descriptor again, and that the
  tracker treats such a number as a new descriptor, which re-enters the state with no
  bits before the next open. The next open is a call that sets \<open>OPENED\<close>: on a number
  marked \<open>CLOSED\<close> it starts from no bits. Every other call finds the state as the
  registry holds it.
  (The specification also calls an open of an already-closed descriptor a violation.
  Every open of a closed number is a reuse, since the wrappers hand over what the
  operating system issued, so the two sentences cannot both hold; the model follows
  the one the specification repeats among its testable properties.)
\<close>

definition tracked :: "'k process \<Rightarrow> int \<Rightarrow> int \<Rightarrow> int" where
  "tracked p fd set_bits =
     (if (set_bits AND OPENED) \<noteq> 0 \<and> (fdes p fd AND CLOSED) \<noteq> 0 then 0 else fdes p fd)"

text \<open>
  Modelled from the spec: the body of \<^verbatim>\<open>io::check\<close>, which the header only declares
  (\<^verbatim>\<open>int check(const char* msg, int fd, int check_set, int check_unset, int set,
  const char* function, const char* filename, int line)\<close>). The specification says:
  \<^item> if the descriptor is below the minimum permitted value, abort with a configuration
    error;
  \<^item> if the tracked state of the descriptor does not have all of the must-have bits
    or has one of the must-not-have bits, abort with a diagnostic that names the
    operation;
  \<^item> on success of the real call, OR the bits to set into the tracked state; closing
    also clears the open bits.
  The must-have bits are read as bits that must all be there: \<open>CHECK_OPEN\<close> asks
  for none, and would otherwise never pass. Closing is a call that sets \<open>CLOSED\<close>;
  the open bits are \<open>OPENED\<close> and \<open>SOCKET\<close>. The tracked state is \<open>tracked\<close>.
  The header hands the result of a creating call to the tracker as it is
  (\<^verbatim>\<open>CHECK_OPEN_SOCKET(socket)\<close> after \<^verbatim>\<open>::socket\<close>), so the failure sentinel
  \<open>-1\<close> reaches \<open>check\<close>. The specification registers on success only, and its
  descriptors are non-negative: at \<open>-1\<close> the model does nothing. The function, file
  and line arguments only feed the diagnostic and are left out, and so is the result,
  which no macro of the header reads.
\<close>

definition check :: "build \<Rightarrow> string \<Rightarrow> int \<Rightarrow> int \<Rightarrow> int \<Rightarrow> int \<Rightarrow> (unit, 'k) io" where
  "check B msg fd check_set check_unset set_bits p =
     (if fd = - 1 then Some (Inr ((), p))
      else if fd < XAPIAND_MINIMUM_FILE_DESCRIPTOR B then Some (Inl Configuration_error)
      else if (tracked p fd set_bits AND check_set) \<noteq> check_set
              \<or> (tracked p fd set_bits AND check_unset) \<noteq> 0
        then Some (Inl (Lifecycle_violation msg))
      else Some (Inr ((), p\<lparr>fdes := (fdes p)
        (fd := (if (set_bits AND CLOSED) \<noteq> 0
                then (tracked p fd set_bits OR set_bits) AND NOT (OPENED OR SOCKET)
                else tracked p fd set_bits OR set_bits))\<rparr>)))"

text \<open>
  The macros of the header. With \<^verbatim>\<open>XAPIAND_CHECK_IO_FDES\<close> they call \<open>check\<close>;
  without it they expand to nothing.
  \<^verbatim>\<open>
  #define CHECK_OPEN(fd)          io::check("while opening as file", fd, 0, OPENED | CLOSED, OPENED, ...)
  #define CHECK_OPEN_SOCKET(fd)   io::check("while opening as socket", fd, 0, OPENED | SOCKET | CLOSED, OPENED | SOCKET, ...)
  #define CHECK_CLOSING(fd)       io::check("while closing", fd, OPENED, 0, 0, ...)
  #define CHECK_CLOSE(fd)         io::check("while closing", fd, 0, CLOSED, CLOSED, ...)
  #define CHECK_OPENED(msg, fd)   io::check(msg, fd, OPENED, CLOSED, 0, ...)
  #define CHECK_OPENED_SOCKET(msg, fd) io::check(msg, fd, OPENED | SOCKET, CLOSED, 0, ...)
  \<close>
\<close>

definition CHECK_OPEN :: "build \<Rightarrow> int \<Rightarrow> (unit, 'k) io" where
  "CHECK_OPEN B fd =
     (if check_io_fdes B
      then check B ''while opening as file'' fd 0 (OPENED OR CLOSED) OPENED
      else return_io ())"

definition CHECK_OPEN_SOCKET :: "build \<Rightarrow> int \<Rightarrow> (unit, 'k) io" where
  "CHECK_OPEN_SOCKET B fd =
     (if check_io_fdes B
      then check B ''while opening as socket'' fd 0 (OPENED OR SOCKET OR CLOSED) (OPENED OR SOCKET)
      else return_io ())"

definition CHECK_CLOSING :: "build \<Rightarrow> int \<Rightarrow> (unit, 'k) io" where
  "CHECK_CLOSING B fd =
     (if check_io_fdes B then check B ''while closing'' fd OPENED 0 0 else return_io ())"

definition CHECK_CLOSE :: "build \<Rightarrow> int \<Rightarrow> (unit, 'k) io" where
  "CHECK_CLOSE B fd =
     (if check_io_fdes B then check B ''while closing'' fd 0 CLOSED CLOSED else return_io ())"

definition CHECK_OPENED :: "build \<Rightarrow> string \<Rightarrow> int \<Rightarrow> (unit, 'k) io" where
  "CHECK_OPENED B msg fd =
     (if check_io_fdes B then check B msg fd OPENED CLOSED 0 else return_io ())"

definition CHECK_OPENED_SOCKET :: "build \<Rightarrow> string \<Rightarrow> int \<Rightarrow> (unit, 'k) io" where
  "CHECK_OPENED_SOCKET B msg fd =
     (if check_io_fdes B then check B msg fd (OPENED OR SOCKET) CLOSED 0 else return_io ())"

section \<open>The sync primitive of the build\<close>

text \<open>
  \<^verbatim>\<open>
  #if defined HAVE_FDATASYNC
  #define __io_fsync ::fdatasync
  #elif defined HAVE_FSYNC
  #define __io_fsync ::fsync
  #else
  inline int __noop(int) { return 0; }
  #define __io_fsync io::__noop
  #endif
  \<close>
  \<^verbatim>\<open>__noop\<close> and \<^verbatim>\<open>__io_fsync\<close> are \<open>noop\<close> and \<open>io_fsync\<close> here.
\<close>

definition noop :: "int \<Rightarrow> (int, 'k) io" where
  "noop fd = return_io 0"

definition io_fsync :: "build \<Rightarrow> 'k sys \<Rightarrow> int \<Rightarrow> (int, 'k) io" where
  "io_fsync B sys fd =
     (if have_fdatasync B then syscall sys (Sys_fdatasync fd)
      else if have_fsync B then syscall sys (Sys_fsync fd)
      else noop fd)"

section \<open>The wrappers of the header\<close>

text \<open>
  Each wrapper takes the build and the operating system first, then the arguments of
  the C function. The bodies follow the header line by line: the check macro, then the
  primitive, through \<open>TEMP_FAILURE_RETRY\<close> where the header uses it. The C parameters
  \<^verbatim>\<open>socket\<close> and \<^verbatim>\<open>length\<close> are written \<open>sock\<close> and \<open>len\<close>.
\<close>

definition unlink :: "'k sys \<Rightarrow> addr \<Rightarrow> (int, 'k) io" where
  "unlink sys path = syscall sys (Sys_unlink path)"

definition lseek :: "build \<Rightarrow> 'k sys \<Rightarrow> int \<Rightarrow> int \<Rightarrow> int \<Rightarrow> (int, 'k) io" where
  "lseek B sys fd offset whence =
     bind_io (CHECK_OPENED B ''during lseek()'' fd)
       (\<lambda>_. syscall sys (Sys_lseek fd offset whence))"

definition unchecked_fcntl :: "build \<Rightarrow> 'k sys \<Rightarrow> int \<Rightarrow> int \<Rightarrow> int list \<Rightarrow> (int, 'k) io" where
  "unchecked_fcntl B sys fd cmd args =
     TEMP_FAILURE_RETRY (errnos B) (syscall sys (Sys_fcntl fd cmd args))"

definition fcntl :: "build \<Rightarrow> 'k sys \<Rightarrow> int \<Rightarrow> int \<Rightarrow> int list \<Rightarrow> (int, 'k) io" where
  "fcntl B sys fd cmd args =
     bind_io (CHECK_OPENED B ''during fcntl()'' fd)
       (\<lambda>_. unchecked_fcntl B sys fd cmd args)"

definition fstat :: "build \<Rightarrow> 'k sys \<Rightarrow> int \<Rightarrow> addr \<Rightarrow> (int, 'k) io" where
  "fstat B sys fd buf =
     bind_io (CHECK_OPENED B ''during fstat()'' fd)
       (\<lambda>_. syscall sys (Sys_fstat fd buf))"

definition dup :: "build \<Rightarrow> 'k sys \<Rightarrow> int \<Rightarrow> (int, 'k) io" where
  "dup B sys fd =
     bind_io (CHECK_OPENED B ''during dup()'' fd)
       (\<lambda>_. syscall sys (Sys_dup fd))"

definition dup2 :: "build \<Rightarrow> 'k sys \<Rightarrow> int \<Rightarrow> int \<Rightarrow> (int, 'k) io" where
  "dup2 B sys fd fd2 =
     bind_io (CHECK_OPENED B ''during dup2()'' fd)
       (\<lambda>_. syscall sys (Sys_dup2 fd fd2))"

definition shutdown :: "build \<Rightarrow> 'k sys \<Rightarrow> int \<Rightarrow> int \<Rightarrow> (int, 'k) io" where
  "shutdown B sys sock how =
     bind_io (CHECK_OPENED_SOCKET B ''during shutdown()'' sock)
       (\<lambda>_. syscall sys (Sys_shutdown sock how))"

definition send :: "build \<Rightarrow> 'k sys \<Rightarrow> int \<Rightarrow> addr \<Rightarrow> int \<Rightarrow> int \<Rightarrow> (int, 'k) io" where
  "send B sys sock buffer len flags =
     bind_io (CHECK_OPENED_SOCKET B ''during send()'' sock)
       (\<lambda>_. TEMP_FAILURE_RETRY (errnos B) (syscall sys (Sys_send sock buffer len flags)))"

definition sendto ::
  "build \<Rightarrow> 'k sys \<Rightarrow> int \<Rightarrow> addr \<Rightarrow> int \<Rightarrow> int \<Rightarrow> addr \<Rightarrow> int \<Rightarrow> (int, 'k) io" where
  "sendto B sys sock buffer len flags dest_addr dest_len =
     bind_io (CHECK_OPENED_SOCKET B ''during sendto()'' sock)
       (\<lambda>_. TEMP_FAILURE_RETRY (errnos B)
              (syscall sys (Sys_sendto sock buffer len flags dest_addr dest_len)))"

definition recv :: "build \<Rightarrow> 'k sys \<Rightarrow> int \<Rightarrow> addr \<Rightarrow> int \<Rightarrow> int \<Rightarrow> (int, 'k) io" where
  "recv B sys sock buffer len flags =
     bind_io (CHECK_OPENED_SOCKET B ''during recv()'' sock)
       (\<lambda>_. TEMP_FAILURE_RETRY (errnos B) (syscall sys (Sys_recv sock buffer len flags)))"

definition socket :: "build \<Rightarrow> 'k sys \<Rightarrow> int \<Rightarrow> int \<Rightarrow> int \<Rightarrow> (int, 'k) io" where
  "socket B sys domain type protocol =
     bind_io (syscall sys (Sys_socket domain type protocol))
       (\<lambda>sock. bind_io (CHECK_OPEN_SOCKET B sock) (\<lambda>_. return_io sock))"

definition recvfrom ::
  "build \<Rightarrow> 'k sys \<Rightarrow> int \<Rightarrow> addr \<Rightarrow> int \<Rightarrow> int \<Rightarrow> addr \<Rightarrow> addr \<Rightarrow> (int, 'k) io" where
  "recvfrom B sys sock buffer len flags address address_len =
     bind_io (CHECK_OPENED_SOCKET B ''during recvfrom()'' sock)
       (\<lambda>_. TEMP_FAILURE_RETRY (errnos B)
              (syscall sys (Sys_recvfrom sock buffer len flags address address_len)))"

definition getsockopt ::
  "build \<Rightarrow> 'k sys \<Rightarrow> int \<Rightarrow> int \<Rightarrow> int \<Rightarrow> addr \<Rightarrow> addr \<Rightarrow> (int, 'k) io" where
  "getsockopt B sys sock level option_name option_value option_len =
     bind_io (CHECK_OPENED_SOCKET B ''during getsockopt()'' sock)
       (\<lambda>_. syscall sys (Sys_getsockopt sock level option_name option_value option_len))"

definition setsockopt ::
  "build \<Rightarrow> 'k sys \<Rightarrow> int \<Rightarrow> int \<Rightarrow> int \<Rightarrow> addr \<Rightarrow> int \<Rightarrow> (int, 'k) io" where
  "setsockopt B sys sock level option_name option_value option_len =
     bind_io (CHECK_OPENED_SOCKET B ''during setsockopt()'' sock)
       (\<lambda>_. syscall sys (Sys_setsockopt sock level option_name option_value option_len))"

definition listen :: "build \<Rightarrow> 'k sys \<Rightarrow> int \<Rightarrow> int \<Rightarrow> (int, 'k) io" where
  "listen B sys sock backlog =
     bind_io (CHECK_OPENED_SOCKET B ''during listen()'' sock)
       (\<lambda>_. syscall sys (Sys_listen sock backlog))"

definition accept :: "build \<Rightarrow> 'k sys \<Rightarrow> int \<Rightarrow> addr \<Rightarrow> addr \<Rightarrow> (int, 'k) io" where
  "accept B sys sock address address_len =
     bind_io (CHECK_OPENED_SOCKET B ''during accept()'' sock)
       (\<lambda>_. bind_io (TEMP_FAILURE_RETRY (errnos B)
                      (syscall sys (Sys_accept sock address address_len)))
         (\<lambda>new_socket. bind_io (CHECK_OPEN_SOCKET B new_socket)
           (\<lambda>_. return_io new_socket)))"

definition bind :: "build \<Rightarrow> 'k sys \<Rightarrow> int \<Rightarrow> addr \<Rightarrow> int \<Rightarrow> (int, 'k) io" where
  "bind B sys sock address address_len =
     bind_io (CHECK_OPENED_SOCKET B ''during bind()'' sock)
       (\<lambda>_. syscall sys (Sys_bind sock address address_len))"

definition connect :: "build \<Rightarrow> 'k sys \<Rightarrow> int \<Rightarrow> addr \<Rightarrow> int \<Rightarrow> (int, 'k) io" where
  "connect B sys sock address address_len =
     bind_io (CHECK_OPENED_SOCKET B ''during connect()'' sock)
       (\<lambda>_. TEMP_FAILURE_RETRY (errnos B)
              (syscall sys (Sys_connect sock address address_len)))"

definition unchecked_fsync :: "build \<Rightarrow> 'k sys \<Rightarrow> int \<Rightarrow> (int, 'k) io" where
  "unchecked_fsync B sys fd = TEMP_FAILURE_RETRY (errnos B) (io_fsync B sys fd)"

definition fsync :: "build \<Rightarrow> 'k sys \<Rightarrow> int \<Rightarrow> (int, 'k) io" where
  "fsync B sys fd =
     bind_io (CHECK_OPENED B ''during fsync()'' fd) (\<lambda>_. unchecked_fsync B sys fd)"

definition unchecked_full_fsync :: "build \<Rightarrow> 'k sys \<Rightarrow> int \<Rightarrow> (int, 'k) io" where
  "unchecked_full_fsync B sys fd =
     (case f_fullfsync B of
        Some F_FULLFSYNC \<Rightarrow>
          TEMP_FAILURE_RETRY (errnos B) (syscall sys (Sys_fcntl fd F_FULLFSYNC [0]))
      | None \<Rightarrow> TEMP_FAILURE_RETRY (errnos B) (io_fsync B sys fd))"

definition full_fsync :: "build \<Rightarrow> 'k sys \<Rightarrow> int \<Rightarrow> (int, 'k) io" where
  "full_fsync B sys fd =
     bind_io (CHECK_OPENED B ''during full_fsync()'' fd)
       (\<lambda>_. unchecked_full_fsync B sys fd)"

text \<open>
  Modelled from the spec: the body of \<^verbatim>\<open>io::fallocate\<close> on a build without
  \<^verbatim>\<open>HAVE_FALLOCATE\<close>, where the header only declares it
  (\<^verbatim>\<open>int fallocate(int fd, int mode, off_t offset, off_t len);\<close>). The specification
  says that it falls back to a portable no-op returning success, after the pre-check
  of every wrapper.
\<close>

definition fallocate_fallback :: "build \<Rightarrow> int \<Rightarrow> (int, 'k) io" where
  "fallocate_fallback B fd =
     bind_io (CHECK_OPENED B ''during fallocate()'' fd) (\<lambda>_. return_io 0)"

text \<open>
  \<^verbatim>\<open>
  #ifdef HAVE_FALLOCATE
  inline int fallocate(int fd, int mode, off_t offset, off_t len) {
      CHECK_OPENED("during fallocate()", fd);
      return TEMP_FAILURE_RETRY(::fallocate(fd, mode, offset, len));
  }
  #else
  int fallocate(int fd, int mode, off_t offset, off_t len);
  #endif
  \<close>
  With \<^verbatim>\<open>HAVE_FALLOCATE\<close> it is the inline function of the header; without the
  macro it is \<open>fallocate_fallback\<close>.
\<close>

definition fallocate :: "build \<Rightarrow> 'k sys \<Rightarrow> int \<Rightarrow> int \<Rightarrow> int \<Rightarrow> int \<Rightarrow> (int, 'k) io" where
  "fallocate B sys fd mode offset len =
     (if have_fallocate B
      then bind_io (CHECK_OPENED B ''during fallocate()'' fd)
             (\<lambda>_. TEMP_FAILURE_RETRY (errnos B) (syscall sys (Sys_fallocate fd mode offset len)))
      else fallocate_fallback B fd)"

text \<open>
  \<^verbatim>\<open>
  #ifdef HAVE_POSIX_FADVISE
  inline int fadvise(int fd, off_t offset, off_t len, int advice) {
      CHECK_OPENED("during fadvise()", fd);
      return ::posix_fadvise(fd, offset, len, advice) == 0;
  }
  #else
  inline int fadvise(int fd, off_t, off_t, int) {
      CHECK_OPENED("during fadvise()", fd);
      ignore_unused(fd);
      return 0;
  }
  #endif
  \<close>
\<close>

definition fadvise :: "build \<Rightarrow> 'k sys \<Rightarrow> int \<Rightarrow> int \<Rightarrow> int \<Rightarrow> int \<Rightarrow> (int, 'k) io" where
  "fadvise B sys fd offset len advice =
     (if have_posix_fadvise B
      then bind_io (CHECK_OPENED B ''during fadvise()'' fd)
             (\<lambda>_. bind_io (syscall sys (Sys_posix_fadvise fd offset len advice))
               (\<lambda>r. return_io (if r = 0 then 1 else 0)))
      else bind_io (CHECK_OPENED B ''during fadvise()'' fd) (\<lambda>_. return_io 0))"

section \<open>The wrappers the header only declares\<close>

text \<open>
  Modelled from the spec: the body of \<^verbatim>\<open>io::open\<close>, which the header only declares
  (\<^verbatim>\<open>int open(const char* path, int oflag=O_RDONLY, int mode=0644)\<close>). The
  specification says that on a successful creation call (open, socket, accept) the
  new descriptor is marked in the tracker, as a file for open, and does not list open
  among the calls that go through the retry macro. The body has the shape of
  \<open>socket\<close> in the header, with the macro for files.
\<close>

definition io_open :: "build \<Rightarrow> 'k sys \<Rightarrow> addr \<Rightarrow> int \<Rightarrow> int \<Rightarrow> (int, 'k) io" where
  "io_open B sys path oflag mode =
     bind_io (syscall sys (Sys_open path oflag mode))
       (\<lambda>fd. bind_io (CHECK_OPEN B fd) (\<lambda>_. return_io fd))"

text \<open>
  Modelled from the spec: the body of \<^verbatim>\<open>io::close\<close>, which the header only declares
  (\<^verbatim>\<open>int close(int fd)\<close>). The specification says that closing must observe an open
  descriptor, that the real call follows the pre-check, and that on its success the
  descriptor moves to Closed. The header has one macro for each half:
  \<open>CHECK_CLOSING\<close> asks for \<open>OPENED\<close>, \<open>CHECK_CLOSE\<close> sets \<open>CLOSED\<close>.
\<close>

definition io_close :: "build \<Rightarrow> 'k sys \<Rightarrow> int \<Rightarrow> (int, 'k) io" where
  "io_close B sys fd =
     bind_io (CHECK_CLOSING B fd)
       (\<lambda>_. bind_io (syscall sys (Sys_close fd))
         (\<lambda>ret. if ret = - 1 then return_io ret
                else bind_io (CHECK_CLOSE B fd) (\<lambda>_. return_io ret)))"

section \<open>Concrete platforms and runs\<close>

text \<open>The error numbers of Linux and of macOS, for concrete runs.\<close>

definition linux_errno :: errno_h where
  "linux_errno = \<lparr>EINTR = 4, EAGAIN = 11, EWOULDBLOCK = 11, EPIPE = 32, EINPROGRESS = 115,
     ENETDOWN = 100, EPROTO = 71, ENOPROTOOPT = 92, EHOSTDOWN = 112, ENONET = Some 64,
     EHOSTUNREACH = 113, EOPNOTSUPP = 95, ENETUNREACH = 101, ECONNRESET = 104\<rparr>"

definition macos_errno :: errno_h where
  "macos_errno = \<lparr>EINTR = 4, EAGAIN = 35, EWOULDBLOCK = 35, EPIPE = 32, EINPROGRESS = 36,
     ENETDOWN = 50, EPROTO = 100, ENOPROTOOPT = 42, EHOSTDOWN = 64, ENONET = None,
     EHOSTUNREACH = 65, EOPNOTSUPP = 102, ENETUNREACH = 51, ECONNRESET = 54\<rparr>"

text \<open>
  Four builds: a Linux production build (no \<^verbatim>\<open>F_FULLFSYNC\<close>, \<^verbatim>\<open>fdatasync\<close>
  present), the same with \<^verbatim>\<open>XAPIAND_CHECK_IO_FDES\<close>, a macOS production build
  (\<^verbatim>\<open>F_FULLFSYNC\<close> is 51, no \<^verbatim>\<open>fdatasync\<close>, no \<^verbatim>\<open>posix_fadvise\<close>), and a
  platform with no sync primitive at all.
\<close>

definition linux_build :: build where
  "linux_build = \<lparr>errnos = linux_errno, check_io_fdes = False,
     minimum_file_descriptor_override = None, have_fdatasync = True, have_fsync = True,
     f_fullfsync = None, have_fallocate = True, have_posix_fadvise = True\<rparr>"

definition linux_debug_build :: build where
  "linux_debug_build = linux_build\<lparr>check_io_fdes := True\<rparr>"

definition macos_build :: build where
  "macos_build = \<lparr>errnos = macos_errno, check_io_fdes = False,
     minimum_file_descriptor_override = None, have_fdatasync = False, have_fsync = True,
     f_fullfsync = Some 51, have_fallocate = False, have_posix_fadvise = False\<rparr>"

definition bare_build :: build where
  "bare_build = linux_build\<lparr>have_fdatasync := False, have_fsync := False\<rparr>"

text \<open>
  A scripted operating system: the kernel state is the list of the outcomes of the
  calls to come, each a return value and the error number the call sets (\<open>None\<close>:
  \<^verbatim>\<open>errno\<close> stays as it is). With the script used up, calls return 0.
\<close>

type_synonym script = "(int \<times> int option) list"

definition scripted :: "script sys" where
  "scripted c s =
     (case kernel s of
        [] \<Rightarrow> (0, s)
      | (r, e) # rest \<Rightarrow>
          (r, \<lparr>errno = (case e of None \<Rightarrow> errno s | Some v \<Rightarrow> v), kernel = rest\<rparr>))"

text \<open>
  An operating system whose disk fails: \<^verbatim>\<open>fdatasync\<close> and \<^verbatim>\<open>fsync\<close> return -1
  with \<^verbatim>\<open>EIO\<close> (5), every other call returns 0.
\<close>

definition failing_disk :: "unit sys" where
  "failing_disk c s =
     (case c of
        Sys_fdatasync fd \<Rightarrow> (- 1, s\<lparr>errno := 5\<rparr>)
      | Sys_fsync fd \<Rightarrow> (- 1, s\<lparr>errno := 5\<rparr>)
      | _ \<Rightarrow> (0, s))"

text \<open>
  A process with the given error number, kernel state, tracker registry and flag.
\<close>

definition process_at :: "int \<Rightarrow> 'k \<Rightarrow> (int \<Rightarrow> int) \<Rightarrow> bool \<Rightarrow> 'k process" where
  "process_at e k t b = \<lparr>os = \<lparr>errno = e, kernel = k\<rparr>, fdes = t, ignore_intr = b\<rparr>"

section \<open>Properties of wrappers\<close>

text \<open>
  A wrapper \<open>w\<close> with the pre-check \<open>chk\<close> passes the primitive \<open>c\<close> on
  (\<open>passes_on chk w sys c\<close>) when
  \<^item> an abort of the pre-check is an abort of the wrapper;
  \<^item> where the pre-check lets the call through, the wrapper returns the value the
    primitive returns on the state the wrapper started from, whatever it is, and
    leaves the state of the operating system (\<^verbatim>\<open>errno\<close> included) as the primitive
    left it, and nothing else of the process changes;
  \<^item> and the wrapper returns nothing but that.
\<close>

definition passes_on :: "(unit, 'k) io \<Rightarrow> (int, 'k) io \<Rightarrow> 'k sys \<Rightarrow> call \<Rightarrow> bool" where
  "passes_on chk w sys c \<longleftrightarrow>
     (\<forall>p a. chk p = Some (Inl a) \<longrightarrow> w p = Some (Inl a))
     \<and> (\<forall>p r k. chk p = Some (Inr ((), p)) \<and> sys c (os p) = (r, k) \<longrightarrow>
            w p = Some (Inr (r, p\<lparr>os := k\<rparr>)))
     \<and> (\<forall>p r p'. w p = Some (Inr (r, p')) \<longrightarrow> sys c (os p) = (r, os p'))"

text \<open>
  A wrapper that goes through the retry macro passes the last call of the primitive
  on (\<open>passes_on_last E chk w sys c\<close>) when
  \<^item> an abort of the pre-check is an abort of the wrapper;
  \<^item> where the pre-check lets the call through and the primitive returns anything but
    an interruption, success or failure, the wrapper returns that value and leaves
    the state of the operating system as the primitive left it;
  \<^item> where the primitive is interrupted, the wrapper does what it does from the state
    the interrupted call left;
  \<^item> and the wrapper returns nothing but a result of the primitive that is no
    interruption.
\<close>

definition passes_on_last ::
  "errno_h \<Rightarrow> (unit, 'k) io \<Rightarrow> (int, 'k) io \<Rightarrow> 'k sys \<Rightarrow> call \<Rightarrow> bool" where
  "passes_on_last E chk w sys c \<longleftrightarrow>
     (\<forall>p a. chk p = Some (Inl a) \<longrightarrow> w p = Some (Inl a))
     \<and> (\<forall>p r k. chk p = Some (Inr ((), p)) \<and> sys c (os p) = (r, k)
            \<and> \<not> (r = - 1 \<and> errno k = EINTR E) \<longrightarrow>
            w p = Some (Inr (r, p\<lparr>os := k\<rparr>)))
     \<and> (\<forall>p k. chk p = Some (Inr ((), p)) \<and> sys c (os p) = (- 1, k) \<and> errno k = EINTR E \<longrightarrow>
            w p = w (p\<lparr>os := k\<rparr>))
     \<and> (\<forall>p r p'. w p = Some (Inr (r, p')) \<longrightarrow>
            (\<exists>k. sys c k = (r, os p')) \<and> \<not> (r = - 1 \<and> errno (os p') = EINTR E))"

text \<open>
  \<open>keeps_tracker w\<close>: whenever \<open>w\<close> returns, the registry of the tracker is as it
  was.
\<close>

definition keeps_tracker :: "('a, 'k) io \<Rightarrow> bool" where
  "keeps_tracker w \<longleftrightarrow> (\<forall>p r p'. w p = Some (Inr (r, p')) \<longrightarrow> fdes p' = fdes p)"

section \<open>Auxiliary facts\<close>

subsection \<open>Sequencing\<close>

lemma bind_io_Inr: "m p = Some (Inr (v, p')) \<Longrightarrow> bind_io m f p = f v p'"
  by (simp add: bind_io_def)

lemma bind_io_Inl: "m p = Some (Inl a) \<Longrightarrow> bind_io m f p = Some (Inl a)"
  by (simp add: bind_io_def)

lemma bind_io_return: "bind_io (return_io v) f = f v"
  by (rule ext) (simp add: bind_io_def return_io_def)

lemma bind_io_unit: "bind_io m return_io = m"
  by (rule ext) (simp add: bind_io_def return_io_def split: option.splits sum.splits)

lemma bind_io_returns:
  "bind_io m f p = Some (Inr (v, q)) \<longleftrightarrow>
     (\<exists>u p'. m p = Some (Inr (u, p')) \<and> f u p' = Some (Inr (v, q)))"
  by (auto simp: bind_io_def split: option.splits sum.splits)

lemma syscall_returns:
  "syscall sys c p = Some (Inr (r, p')) \<longleftrightarrow> (\<exists>k. sys c (os p) = (r, k) \<and> p' = p\<lparr>os := k\<rparr>)"
  by (auto simp: syscall_def split: prod.splits)

subsection \<open>Bits\<close>

lemma bits_values:
  "(OPENED OR SOCKET) AND CLOSED = 0" "OPENED AND CLOSED = 0" "0 AND CLOSED = 0"
  "CLOSED AND CLOSED \<noteq> 0"
  "(OPENED OR SOCKET) AND OPENED = OPENED" "OPENED AND OPENED = OPENED"
  "OPENED AND (OPENED OR SOCKET) \<noteq> OPENED OR SOCKET"
  "(OPENED OR CLOSED) AND NOT (OPENED OR SOCKET) = CLOSED"
  "(OPENED OR SOCKET OR CLOSED) AND NOT (OPENED OR SOCKET) = CLOSED"
  by (simp_all add: OPENED_def SOCKET_def CLOSED_def)

lemma opened_bit_set:
  "(s OR OPENED) AND (OPENED OR CLOSED) \<noteq> 0"
  "(s OR OPENED) AND (OPENED OR SOCKET OR CLOSED) \<noteq> 0"
  "(s OR (OPENED OR SOCKET)) AND (OPENED OR CLOSED) \<noteq> 0"
  "(s OR (OPENED OR SOCKET)) AND (OPENED OR SOCKET OR CLOSED) \<noteq> 0"
proof -
  have odd_nonzero: "x \<noteq> 0" if "odd x" for x :: int
    using that by auto
  show "(s OR OPENED) AND (OPENED OR CLOSED) \<noteq> 0"
    "(s OR OPENED) AND (OPENED OR SOCKET OR CLOSED) \<noteq> 0"
    "(s OR (OPENED OR SOCKET)) AND (OPENED OR CLOSED) \<noteq> 0"
    "(s OR (OPENED OR SOCKET)) AND (OPENED OR SOCKET OR CLOSED) \<noteq> 0"
    by (rule odd_nonzero, simp add: OPENED_def SOCKET_def CLOSED_def even_and_iff even_or_iff)+
qed

lemma closed_bit_set:
  "((s OR CLOSED) AND NOT (OPENED OR SOCKET)) AND c \<noteq> 0" if "bit c 2"
proof
  assume "((s OR CLOSED) AND NOT (OPENED OR SOCKET)) AND c = 0"
  then have "bit (((s OR CLOSED) AND NOT (OPENED OR SOCKET)) AND c) 2 = bit (0::int) 2"
    by simp
  moreover have "bit CLOSED 2" "\<not> bit (OPENED OR SOCKET) 2"
    by (simp_all add: OPENED_def SOCKET_def CLOSED_def)
  ultimately show False
    using that unfolding bit_and_iff bit_or_iff bit_not_iff by simp
qed

lemma closed_masks:
  "bit CLOSED 2" "bit (OPENED OR CLOSED) 2" "bit (OPENED OR SOCKET OR CLOSED) 2"
  by (simp_all add: OPENED_def SOCKET_def CLOSED_def)

lemma closed_not_opened:
  "((s OR CLOSED) AND NOT (OPENED OR SOCKET)) AND OPENED \<noteq> OPENED"
proof
  assume "((s OR CLOSED) AND NOT (OPENED OR SOCKET)) AND OPENED = OPENED"
  then have "odd (((s OR CLOSED) AND NOT (OPENED OR SOCKET)) AND OPENED)"
    by (simp add: OPENED_def)
  then show False
    by (simp add: OPENED_def SOCKET_def CLOSED_def even_and_iff even_or_iff)
qed

lemma closed_nonzero: "CLOSED \<noteq> 0"
  by (simp add: CLOSED_def)

subsection \<open>The tracker\<close>

lemma minimum_default:
  "minimum_file_descriptor_override B = None \<Longrightarrow> XAPIAND_MINIMUM_FILE_DESCRIPTOR B = 3"
  by (simp add: XAPIAND_MINIMUM_FILE_DESCRIPTOR_def STDERR_FILENO_def)

lemma set_masks:
  "(OPENED AND OPENED) \<noteq> 0" "((OPENED OR SOCKET) AND OPENED) \<noteq> 0"
  "(CLOSED AND OPENED) = 0" "((0::int) AND OPENED) = 0"
  by (simp_all add: OPENED_def SOCKET_def CLOSED_def)

lemma tracked_simps:
  "tracked p fd 0 = fdes p fd" "tracked p fd CLOSED = fdes p fd"
  "(fdes p fd AND CLOSED) = 0 \<Longrightarrow> tracked p fd sb = fdes p fd"
  "(fdes p fd AND CLOSED) \<noteq> 0 \<Longrightarrow> tracked p fd OPENED = 0"
  "(fdes p fd AND CLOSED) \<noteq> 0 \<Longrightarrow> tracked p fd (OPENED OR SOCKET) = 0"
  by (simp_all add: tracked_def OPENED_def SOCKET_def CLOSED_def)

lemma tracked_os: "tracked (p\<lparr>os := k\<rparr>) fd sb = tracked p fd sb"
  by (simp add: tracked_def)

lemma marked:
  "(s AND (OPENED OR SOCKET OR CLOSED)) = 0 \<Longrightarrow>
   ((s OR (OPENED OR SOCKET)) AND (OPENED OR SOCKET OR CLOSED)) = (OPENED OR SOCKET)"
  "(s AND (OPENED OR CLOSED)) = 0 \<Longrightarrow> ((s OR OPENED) AND (OPENED OR CLOSED)) = OPENED"
  by (simp_all add: bit.conj_disj_distrib2 OPENED_def SOCKET_def CLOSED_def)

lemma check_sentinel: "check B msg (- 1) cs cu sb p = Some (Inr ((), p))"
  by (simp add: check_def)

lemma check_below:
  "fd \<noteq> - 1 \<Longrightarrow> fd < XAPIAND_MINIMUM_FILE_DESCRIPTOR B \<Longrightarrow>
   check B msg fd cs cu sb p = Some (Inl Configuration_error)"
  by (simp add: check_def)

lemma check_violation:
  "fd \<noteq> - 1 \<Longrightarrow> XAPIAND_MINIMUM_FILE_DESCRIPTOR B \<le> fd \<Longrightarrow>
   (tracked p fd sb AND cs) \<noteq> cs \<or> (tracked p fd sb AND cu) \<noteq> 0 \<Longrightarrow>
   check B msg fd cs cu sb p = Some (Inl (Lifecycle_violation msg))"
  by (simp add: check_def)

lemma check_passes:
  "fd \<noteq> - 1 \<Longrightarrow> XAPIAND_MINIMUM_FILE_DESCRIPTOR B \<le> fd \<Longrightarrow>
   (tracked p fd sb AND cs) = cs \<Longrightarrow> (tracked p fd sb AND cu) = 0 \<Longrightarrow>
   check B msg fd cs cu sb p =
     Some (Inr ((), p\<lparr>fdes := (fdes p)
       (fd := (if (sb AND CLOSED) \<noteq> 0
               then (tracked p fd sb OR sb) AND NOT (OPENED OR SOCKET)
               else tracked p fd sb OR sb))\<rparr>))"
  by (simp add: check_def)

lemma check_returns:
  assumes "check B msg fd cs cu sb p = Some (Inr (u, p'))" "fd \<noteq> - 1"
  shows "XAPIAND_MINIMUM_FILE_DESCRIPTOR B \<le> fd"
    and "(tracked p fd sb AND cs) = cs" and "(tracked p fd sb AND cu) = 0"
    and "p' = p\<lparr>fdes := (fdes p)
       (fd := (if (sb AND CLOSED) \<noteq> 0
               then (tracked p fd sb OR sb) AND NOT (OPENED OR SOCKET)
               else tracked p fd sb OR sb))\<rparr>"
  using assms by (auto simp: check_def split: if_splits)

lemma check_aborts_or_returns:
  "(\<exists>a. check B msg fd cs cu sb p = Some (Inl a)) \<or> (\<exists>p'. check B msg fd cs cu sb p = Some (Inr ((), p')))"
  by (simp add: check_def)

lemma check_os:
  "check B msg fd cs cu 0 p = Some (Inr ((), p)) \<Longrightarrow>
   check B msg fd cs cu 0 (p\<lparr>os := k\<rparr>) = Some (Inr ((), p\<lparr>os := k\<rparr>))"
  by (auto simp: check_def tracked_def split: if_splits)

lemma check_zero_same:
  assumes "check B msg fd cs cu 0 p = Some (Inr (u, p'))"
  shows "p' = p"
proof (cases "fd = - 1")
  case True
  with assms show ?thesis by (simp add: check_def)
next
  case False
  from check_returns(4)[OF assms False] show ?thesis by (simp add: tracked_simps)
qed

lemma CHECK_OPENED_same: "CHECK_OPENED B msg fd p = Some (Inr (u, p')) \<Longrightarrow> p' = p"
  by (auto simp: CHECK_OPENED_def return_io_def split: if_splits dest: check_zero_same)

lemma CHECK_OPENED_SOCKET_same:
  "CHECK_OPENED_SOCKET B msg fd p = Some (Inr (u, p')) \<Longrightarrow> p' = p"
  by (auto simp: CHECK_OPENED_SOCKET_def return_io_def split: if_splits dest: check_zero_same)

lemma CHECK_CLOSING_same: "CHECK_CLOSING B fd p = Some (Inr (u, p')) \<Longrightarrow> p' = p"
  by (auto simp: CHECK_CLOSING_def return_io_def split: if_splits dest: check_zero_same)

lemma CHECK_os:
  "CHECK_OPENED B msg fd p = Some (Inr ((), p)) \<Longrightarrow>
     CHECK_OPENED B msg fd (p\<lparr>os := k\<rparr>) = Some (Inr ((), p\<lparr>os := k\<rparr>))"
  "CHECK_OPENED_SOCKET B msg fd p = Some (Inr ((), p)) \<Longrightarrow>
     CHECK_OPENED_SOCKET B msg fd (p\<lparr>os := k\<rparr>) = Some (Inr ((), p\<lparr>os := k\<rparr>))"
  by (auto simp: CHECK_OPENED_def CHECK_OPENED_SOCKET_def return_io_def check_os)

text \<open>What the opening checks leave when they pass.\<close>

lemma CHECK_OPEN_returns:
  assumes "CHECK_OPEN B fd p = Some (Inr (u, p'))"
  shows "os p' = os p" "ignore_intr p' = ignore_intr p"
    and "check_io_fdes B \<Longrightarrow> fd \<noteq> - 1 \<Longrightarrow> XAPIAND_MINIMUM_FILE_DESCRIPTOR B \<le> fd"
    and "check_io_fdes B \<Longrightarrow>
       fdes p' = (if fd = - 1 then fdes p else (fdes p)(fd := tracked p fd OPENED OR OPENED))"
    and "check_io_fdes B \<Longrightarrow> fd \<noteq> - 1 \<Longrightarrow> (fdes p' fd AND (OPENED OR CLOSED)) = OPENED"
proof -
  show "os p' = os p" "ignore_intr p' = ignore_intr p"
    using assms by (auto simp: CHECK_OPEN_def return_io_def check_def split: if_splits)
  show f: "fdes p' = (if fd = - 1 then fdes p else (fdes p)(fd := tracked p fd OPENED OR OPENED))"
    if "check_io_fdes B"
  proof (cases "fd = - 1")
    case True
    with assms that show ?thesis by (simp add: CHECK_OPEN_def check_def)
  next
    case False
    from assms that
    have "check B ''while opening as file'' fd 0 (OPENED OR CLOSED) OPENED p = Some (Inr (u, p'))"
      by (simp add: CHECK_OPEN_def)
    from check_returns(4)[OF this False] False show ?thesis
      by (simp add: bits_values)
  qed
  show "XAPIAND_MINIMUM_FILE_DESCRIPTOR B \<le> fd" if "check_io_fdes B" "fd \<noteq> - 1"
    using assms that check_returns(1)[of B _ fd 0 "OPENED OR CLOSED" OPENED p u p']
    by (simp add: CHECK_OPEN_def)
  show "(fdes p' fd AND (OPENED OR CLOSED)) = OPENED" if "check_io_fdes B" "fd \<noteq> - 1"
  proof -
    from assms that
    have "(tracked p fd OPENED AND (OPENED OR CLOSED)) = 0"
      using check_returns(3)[of B _ fd 0 "OPENED OR CLOSED" OPENED p u p']
      by (simp add: CHECK_OPEN_def)
    with f[OF that(1)] that(2) show ?thesis by (simp add: marked)
  qed
qed

lemma CHECK_OPEN_SOCKET_returns:
  assumes "CHECK_OPEN_SOCKET B fd p = Some (Inr (u, p'))"
  shows "os p' = os p" "ignore_intr p' = ignore_intr p"
    and "check_io_fdes B \<Longrightarrow> fd \<noteq> - 1 \<Longrightarrow> XAPIAND_MINIMUM_FILE_DESCRIPTOR B \<le> fd"
    and "check_io_fdes B \<Longrightarrow>
       fdes p' = (if fd = - 1 then fdes p
                  else (fdes p)(fd := tracked p fd (OPENED OR SOCKET) OR (OPENED OR SOCKET)))"
    and "check_io_fdes B \<Longrightarrow> fd \<noteq> - 1 \<Longrightarrow>
       (fdes p' fd AND (OPENED OR SOCKET OR CLOSED)) = (OPENED OR SOCKET)"
proof -
  show "os p' = os p" "ignore_intr p' = ignore_intr p"
    using assms by (auto simp: CHECK_OPEN_SOCKET_def return_io_def check_def split: if_splits)
  show f: "fdes p' = (if fd = - 1 then fdes p
                  else (fdes p)(fd := tracked p fd (OPENED OR SOCKET) OR (OPENED OR SOCKET)))"
    if "check_io_fdes B"
  proof (cases "fd = - 1")
    case True
    with assms that show ?thesis by (simp add: CHECK_OPEN_SOCKET_def check_def)
  next
    case False
    from assms that
    have "check B ''while opening as socket'' fd 0 (OPENED OR SOCKET OR CLOSED) (OPENED OR SOCKET) p
          = Some (Inr (u, p'))"
      by (simp add: CHECK_OPEN_SOCKET_def)
    from check_returns(4)[OF this False] False show ?thesis
      by (simp add: bits_values)
  qed
  show "XAPIAND_MINIMUM_FILE_DESCRIPTOR B \<le> fd" if "check_io_fdes B" "fd \<noteq> - 1"
    using assms that
      check_returns(1)[of B _ fd 0 "OPENED OR SOCKET OR CLOSED" "OPENED OR SOCKET" p u p']
    by (simp add: CHECK_OPEN_SOCKET_def)
  show "(fdes p' fd AND (OPENED OR SOCKET OR CLOSED)) = (OPENED OR SOCKET)"
    if "check_io_fdes B" "fd \<noteq> - 1"
  proof -
    from assms that
    have "(tracked p fd (OPENED OR SOCKET) AND (OPENED OR SOCKET OR CLOSED)) = 0"
      using check_returns(3)[of B _ fd 0 "OPENED OR SOCKET OR CLOSED" "OPENED OR SOCKET" p u p']
      by (simp add: CHECK_OPEN_SOCKET_def)
    with f[OF that(1)] that(2) show ?thesis by (simp add: marked)
  qed
qed

lemma CHECK_CLOSE_returns:
  assumes "check_io_fdes B" "fd \<noteq> - 1" "CHECK_CLOSE B fd p = Some (Inr (u, p'))"
  shows "XAPIAND_MINIMUM_FILE_DESCRIPTOR B \<le> fd"
    "fdes p' fd = ((fdes p fd OR CLOSED) AND NOT (OPENED OR SOCKET))"
    "p' = p\<lparr>fdes := (fdes p)(fd := (fdes p fd OR CLOSED) AND NOT (OPENED OR SOCKET))\<rparr>"
proof -
  from assms have c: "check B ''while closing'' fd 0 CLOSED CLOSED p = Some (Inr (u, p'))"
    by (simp add: CHECK_CLOSE_def)
  from check_returns(1)[OF c assms(2)] show "XAPIAND_MINIMUM_FILE_DESCRIPTOR B \<le> fd" .
  from check_returns(4)[OF c assms(2)]
  show "p' = p\<lparr>fdes := (fdes p)(fd := (fdes p fd OR CLOSED) AND NOT (OPENED OR SOCKET))\<rparr>"
    by (simp add: closed_nonzero tracked_simps)
  then show "fdes p' fd = ((fdes p fd OR CLOSED) AND NOT (OPENED OR SOCKET))" by simp
qed


text \<open>Reading the bits of a state.\<close>

lemma open_bits:
  "(s AND (OPENED OR CLOSED)) = OPENED \<Longrightarrow> (s AND OPENED) = OPENED \<and> (s AND CLOSED) = 0"
  "(s AND (OPENED OR SOCKET OR CLOSED)) = (OPENED OR SOCKET) \<Longrightarrow>
     (s AND OPENED) = OPENED \<and> (s AND CLOSED) = 0
     \<and> (s AND (OPENED OR SOCKET)) = (OPENED OR SOCKET)"
proof -
  have a: "(s AND 1) = ((s AND 5) AND 1)" "(s AND 4) = ((s AND 5) AND 4)"
    "(s AND 1) = ((s AND 7) AND 1)" "(s AND 4) = ((s AND 7) AND 4)"
    "(s AND 3) = ((s AND 7) AND 3)"
    by (simp_all add: and.assoc)
  show "(s AND (OPENED OR CLOSED)) = OPENED \<Longrightarrow> (s AND OPENED) = OPENED \<and> (s AND CLOSED) = 0"
    using a(1,2) by (simp add: OPENED_def CLOSED_def)
  show "(s AND (OPENED OR SOCKET OR CLOSED)) = (OPENED OR SOCKET) \<Longrightarrow>
     (s AND OPENED) = OPENED \<and> (s AND CLOSED) = 0
     \<and> (s AND (OPENED OR SOCKET)) = (OPENED OR SOCKET)"
    using a(3,4,5) by (simp add: OPENED_def SOCKET_def CLOSED_def)
qed

lemma opened_masks:
  assumes "(s AND OPENED) = OPENED"
  shows "(s AND (OPENED OR CLOSED)) \<noteq> 0" "(s AND (OPENED OR SOCKET OR CLOSED)) \<noteq> 0"
proof -
  from assms have "odd s" by (simp add: OPENED_def and_one_eq mod_2_eq_odd split: if_splits)
  then have "odd (s AND (OPENED OR CLOSED))" "odd (s AND (OPENED OR SOCKET OR CLOSED))"
    by (simp_all add: OPENED_def SOCKET_def CLOSED_def even_and_iff even_or_iff)
  then show "(s AND (OPENED OR CLOSED)) \<noteq> 0" "(s AND (OPENED OR SOCKET OR CLOSED)) \<noteq> 0"
    by auto
qed

text \<open>The transitions of the tracker, macro by macro.\<close>

lemma opened_rejects_open:
  assumes "check_io_fdes B" "fd \<noteq> - 1" "XAPIAND_MINIMUM_FILE_DESCRIPTOR B \<le> fd"
    and "(fdes p fd AND OPENED) = OPENED" "(fdes p fd AND CLOSED) = 0"
  shows "CHECK_OPEN B fd p = Some (Inl (Lifecycle_violation ''while opening as file''))"
    and "CHECK_OPEN_SOCKET B fd p = Some (Inl (Lifecycle_violation ''while opening as socket''))"
  using assms opened_masks[OF assms(4)]
  by (auto simp: CHECK_OPEN_def CHECK_OPEN_SOCKET_def tracked_simps intro!: check_violation)

lemma not_opened_rejects_closing:
  assumes "check_io_fdes B" "fd \<noteq> - 1" "XAPIAND_MINIMUM_FILE_DESCRIPTOR B \<le> fd"
    and "(fdes p fd AND OPENED) \<noteq> OPENED"
  shows "CHECK_CLOSING B fd p = Some (Inl (Lifecycle_violation ''while closing''))"
  using assms by (simp add: CHECK_CLOSING_def check_violation tracked_simps)

lemma closed_rejects:
  assumes "check_io_fdes B" "fd \<noteq> - 1" "XAPIAND_MINIMUM_FILE_DESCRIPTOR B \<le> fd"
    and "(fdes p fd AND CLOSED) \<noteq> 0"
  shows "CHECK_CLOSE B fd p = Some (Inl (Lifecycle_violation ''while closing''))"
    and "CHECK_OPENED B msg fd p = Some (Inl (Lifecycle_violation msg))"
    and "CHECK_OPENED_SOCKET B msg fd p = Some (Inl (Lifecycle_violation msg))"
  using assms
  by (simp_all add: CHECK_CLOSE_def CHECK_OPENED_def CHECK_OPENED_SOCKET_def check_violation
      tracked_simps)

lemma closed_accepts_open:
  assumes "check_io_fdes B" "fd \<noteq> - 1" "XAPIAND_MINIMUM_FILE_DESCRIPTOR B \<le> fd"
    and "(fdes p fd AND CLOSED) \<noteq> 0"
  shows "CHECK_OPEN B fd p = Some (Inr ((), p\<lparr>fdes := (fdes p)(fd := OPENED)\<rparr>))"
    and "CHECK_OPEN_SOCKET B fd p = Some (Inr ((), p\<lparr>fdes := (fdes p)(fd := OPENED OR SOCKET)\<rparr>))"
  using assms
  by (simp_all add: CHECK_OPEN_def CHECK_OPEN_SOCKET_def check_passes bits_values tracked_simps)

lemma fresh_accepts_open:
  assumes "check_io_fdes B" "fd \<noteq> - 1" "XAPIAND_MINIMUM_FILE_DESCRIPTOR B \<le> fd" "fdes p fd = 0"
  shows "CHECK_OPEN B fd p = Some (Inr ((), p\<lparr>fdes := (fdes p)(fd := OPENED)\<rparr>))"
    and "CHECK_OPEN_SOCKET B fd p = Some (Inr ((), p\<lparr>fdes := (fdes p)(fd := OPENED OR SOCKET)\<rparr>))"
  using assms
  by (simp_all add: CHECK_OPEN_def CHECK_OPEN_SOCKET_def check_passes bits_values tracked_simps)

lemma opened_accepts_close:
  assumes "check_io_fdes B" "fd \<noteq> - 1" "XAPIAND_MINIMUM_FILE_DESCRIPTOR B \<le> fd"
    and "(fdes p fd AND OPENED) = OPENED" "(fdes p fd AND CLOSED) = 0"
  shows "CHECK_CLOSING B fd p = Some (Inr ((), p))"
    and "fdes p' = fdes p \<Longrightarrow>
         CHECK_CLOSE B fd p' = Some (Inr ((), p'\<lparr>fdes := (fdes p')
           (fd := (fdes p' fd OR CLOSED) AND NOT (OPENED OR SOCKET))\<rparr>))"
proof -
  have "check B ''while closing'' fd OPENED 0 0 p = Some (Inr ((), p\<lparr>fdes := (fdes p)(fd := fdes p fd)\<rparr>))"
    using check_passes[OF assms(2,3), of p 0 OPENED 0 "''while closing''"] assms(4)
    by (simp add: tracked_simps)
  with assms(1) show "CHECK_CLOSING B fd p = Some (Inr ((), p))"
    by (simp add: CHECK_CLOSING_def)
  show "CHECK_CLOSE B fd p' = Some (Inr ((), p'\<lparr>fdes := (fdes p')
           (fd := (fdes p' fd OR CLOSED) AND NOT (OPENED OR SOCKET))\<rparr>))"
    if "fdes p' = fdes p"
    using check_passes[OF assms(2,3), of p' CLOSED 0 CLOSED "''while closing''"] assms(1,5) that
    by (simp add: CHECK_CLOSE_def closed_nonzero tracked_simps)
qed

lemma closed_state:
  "fdes p fd = OPENED \<or> fdes p fd = (OPENED OR SOCKET) \<Longrightarrow>
   ((fdes p fd OR CLOSED) AND NOT (OPENED OR SOCKET)) = CLOSED"
  by (auto simp: OPENED_def SOCKET_def CLOSED_def)

lemma socket_accepts_file_op:
  assumes "check_io_fdes B" "fd \<noteq> - 1" "XAPIAND_MINIMUM_FILE_DESCRIPTOR B \<le> fd"
    and "fdes p fd = (OPENED OR SOCKET)"
  shows "CHECK_OPENED B msg fd p = Some (Inr ((), p))"
proof -
  from assms(4) have "(tracked p fd 0 AND OPENED) = OPENED" "(tracked p fd 0 AND CLOSED) = 0"
    by (simp_all add: bits_values tracked_simps)
  from check_passes[OF assms(2,3) this, of msg] assms(1) show ?thesis
    by (simp add: CHECK_OPENED_def tracked_simps)
qed

lemma file_rejects_socket_op:
  assumes "check_io_fdes B" "fd \<noteq> - 1" "XAPIAND_MINIMUM_FILE_DESCRIPTOR B \<le> fd"
    and "fdes p fd = OPENED"
  shows "CHECK_OPENED_SOCKET B msg fd p = Some (Inl (Lifecycle_violation msg))"
  using assms by (simp add: CHECK_OPENED_SOCKET_def check_violation bits_values tracked_simps)

lemma file_accepts_file_op:
  assumes "check_io_fdes B" "fd \<noteq> - 1" "XAPIAND_MINIMUM_FILE_DESCRIPTOR B \<le> fd"
    and "fdes p fd = OPENED"
  shows "CHECK_OPENED B msg fd p = Some (Inr ((), p))"
proof -
  from assms(4) have "(tracked p fd 0 AND OPENED) = OPENED" "(tracked p fd 0 AND CLOSED) = 0"
    by (simp_all add: bits_values tracked_simps)
  from check_passes[OF assms(2,3) this, of msg] assms(1) show ?thesis
    by (simp add: CHECK_OPENED_def tracked_simps)
qed

lemma socket_accepts_socket_op:
  assumes "check_io_fdes B" "fd \<noteq> - 1" "XAPIAND_MINIMUM_FILE_DESCRIPTOR B \<le> fd"
    and "fdes p fd = (OPENED OR SOCKET)"
  shows "CHECK_OPENED_SOCKET B msg fd p = Some (Inr ((), p))"
proof -
  from assms(4) have "(tracked p fd 0 AND (OPENED OR SOCKET)) = (OPENED OR SOCKET)"
    "(tracked p fd 0 AND CLOSED) = 0"
    by (simp_all add: bits_values tracked_simps)
  from check_passes[OF assms(2,3) this, of msg] assms(1) show ?thesis
    by (simp add: CHECK_OPENED_SOCKET_def tracked_simps)
qed

text \<open>Checks in the production build do nothing.\<close>

lemma production_checks:
  assumes "\<not> check_io_fdes B"
  shows "CHECK_OPENED B msg fd = return_io ()" "CHECK_OPENED_SOCKET B msg fd = return_io ()"
    "CHECK_OPEN B fd = return_io ()" "CHECK_OPEN_SOCKET B fd = return_io ()"
    "CHECK_CLOSING B fd = return_io ()" "CHECK_CLOSE B fd = return_io ()"
  using assms
  by (simp_all add: CHECK_OPENED_def CHECK_OPENED_SOCKET_def CHECK_OPEN_def
      CHECK_OPEN_SOCKET_def CHECK_CLOSING_def CHECK_CLOSE_def)

text \<open>Every check either aborts or returns.\<close>

lemma CHECK_total:
  "(\<exists>a. CHECK_OPENED B msg fd p = Some (Inl a)) \<or> CHECK_OPENED B msg fd p = Some (Inr ((), p))"
  "(\<exists>a. CHECK_OPENED_SOCKET B msg fd p = Some (Inl a))
     \<or> CHECK_OPENED_SOCKET B msg fd p = Some (Inr ((), p))"
  "(\<exists>a. CHECK_CLOSING B fd p = Some (Inl a)) \<or> CHECK_CLOSING B fd p = Some (Inr ((), p))"
proof -
  have z: "(\<exists>a. check B m fd cs cu 0 p = Some (Inl a)) \<or> check B m fd cs cu 0 p = Some (Inr ((), p))"
    for m cs cu
    using check_aborts_or_returns[of B m fd cs cu 0 p] check_zero_same[of B m fd cs cu p]
    by auto
  show "(\<exists>a. CHECK_OPENED B msg fd p = Some (Inl a)) \<or> CHECK_OPENED B msg fd p = Some (Inr ((), p))"
    using z by (simp add: CHECK_OPENED_def return_io_def)
  show "(\<exists>a. CHECK_OPENED_SOCKET B msg fd p = Some (Inl a))
     \<or> CHECK_OPENED_SOCKET B msg fd p = Some (Inr ((), p))"
    using z by (simp add: CHECK_OPENED_SOCKET_def return_io_def)
  show "(\<exists>a. CHECK_CLOSING B fd p = Some (Inl a)) \<or> CHECK_CLOSING B fd p = Some (Inr ((), p))"
    using z by (simp add: CHECK_CLOSING_def return_io_def)
qed

subsection \<open>The retry loop\<close>

lemma retry_step:
  "exp p = Some (Inr (err, p')) \<Longrightarrow>
   TEMP_FAILURE_RETRY E exp p =
     (if err = - 1 \<and> errno (os p') = EINTR E then TEMP_FAILURE_RETRY E exp p'
      else Some (Inr (err, p')))"
  by (subst TEMP_FAILURE_RETRY.simps) simp

lemma retry_interrupted:
  "exp p = Some (Inr (- 1, p')) \<Longrightarrow> errno (os p') = EINTR E \<Longrightarrow>
   TEMP_FAILURE_RETRY E exp p = TEMP_FAILURE_RETRY E exp p'"
  by (simp add: retry_step)

lemma retry_returned:
  "exp p = Some (Inr (r, p')) \<Longrightarrow> \<not> (r = - 1 \<and> errno (os p') = EINTR E) \<Longrightarrow>
   TEMP_FAILURE_RETRY E exp p = Some (Inr (r, p'))"
  by (auto simp: retry_step)

lemma retry_result:
  assumes "TEMP_FAILURE_RETRY E exp p = Some y"
  shows "case y of Inl a \<Rightarrow> True
         | Inr (r, q) \<Rightarrow> \<not> (r = - 1 \<and> errno (os q) = EINTR E) \<and> (\<exists>p'. exp p' = Some (Inr (r, q)))"
proof (rule TEMP_FAILURE_RETRY.raw_induct
        [where P = "\<lambda>E exp p y. case y of Inl a \<Rightarrow> True
           | Inr (r, q) \<Rightarrow> \<not> (r = - 1 \<and> errno (os q) = EINTR E) \<and> (\<exists>p'. exp p' = Some (Inr (r, q)))",
         OF _ assms], goal_cases)
  case (1 retry E exp p y)
  from 1(2) show ?case
    by (auto split: option.splits sum.splits prod.splits if_splits dest: 1(1))
qed

lemma retry_not_interrupted:
  "TEMP_FAILURE_RETRY E exp p = Some (Inr (r, q)) \<Longrightarrow> \<not> (r = - 1 \<and> errno (os q) = EINTR E)"
  using retry_result[of E exp p "Inr (r, q)"] by simp

lemma retry_from_exp:
  "TEMP_FAILURE_RETRY E exp p = Some (Inr (r, q)) \<Longrightarrow> \<exists>p'. exp p' = Some (Inr (r, q))"
  using retry_result[of E exp p "Inr (r, q)"] by simp

lemma retry_invariant:
  assumes "TEMP_FAILURE_RETRY E exp p = Some (Inr (r, q))"
    and "\<And>p v p'. exp p = Some (Inr (v, p')) \<Longrightarrow> f p' = f p"
  shows "f q = f p"
proof -
  have "case y of Inl a \<Rightarrow> True
        | Inr (r, q) \<Rightarrow> (\<forall>p v p'. exp p = Some (Inr (v, p')) \<longrightarrow> f p' = f p) \<longrightarrow> f q = f p"
    if "TEMP_FAILURE_RETRY E exp p = Some y" for y
  proof (rule TEMP_FAILURE_RETRY.raw_induct
          [where P = "\<lambda>E exp p y. case y of Inl a \<Rightarrow> True
             | Inr (r, q) \<Rightarrow> (\<forall>p v p'. exp p = Some (Inr (v, p')) \<longrightarrow> f p' = f p) \<longrightarrow> f q = f p",
           OF _ that], goal_cases)
    case (1 retry E exp p y)
    from 1(2) show ?case
      by (fastforce split: option.splits sum.splits prod.splits if_splits dest: 1(1))
  qed
  from this[OF assms(1)] assms(2) show ?thesis by auto
qed

lemma retry_absorbs:
  assumes "\<And>i. i < n \<Longrightarrow>
      exp (q i) = Some (Inr (- 1, q (Suc i))) \<and> errno (os (q (Suc i))) = EINTR E"
    and "exp (q n) = Some (Inr (r, p'))"
    and "\<not> (r = - 1 \<and> errno (os p') = EINTR E)"
  shows "TEMP_FAILURE_RETRY E exp (q 0) = Some (Inr (r, p'))"
  using assms
proof (induction n arbitrary: q)
  case 0
  then show ?case by (simp add: retry_returned)
next
  case (Suc n)
  have "TEMP_FAILURE_RETRY E exp (q (Suc 0)) = Some (Inr (r, p'))"
    using Suc.IH[of "\<lambda>i. q (Suc i)"] Suc.prems by simp
  moreover have "TEMP_FAILURE_RETRY E exp (q 0) = TEMP_FAILURE_RETRY E exp (q (Suc 0))"
    using Suc.prems(1)[of 0] by (simp add: retry_interrupted)
  ultimately show ?case by simp
qed

lemma retry_flag_irrelevant:
  assumes "TEMP_FAILURE_RETRY E (syscall sys c) p = Some (Inr (r, q))"
  shows "TEMP_FAILURE_RETRY E (syscall sys c) (p\<lparr>ignore_intr := b\<rparr>)
         = Some (Inr (r, q\<lparr>ignore_intr := b\<rparr>))"
proof -
  have "case y of Inl a \<Rightarrow> True
        | Inr (r, q) \<Rightarrow> exp = syscall sys c \<longrightarrow>
            TEMP_FAILURE_RETRY E exp (p\<lparr>ignore_intr := b\<rparr>)
            = Some (Inr (r, q\<lparr>ignore_intr := b\<rparr>))"
    if "TEMP_FAILURE_RETRY E exp p = Some y" for y exp
  proof (rule TEMP_FAILURE_RETRY.raw_induct
          [where P = "\<lambda>E exp p y. case y of Inl a \<Rightarrow> True
             | Inr (r, q) \<Rightarrow> exp = syscall sys c \<longrightarrow>
                 TEMP_FAILURE_RETRY E exp (p\<lparr>ignore_intr := b\<rparr>)
                 = Some (Inr (r, q\<lparr>ignore_intr := b\<rparr>))",
           OF _ that], goal_cases)
    case (1 retry E exp p y)
    show ?case
    proof (cases y)
      case (Inl a)
      then show ?thesis by simp
    next
      case (Inr v)
      obtain r q where v: "v = (r, q)" by (cases v)
      have "TEMP_FAILURE_RETRY E exp (p\<lparr>ignore_intr := b\<rparr>)
            = Some (Inr (r, q\<lparr>ignore_intr := b\<rparr>))" if exp: "exp = syscall sys c"
      proof -
        obtain r0 k where k: "sys c (os p) = (r0, k)" by (cases "sys c (os p)")
        let ?p' = "p\<lparr>os := k\<rparr>"
        have step: "exp p = Some (Inr (r0, ?p'))"
          using k exp by (simp add: syscall_def)
        have stepb: "exp (p\<lparr>ignore_intr := b\<rparr>) = Some (Inr (r0, ?p'\<lparr>ignore_intr := b\<rparr>))"
          using k exp by (simp add: syscall_def)
        note unfold = retry_step[where exp = exp and p = "p\<lparr>ignore_intr := b\<rparr>" and E = E, OF stepb]
        show ?thesis
        proof (cases "r0 = - 1 \<and> errno (os ?p') = EINTR E")
          case True
          with 1(2) step Inr v have "retry E exp ?p' = Some (Inr (r, q))" by simp
          from 1(1)[OF this] exp
          have "TEMP_FAILURE_RETRY E exp (?p'\<lparr>ignore_intr := b\<rparr>)
                = Some (Inr (r, q\<lparr>ignore_intr := b\<rparr>))" by simp
          moreover have "TEMP_FAILURE_RETRY E exp (p\<lparr>ignore_intr := b\<rparr>)
                = TEMP_FAILURE_RETRY E exp (?p'\<lparr>ignore_intr := b\<rparr>)"
            using True by (simp add: unfold)
          ultimately show ?thesis by simp
        next
          case False
          with 1(2) step Inr v have "r = r0" "q = ?p'" by auto
          with False show ?thesis by (auto simp: unfold)
        qed
      qed
      with Inr v show ?thesis by simp
    qed
  qed
  from this[OF assms] show ?thesis by simp
qed

lemma retry_syscall_once:
  assumes "sys c (os p) = (r, k)" "\<not> (r = - 1 \<and> errno k = EINTR E)"
  shows "TEMP_FAILURE_RETRY E (syscall sys c) p = Some (Inr (r, p\<lparr>os := k\<rparr>))"
  by (rule retry_returned) (use assms in \<open>simp_all add: syscall_def\<close>)

lemma retry_noop: "TEMP_FAILURE_RETRY E (noop fd) p = Some (Inr (0, p))"
  by (rule retry_returned) (simp_all add: noop_def return_io_def)

subsection \<open>The concrete platforms and the scripted operating system\<close>

lemma scripted_step:
  "syscall scripted c (process_at e ((r, x) # rest) t b)
   = Some (Inr (r, process_at (case x of None \<Rightarrow> e | Some v \<Rightarrow> v) rest t b))"
  by (cases x) (simp_all add: syscall_def scripted_def process_at_def)

lemma scripted_idle:
  "syscall scripted c (process_at e [] t b) = Some (Inr (0, process_at e [] t b))"
  by (simp add: syscall_def scripted_def process_at_def)

lemma process_at_sel:
  "errno (os (process_at e k t b)) = e" "kernel (os (process_at e k t b)) = k"
  "fdes (process_at e k t b) = t" "ignore_intr (process_at e k t b) = b"
  by (simp_all add: process_at_def)

lemma linux_debug_build_sel:
  "check_io_fdes linux_debug_build" "minimum_file_descriptor_override linux_debug_build = None"
  "errnos linux_debug_build = linux_errno"
  "XAPIAND_MINIMUM_FILE_DESCRIPTOR linux_debug_build = 3"
  by (simp_all add: linux_debug_build_def linux_build_def minimum_default)

lemma build_sel:
  "\<not> check_io_fdes linux_build" "errnos linux_build = linux_errno"
  "f_fullfsync linux_build = None" "have_fdatasync linux_build" "have_posix_fadvise linux_build"
  "\<not> check_io_fdes macos_build" "errnos macos_build = macos_errno"
  "f_fullfsync macos_build = Some 51" "\<not> have_fdatasync macos_build" "have_fsync macos_build"
  "\<not> check_io_fdes bare_build" "errnos bare_build = linux_errno"
  "f_fullfsync bare_build = None" "\<not> have_fdatasync bare_build" "\<not> have_fsync bare_build"
  by (simp_all add: linux_build_def macos_build_def bare_build_def)

subsection \<open>The switch\<close>

lemma again_labels_iff:
  "e \<in> set (again_labels E) \<longleftrightarrow> e = EAGAIN E \<or> e = EWOULDBLOCK E"
  by (auto simp: again_labels_def)

lemma udp_labels_iff:
  "e \<in> set (udp_labels E) \<longleftrightarrow>
     e = ENETDOWN E \<or> e = EPROTO E \<or> e = ENOPROTOOPT E \<or> e = EHOSTDOWN E
     \<or> ENONET E = Some e
     \<or> e = EHOSTUNREACH E \<or> e = EOPNOTSUPP E \<or> e = ENETUNREACH E \<or> e = ECONNRESET E"
  by (cases "ENONET E") (auto simp: udp_labels_def)

lemma ignored_errorno_labels:
  "ignored_errorno E e again tcp udp p =
     (if e = EINTR E then ignore_intr p
      else if e \<in> set (again_labels E) then again
      else if e \<in> set (tcp_labels E) then tcp
      else if e \<in> set (udp_labels E) then udp
      else False)"
  unfolding again_labels_iff udp_labels_iff
  by (cases "ENONET E") (auto simp: ignored_errorno_def tcp_labels_def)

lemma distinct_labels:
  assumes "distinct (case_labels E)"
  shows "EINTR E \<notin> set (again_labels E)" "EINTR E \<notin> set (tcp_labels E)"
    "EINTR E \<notin> set (udp_labels E)"
    "set (again_labels E) \<inter> set (tcp_labels E) = {}"
    "set (again_labels E) \<inter> set (udp_labels E) = {}"
    "set (tcp_labels E) \<inter> set (udp_labels E) = {}"
  using assms unfolding case_labels_def by (simp_all add: Int_Un_distrib)

lemma again_case:
  assumes "distinct (case_labels E)" "e \<in> set (again_labels E)"
  shows "ignored_errorno E e again tcp udp p = again"
  using distinct_labels[OF assms(1)] assms(2) by (auto simp: ignored_errorno_labels)

lemma tcp_case:
  assumes "distinct (case_labels E)" "e \<in> set (tcp_labels E)"
  shows "ignored_errorno E e again tcp udp p = tcp"
  using distinct_labels[OF assms(1)] assms(2) by (auto simp: ignored_errorno_labels)

lemma udp_case:
  assumes "distinct (case_labels E)" "e \<in> set (udp_labels E)"
  shows "ignored_errorno E e again tcp udp p = udp"
  using distinct_labels[OF assms(1)] assms(2) by (auto simp: ignored_errorno_labels)

lemma default_case:
  "e \<notin> set (case_labels E) \<Longrightarrow> \<not> ignored_errorno E e again tcp udp p"
  by (simp add: ignored_errorno_labels case_labels_def)

lemma case_labels_linux: "distinct (case_labels linux_errno)"
  by (simp add: case_labels_def again_labels_def tcp_labels_def udp_labels_def linux_errno_def)

lemma case_labels_macos: "distinct (case_labels macos_errno)"
  by (simp add: case_labels_def again_labels_def tcp_labels_def udp_labels_def macos_errno_def)

subsection \<open>Frames of the building blocks\<close>

lemma syscall_frame:
  assumes "syscall sys c p = Some (Inr (r, p'))"
  shows "fdes p' = fdes p" "ignore_intr p' = ignore_intr p" "sys c (os p) = (r, os p')"
  using assms by (auto simp: syscall_def split: prod.splits)

lemma retry_syscall_frame:
  assumes "TEMP_FAILURE_RETRY E (syscall sys c) p = Some (Inr (r, p'))"
  shows "fdes p' = fdes p" "ignore_intr p' = ignore_intr p"
    "\<exists>k. sys c k = (r, os p')" "\<not> (r = - 1 \<and> errno (os p') = EINTR E)"
proof -
  show "fdes p' = fdes p"
    by (rule retry_invariant[OF assms]) (rule syscall_frame)
  show "ignore_intr p' = ignore_intr p"
    by (rule retry_invariant[OF assms]) (rule syscall_frame)
  from retry_from_exp[OF assms] obtain q where "syscall sys c q = Some (Inr (r, p'))" ..
  then have "sys c (os q) = (r, os p')" by (rule syscall_frame)
  then show "\<exists>k. sys c k = (r, os p')" ..
  show "\<not> (r = - 1 \<and> errno (os p') = EINTR E)"
    using assms by (rule retry_not_interrupted)
qed

lemma keeps_tracker_syscall: "keeps_tracker (syscall sys c)"
  unfolding keeps_tracker_def by (blast dest: syscall_frame(1))

lemma keeps_tracker_return: "keeps_tracker (return_io v)"
  by (simp add: keeps_tracker_def return_io_def)

lemma keeps_tracker_retry: "keeps_tracker exp \<Longrightarrow> keeps_tracker (TEMP_FAILURE_RETRY E exp)"
  unfolding keeps_tracker_def
  by (intro allI impI, erule retry_invariant) blast

lemma keeps_tracker_bind:
  "keeps_tracker m \<Longrightarrow> (\<And>v. keeps_tracker (f v)) \<Longrightarrow> keeps_tracker (bind_io m f)"
  unfolding keeps_tracker_def bind_io_returns by (metis)

lemma keeps_tracker_CHECK_OPENED: "keeps_tracker (CHECK_OPENED B msg fd)"
  unfolding keeps_tracker_def by (blast dest: CHECK_OPENED_same)

lemma keeps_tracker_CHECK_OPENED_SOCKET: "keeps_tracker (CHECK_OPENED_SOCKET B msg fd)"
  unfolding keeps_tracker_def by (blast dest: CHECK_OPENED_SOCKET_same)

lemma keeps_tracker_CHECK_CLOSING: "keeps_tracker (CHECK_CLOSING B fd)"
  unfolding keeps_tracker_def by (blast dest: CHECK_CLOSING_same)

lemma keeps_tracker_io_fsync: "keeps_tracker (io_fsync B sys fd)"
  by (simp add: io_fsync_def noop_def keeps_tracker_syscall keeps_tracker_return)

lemmas keeps_tracker_intros =
  keeps_tracker_bind keeps_tracker_CHECK_OPENED keeps_tracker_CHECK_OPENED_SOCKET
  keeps_tracker_CHECK_CLOSING keeps_tracker_retry keeps_tracker_syscall keeps_tracker_return
  keeps_tracker_io_fsync

lemma retry_syscall_again:
  assumes "sys c (os p) = (- 1, k)" "errno k = EINTR E"
  shows "TEMP_FAILURE_RETRY E (syscall sys c) p = TEMP_FAILURE_RETRY E (syscall sys c) (p\<lparr>os := k\<rparr>)"
  by (rule retry_interrupted) (use assms in \<open>simp_all add: syscall_def\<close>)

text \<open>A wrapper that is a check followed by the primitive, or by the retried primitive.\<close>

lemma passes_on_checked:
  assumes "\<And>p u p'. chk p = Some (Inr (u, p')) \<Longrightarrow> p' = p"
  shows "passes_on chk (bind_io chk (\<lambda>_. syscall sys c)) sys c"
  unfolding passes_on_def
proof (intro conjI allI impI)
  fix p a assume "chk p = Some (Inl a)"
  then show "bind_io chk (\<lambda>_. syscall sys c) p = Some (Inl a)" by (rule bind_io_Inl)
next
  fix p r k assume "chk p = Some (Inr ((), p)) \<and> sys c (os p) = (r, k)"
  then show "bind_io chk (\<lambda>_. syscall sys c) p = Some (Inr (r, p\<lparr>os := k\<rparr>))"
    by (simp add: bind_io_def syscall_def)
next
  fix p r p' assume "bind_io chk (\<lambda>_. syscall sys c) p = Some (Inr (r, p'))"
  then show "sys c (os p) = (r, os p')"
    unfolding bind_io_returns using assms by (blast dest: syscall_frame(3))
qed

lemma passes_on_last_checked:
  assumes "\<And>p u p'. chk p = Some (Inr (u, p')) \<Longrightarrow> p' = p"
    and "\<And>p k. chk p = Some (Inr ((), p)) \<Longrightarrow> chk (p\<lparr>os := k\<rparr>) = Some (Inr ((), p\<lparr>os := k\<rparr>))"
  shows "passes_on_last E chk (bind_io chk (\<lambda>_. TEMP_FAILURE_RETRY E (syscall sys c))) sys c"
proof -
  let ?w = "bind_io chk (\<lambda>_. TEMP_FAILURE_RETRY E (syscall sys c))"
  have 1: "?w p = Some (Inl a)" if "chk p = Some (Inl a)" for p a
    using that by (rule bind_io_Inl)
  have 2: "?w p = Some (Inr (r, p\<lparr>os := k\<rparr>))"
    if "chk p = Some (Inr ((), p))" "sys c (os p) = (r, k)" "\<not> (r = - 1 \<and> errno k = EINTR E)"
    for p r k
    using that by (simp add: bind_io_Inr retry_syscall_once)
  have 3: "?w p = ?w (p\<lparr>os := k\<rparr>)"
    if "chk p = Some (Inr ((), p))" "sys c (os p) = (- 1, k)" "errno k = EINTR E" for p k
  proof -
    from that(1) have "chk (p\<lparr>os := k\<rparr>) = Some (Inr ((), p\<lparr>os := k\<rparr>))" by (rule assms(2))
    with that show ?thesis by (simp add: bind_io_Inr retry_syscall_again)
  qed
  have 4: "(\<exists>k. sys c k = (r, os p')) \<and> \<not> (r = - 1 \<and> errno (os p') = EINTR E)"
    if "?w p = Some (Inr (r, p'))" for p r p'
    using that unfolding bind_io_returns
    by (blast dest: retry_syscall_frame(3) retry_syscall_frame(4))
  show ?thesis
    unfolding passes_on_last_def using 1 2 3 4 by blast
qed

lemma return_unit:
  "return_io () p = Some (Inr (u, p')) \<Longrightarrow> p' = p"
  "return_io () p = Some (Inr ((), p)) \<Longrightarrow> return_io () (p\<lparr>os := k\<rparr>) = Some (Inr ((), p\<lparr>os := k\<rparr>))"
  by (simp_all add: return_io_def)

lemma passes_on_syscall: "passes_on (return_io ()) (syscall sys c) sys c"
  using passes_on_checked[of "return_io ()" sys c] by (simp add: return_unit bind_io_return)

lemma passes_on_last_retry:
  "passes_on_last E (return_io ()) (TEMP_FAILURE_RETRY E (syscall sys c)) sys c"
  using passes_on_last_checked[of "return_io ()" E sys c]
  by (simp add: return_unit bind_io_return)

lemma passes_on_opened:
  "passes_on (CHECK_OPENED B msg fd) (bind_io (CHECK_OPENED B msg fd) (\<lambda>_. syscall sys c)) sys c"
  "passes_on (CHECK_OPENED_SOCKET B msg fd)
     (bind_io (CHECK_OPENED_SOCKET B msg fd) (\<lambda>_. syscall sys c)) sys c"
  by (rule passes_on_checked, erule CHECK_OPENED_same)
     (rule passes_on_checked, erule CHECK_OPENED_SOCKET_same)

lemma passes_on_last_opened:
  "passes_on_last E (CHECK_OPENED B msg fd) (bind_io (CHECK_OPENED B msg fd)
      (\<lambda>_. TEMP_FAILURE_RETRY E (syscall sys c))) sys c"
  "passes_on_last E (CHECK_OPENED_SOCKET B msg fd) (bind_io (CHECK_OPENED_SOCKET B msg fd)
      (\<lambda>_. TEMP_FAILURE_RETRY E (syscall sys c))) sys c"
  by (rule passes_on_last_checked, erule CHECK_OPENED_same, erule CHECK_os(1))
     (rule passes_on_last_checked, erule CHECK_OPENED_SOCKET_same, erule CHECK_os(2))

subsection \<open>The wrappers\<close>

lemma registering_total:
  "(\<exists>a. CHECK_OPEN B fd p = Some (Inl a)) \<or> (\<exists>p'. CHECK_OPEN B fd p = Some (Inr ((), p')) \<and> os p' = os p)"
  "(\<exists>a. CHECK_OPEN_SOCKET B fd p = Some (Inl a))
     \<or> (\<exists>p'. CHECK_OPEN_SOCKET B fd p = Some (Inr ((), p')) \<and> os p' = os p)"
proof -
  have "(\<exists>a. CHECK_OPEN B fd p = Some (Inl a)) \<or> (\<exists>p'. CHECK_OPEN B fd p = Some (Inr ((), p')))"
    using check_aborts_or_returns[of B "''while opening as file''" fd 0 "OPENED OR CLOSED" OPENED p]
    by (simp add: CHECK_OPEN_def return_io_def)
  then show "(\<exists>a. CHECK_OPEN B fd p = Some (Inl a))
     \<or> (\<exists>p'. CHECK_OPEN B fd p = Some (Inr ((), p')) \<and> os p' = os p)"
    by (blast dest: CHECK_OPEN_returns(1))
  have "(\<exists>a. CHECK_OPEN_SOCKET B fd p = Some (Inl a))
        \<or> (\<exists>p'. CHECK_OPEN_SOCKET B fd p = Some (Inr ((), p')))"
    using check_aborts_or_returns[of B "''while opening as socket''" fd 0
        "OPENED OR SOCKET OR CLOSED" "OPENED OR SOCKET" p]
    by (simp add: CHECK_OPEN_SOCKET_def return_io_def)
  then show "(\<exists>a. CHECK_OPEN_SOCKET B fd p = Some (Inl a))
     \<or> (\<exists>p'. CHECK_OPEN_SOCKET B fd p = Some (Inr ((), p')) \<and> os p' = os p)"
    by (blast dest: CHECK_OPEN_SOCKET_returns(1))
qed

lemma registering_sentinel:
  "CHECK_OPEN B (- 1) p = Some (Inr ((), p))" "CHECK_OPEN_SOCKET B (- 1) p = Some (Inr ((), p))"
  by (simp_all add: CHECK_OPEN_def CHECK_OPEN_SOCKET_def check_sentinel return_io_def)

lemma registering_accepts:
  assumes "check_io_fdes B" "fd \<noteq> - 1" "XAPIAND_MINIMUM_FILE_DESCRIPTOR B \<le> fd"
    and "fdes p fd = 0 \<or> (fdes p fd AND CLOSED) \<noteq> 0"
  shows "CHECK_OPEN B fd p = Some (Inr ((), p\<lparr>fdes := (fdes p)(fd := OPENED)\<rparr>))"
    and "CHECK_OPEN_SOCKET B fd p = Some (Inr ((), p\<lparr>fdes := (fdes p)(fd := OPENED OR SOCKET)\<rparr>))"
  using assms fresh_accepts_open[of B fd p] closed_accepts_open[of B fd p] by auto

text \<open>\<^verbatim>\<open>io::socket\<close>.\<close>

lemma socket_steps:
  assumes "sys (Sys_socket domain type protocol) (os p) = (r, k)"
  shows "socket B sys domain type protocol p
         = bind_io (CHECK_OPEN_SOCKET B r) (\<lambda>_. return_io r) (p\<lparr>os := k\<rparr>)"
  using assms by (simp add: socket_def bind_io_def syscall_def)

lemma socket_returns:
  assumes "socket B sys domain type protocol p = Some (Inr (r, p'))"
  shows "sys (Sys_socket domain type protocol) (os p) = (r, os p')"
    and "check_io_fdes B \<Longrightarrow> fdes p' = (if r = - 1 then fdes p
           else (fdes p)(r := tracked p r (OPENED OR SOCKET) OR (OPENED OR SOCKET)))"
    and "check_io_fdes B \<Longrightarrow> r \<noteq> - 1 \<Longrightarrow>
           (fdes p' r AND (OPENED OR SOCKET OR CLOSED)) = (OPENED OR SOCKET)"
proof -
  from assms obtain u p1 where
    s: "syscall sys (Sys_socket domain type protocol) p = Some (Inr (r, p1))"
    and c: "CHECK_OPEN_SOCKET B r p1 = Some (Inr (u, p'))"
    by (auto simp: socket_def bind_io_returns return_io_def)
  from s have p1: "p1 = p\<lparr>os := snd (sys (Sys_socket domain type protocol) (os p))\<rparr>"
    by (auto simp: syscall_returns)
  from syscall_frame[OF s] CHECK_OPEN_SOCKET_returns(1)[OF c]
  show "sys (Sys_socket domain type protocol) (os p) = (r, os p')" by simp
  show "fdes p' = (if r = - 1 then fdes p
           else (fdes p)(r := tracked p r (OPENED OR SOCKET) OR (OPENED OR SOCKET)))"
    if "check_io_fdes B"
    using CHECK_OPEN_SOCKET_returns(4)[OF c that] p1 by (simp add: tracked_os)
  show "(fdes p' r AND (OPENED OR SOCKET OR CLOSED)) = (OPENED OR SOCKET)"
    if "check_io_fdes B" "r \<noteq> - 1"
    using CHECK_OPEN_SOCKET_returns(5)[OF c that] .
qed

lemma socket_failure:
  assumes "sys (Sys_socket domain type protocol) (os p) = (- 1, k)"
  shows "socket B sys domain type protocol p = Some (Inr (- 1, p\<lparr>os := k\<rparr>))"
  using assms by (simp add: socket_steps bind_io_def registering_sentinel return_io_def)

lemma socket_success:
  assumes "check_io_fdes B" "sys (Sys_socket domain type protocol) (os p) = (r, k)"
    and "r \<noteq> - 1" "XAPIAND_MINIMUM_FILE_DESCRIPTOR B \<le> r"
    and "fdes p r = 0 \<or> (fdes p r AND CLOSED) \<noteq> 0"
  shows "socket B sys domain type protocol p
         = Some (Inr (r, p\<lparr>os := k, fdes := (fdes p)(r := OPENED OR SOCKET)\<rparr>))"
proof -
  have "CHECK_OPEN_SOCKET B r (p\<lparr>os := k\<rparr>)
        = Some (Inr ((), p\<lparr>os := k, fdes := (fdes p)(r := OPENED OR SOCKET)\<rparr>))"
    using registering_accepts(2)[OF assms(1,3,4), of "p\<lparr>os := k\<rparr>"] assms(5) by simp
  with assms(2) show ?thesis
    by (simp add: socket_steps bind_io_def return_io_def)
qed

lemma socket_total:
  assumes "sys (Sys_socket domain type protocol) (os p) = (r, k)"
  shows "(\<exists>a. socket B sys domain type protocol p = Some (Inl a))
         \<or> (\<exists>p'. socket B sys domain type protocol p = Some (Inr (r, p')) \<and> os p' = k)"
  using registering_total(2)[of B r "p\<lparr>os := k\<rparr>"]
  by (auto simp: socket_steps[where sys = sys, OF assms] bind_io_def return_io_def)

text \<open>\<^verbatim>\<open>io::open\<close>.\<close>

lemma io_open_steps:
  assumes "sys (Sys_open path oflag mode) (os p) = (r, k)"
  shows "io_open B sys path oflag mode p
         = bind_io (CHECK_OPEN B r) (\<lambda>_. return_io r) (p\<lparr>os := k\<rparr>)"
  using assms by (simp add: io_open_def bind_io_def syscall_def)

lemma io_open_returns:
  assumes "io_open B sys path oflag mode p = Some (Inr (r, p'))"
  shows "sys (Sys_open path oflag mode) (os p) = (r, os p')"
    and "check_io_fdes B \<Longrightarrow> fdes p' = (if r = - 1 then fdes p
           else (fdes p)(r := tracked p r OPENED OR OPENED))"
    and "check_io_fdes B \<Longrightarrow> r \<noteq> - 1 \<Longrightarrow> (fdes p' r AND (OPENED OR CLOSED)) = OPENED"
proof -
  from assms obtain u p1 where
    s: "syscall sys (Sys_open path oflag mode) p = Some (Inr (r, p1))"
    and c: "CHECK_OPEN B r p1 = Some (Inr (u, p'))"
    by (auto simp: io_open_def bind_io_returns return_io_def)
  from s have p1: "p1 = p\<lparr>os := snd (sys (Sys_open path oflag mode) (os p))\<rparr>"
    by (auto simp: syscall_returns)
  from syscall_frame[OF s] CHECK_OPEN_returns(1)[OF c]
  show "sys (Sys_open path oflag mode) (os p) = (r, os p')" by simp
  show "fdes p' = (if r = - 1 then fdes p else (fdes p)(r := tracked p r OPENED OR OPENED))"
    if "check_io_fdes B"
    using CHECK_OPEN_returns(4)[OF c that] p1 by (simp add: tracked_os)
  show "(fdes p' r AND (OPENED OR CLOSED)) = OPENED" if "check_io_fdes B" "r \<noteq> - 1"
    using CHECK_OPEN_returns(5)[OF c that] .
qed

lemma io_open_failure:
  assumes "sys (Sys_open path oflag mode) (os p) = (- 1, k)"
  shows "io_open B sys path oflag mode p = Some (Inr (- 1, p\<lparr>os := k\<rparr>))"
  using assms by (simp add: io_open_steps bind_io_def registering_sentinel return_io_def)

lemma io_open_success:
  assumes "check_io_fdes B" "sys (Sys_open path oflag mode) (os p) = (r, k)"
    and "r \<noteq> - 1" "XAPIAND_MINIMUM_FILE_DESCRIPTOR B \<le> r"
    and "fdes p r = 0 \<or> (fdes p r AND CLOSED) \<noteq> 0"
  shows "io_open B sys path oflag mode p
         = Some (Inr (r, p\<lparr>os := k, fdes := (fdes p)(r := OPENED)\<rparr>))"
proof -
  have "CHECK_OPEN B r (p\<lparr>os := k\<rparr>)
        = Some (Inr ((), p\<lparr>os := k, fdes := (fdes p)(r := OPENED)\<rparr>))"
    using registering_accepts(1)[OF assms(1,3,4), of "p\<lparr>os := k\<rparr>"] assms(5) by simp
  with assms(2) show ?thesis
    by (simp add: io_open_steps bind_io_def return_io_def)
qed

text \<open>\<^verbatim>\<open>io::accept\<close>.\<close>

lemma accept_steps:
  assumes "CHECK_OPENED_SOCKET B ''during accept()'' sock p = Some (Inr ((), p))"
    and "TEMP_FAILURE_RETRY (errnos B) (syscall sys (Sys_accept sock address address_len)) p
         = Some (Inr (r, p1))"
  shows "accept B sys sock address address_len p
         = bind_io (CHECK_OPEN_SOCKET B r) (\<lambda>_. return_io r) p1"
  using assms by (simp add: accept_def bind_io_def)

lemma accept_returns:
  assumes "accept B sys sock address address_len p = Some (Inr (r, p'))"
  shows "\<exists>k. sys (Sys_accept sock address address_len) k = (r, os p')"
    and "\<not> (r = - 1 \<and> errno (os p') = EINTR (errnos B))"
    and "check_io_fdes B \<Longrightarrow> fdes p' = (if r = - 1 then fdes p
           else (fdes p)(r := tracked p r (OPENED OR SOCKET) OR (OPENED OR SOCKET)))"
    and "check_io_fdes B \<Longrightarrow> r \<noteq> - 1 \<Longrightarrow>
           (fdes p' r AND (OPENED OR SOCKET OR CLOSED)) = (OPENED OR SOCKET)"
    and "CHECK_OPENED_SOCKET B ''during accept()'' sock p = Some (Inr ((), p))"
proof -
  from assms obtain u0 p0 u p1 where
    c0: "CHECK_OPENED_SOCKET B ''during accept()'' sock p = Some (Inr (u0, p0))"
    and s: "TEMP_FAILURE_RETRY (errnos B) (syscall sys (Sys_accept sock address address_len)) p0
            = Some (Inr (r, p1))"
    and c: "CHECK_OPEN_SOCKET B r p1 = Some (Inr (u, p'))"
    by (auto simp: accept_def bind_io_returns return_io_def)
  from CHECK_OPENED_SOCKET_same[OF c0] have p0: "p0 = p" .
  with c0 show "CHECK_OPENED_SOCKET B ''during accept()'' sock p = Some (Inr ((), p))" by simp
  from retry_syscall_frame[OF s] CHECK_OPEN_SOCKET_returns(1)[OF c]
  show "\<exists>k. sys (Sys_accept sock address address_len) k = (r, os p')"
    and "\<not> (r = - 1 \<and> errno (os p') = EINTR (errnos B))"
    by simp_all
  have t: "tracked p1 r sb = tracked p r sb" for sb
    using retry_syscall_frame(1)[OF s] p0 by (simp add: tracked_def)
  show "fdes p' = (if r = - 1 then fdes p
           else (fdes p)(r := tracked p r (OPENED OR SOCKET) OR (OPENED OR SOCKET)))"
    if "check_io_fdes B"
    using CHECK_OPEN_SOCKET_returns(4)[OF c that] retry_syscall_frame(1)[OF s] p0 t by simp
  show "(fdes p' r AND (OPENED OR SOCKET OR CLOSED)) = (OPENED OR SOCKET)"
    if "check_io_fdes B" "r \<noteq> - 1"
    using CHECK_OPEN_SOCKET_returns(5)[OF c that] .
qed

lemma accept_last:
  assumes "CHECK_OPENED_SOCKET B ''during accept()'' sock p = Some (Inr ((), p))"
    and "sys (Sys_accept sock address address_len) (os p) = (r, k)"
    and "\<not> (r = - 1 \<and> errno k = EINTR (errnos B))"
  shows "accept B sys sock address address_len p
         = bind_io (CHECK_OPEN_SOCKET B r) (\<lambda>_. return_io r) (p\<lparr>os := k\<rparr>)"
  using assms(1) retry_syscall_once[where sys = sys, OF assms(2,3)] by (rule accept_steps)

lemma accept_again:
  assumes "CHECK_OPENED_SOCKET B ''during accept()'' sock p = Some (Inr ((), p))"
    and "sys (Sys_accept sock address address_len) (os p) = (- 1, k)"
    and "errno k = EINTR (errnos B)"
  shows "accept B sys sock address address_len p
         = accept B sys sock address address_len (p\<lparr>os := k\<rparr>)"
  using assms CHECK_os(2)[OF assms(1), of k]
  by (simp add: accept_def bind_io_def retry_syscall_again)

lemma accept_failure:
  assumes "CHECK_OPENED_SOCKET B ''during accept()'' sock p = Some (Inr ((), p))"
    and "sys (Sys_accept sock address address_len) (os p) = (- 1, k)"
    and "errno k \<noteq> EINTR (errnos B)"
  shows "accept B sys sock address address_len p = Some (Inr (- 1, p\<lparr>os := k\<rparr>))"
  using accept_last[where sys = sys, OF assms(1,2)] assms(3)
  by (simp add: bind_io_def registering_sentinel return_io_def)

lemma accept_success:
  assumes "check_io_fdes B"
    and "CHECK_OPENED_SOCKET B ''during accept()'' sock p = Some (Inr ((), p))"
    and "sys (Sys_accept sock address address_len) (os p) = (r, k)"
    and "r \<noteq> - 1" "XAPIAND_MINIMUM_FILE_DESCRIPTOR B \<le> r"
    and "fdes p r = 0 \<or> (fdes p r AND CLOSED) \<noteq> 0"
  shows "accept B sys sock address address_len p
         = Some (Inr (r, p\<lparr>os := k, fdes := (fdes p)(r := OPENED OR SOCKET)\<rparr>))"
proof -
  have "CHECK_OPEN_SOCKET B r (p\<lparr>os := k\<rparr>)
        = Some (Inr ((), p\<lparr>os := k, fdes := (fdes p)(r := OPENED OR SOCKET)\<rparr>))"
    using registering_accepts(2)[OF assms(1,4,5), of "p\<lparr>os := k\<rparr>"] assms(6) by simp
  with accept_last[where sys = sys, OF assms(2,3)] assms(4) show ?thesis
    by (simp add: bind_io_def return_io_def)
qed

lemma accept_total:
  assumes "CHECK_OPENED_SOCKET B ''during accept()'' sock p = Some (Inr ((), p))"
    and "sys (Sys_accept sock address address_len) (os p) = (r, k)"
    and "\<not> (r = - 1 \<and> errno k = EINTR (errnos B))"
  shows "(\<exists>a. accept B sys sock address address_len p = Some (Inl a))
         \<or> (\<exists>p'. accept B sys sock address address_len p = Some (Inr (r, p')) \<and> os p' = k)"
  using registering_total(2)[of B r "p\<lparr>os := k\<rparr>"]
  by (auto simp: accept_last[where sys = sys, OF assms] bind_io_def return_io_def)

lemma accept_aborts:
  "CHECK_OPENED_SOCKET B ''during accept()'' sock p = Some (Inl a) \<Longrightarrow>
   accept B sys sock address address_len p = Some (Inl a)"
  by (simp add: accept_def bind_io_def)


text \<open>\<^verbatim>\<open>io::close\<close>.\<close>

lemma io_close_rejects:
  assumes "check_io_fdes B" "fd \<noteq> - 1" "XAPIAND_MINIMUM_FILE_DESCRIPTOR B \<le> fd"
    and "(fdes p fd AND OPENED) \<noteq> OPENED"
  shows "io_close B sys fd p = Some (Inl (Lifecycle_violation ''while closing''))"
  using not_opened_rejects_closing[OF assms] by (simp add: io_close_def bind_io_def)

lemma io_close_accepts:
  assumes "check_io_fdes B" "fd \<noteq> - 1" "XAPIAND_MINIMUM_FILE_DESCRIPTOR B \<le> fd"
    and "(fdes p fd AND OPENED) = OPENED" "(fdes p fd AND CLOSED) = 0"
    and "sys (Sys_close fd) (os p) = (r, k)"
  shows "io_close B sys fd p = Some (Inr (r,
           if r = - 1 then p\<lparr>os := k\<rparr>
           else p\<lparr>os := k, fdes := (fdes p)
                  (fd := (fdes p fd OR CLOSED) AND NOT (OPENED OR SOCKET))\<rparr>))"
proof -
  have "CHECK_CLOSE B fd (p\<lparr>os := k\<rparr>) = Some (Inr ((), p\<lparr>os := k, fdes := (fdes p)
           (fd := (fdes p fd OR CLOSED) AND NOT (OPENED OR SOCKET))\<rparr>))"
    using opened_accepts_close(2)[OF assms(1-5), of "p\<lparr>os := k\<rparr>"] by simp
  with opened_accepts_close(1)[OF assms(1-5)] assms(6) show ?thesis
    by (simp add: io_close_def bind_io_def syscall_def return_io_def)
qed

lemma io_close_returns:
  assumes "check_io_fdes B" "fd \<noteq> - 1" "io_close B sys fd p = Some (Inr (r, p'))"
  shows "sys (Sys_close fd) (os p) = (r, os p')"
    and "(fdes p fd AND OPENED) = OPENED"
    and "r = - 1 \<Longrightarrow> fdes p' = fdes p"
    and "r \<noteq> - 1 \<Longrightarrow> fdes p' = (fdes p)(fd := (fdes p fd OR CLOSED) AND NOT (OPENED OR SOCKET))"
    and "r \<noteq> - 1 \<Longrightarrow> (fdes p' fd AND CLOSED) \<noteq> 0 \<and> (fdes p' fd AND OPENED) \<noteq> OPENED"
proof -
  from assms(3) obtain u0 p0 p1 where
    c0: "CHECK_CLOSING B fd p = Some (Inr (u0, p0))"
    and s: "syscall sys (Sys_close fd) p0 = Some (Inr (r, p1))"
    and e: "(if r = - 1 then return_io r
             else bind_io (CHECK_CLOSE B fd) (\<lambda>_. return_io r)) p1 = Some (Inr (r, p'))"
    by (auto simp: io_close_def bind_io_returns return_io_def split: if_splits)
  from CHECK_CLOSING_same[OF c0] have p0: "p0 = p" .
  from c0 assms(1,2) show o: "(fdes p fd AND OPENED) = OPENED"
    using check_returns(2)[of B "''while closing''" fd OPENED 0 0 p u0 p0]
    by (simp add: CHECK_CLOSING_def tracked_simps)
  show f: "fdes p' = fdes p" if "r = - 1"
    using e that syscall_frame(1)[OF s] p0 by (simp add: return_io_def)
  have c: "\<exists>u. CHECK_CLOSE B fd p1 = Some (Inr (u, p'))" if "r \<noteq> - 1"
    using e that by (auto simp: bind_io_returns return_io_def)
  show "sys (Sys_close fd) (os p) = (r, os p')"
  proof (cases "r = - 1")
    case True
    with e syscall_frame(3)[OF s] p0 show ?thesis by (simp add: return_io_def)
  next
    case False
    from c[OF False] obtain u where "CHECK_CLOSE B fd p1 = Some (Inr (u, p'))" ..
    from CHECK_CLOSE_returns(3)[OF assms(1,2) this] syscall_frame(3)[OF s] p0
    show ?thesis by simp
  qed
  show g: "fdes p' = (fdes p)(fd := (fdes p fd OR CLOSED) AND NOT (OPENED OR SOCKET))"
    if "r \<noteq> - 1"
  proof -
    from c[OF that] obtain u where "CHECK_CLOSE B fd p1 = Some (Inr (u, p'))" ..
    from CHECK_CLOSE_returns(3)[OF assms(1,2) this] syscall_frame(1)[OF s] p0
    show ?thesis by simp
  qed
  show "(fdes p' fd AND CLOSED) \<noteq> 0 \<and> (fdes p' fd AND OPENED) \<noteq> OPENED" if "r \<noteq> - 1"
    using g[OF that] closed_bit_set[OF closed_masks(1), of "fdes p fd"]
      closed_not_opened[of "fdes p fd"]
    by simp
qed

lemma io_close_floor:
  assumes "check_io_fdes B" "fd \<noteq> - 1" "io_close B sys fd p = Some (Inr (r, p'))"
  shows "XAPIAND_MINIMUM_FILE_DESCRIPTOR B \<le> fd"
proof -
  from assms(3) obtain u0 p0 where "CHECK_CLOSING B fd p = Some (Inr (u0, p0))"
    by (auto simp: io_close_def bind_io_returns)
  with assms(1,2) show ?thesis
    using check_returns(1)[of B "''while closing''" fd OPENED 0 0 p u0 p0]
    by (simp add: CHECK_CLOSING_def)
qed

text \<open>The sync wrappers, build by build.\<close>

lemma unchecked_fsync_cases:
  "have_fdatasync B \<Longrightarrow>
     unchecked_fsync B sys fd = TEMP_FAILURE_RETRY (errnos B) (syscall sys (Sys_fdatasync fd))"
  "\<not> have_fdatasync B \<Longrightarrow> have_fsync B \<Longrightarrow>
     unchecked_fsync B sys fd = TEMP_FAILURE_RETRY (errnos B) (syscall sys (Sys_fsync fd))"
  "\<not> have_fdatasync B \<Longrightarrow> \<not> have_fsync B \<Longrightarrow>
     unchecked_fsync B sys fd p = Some (Inr (0, p))"
  by (simp_all add: unchecked_fsync_def io_fsync_def retry_noop)

lemma unchecked_full_fsync_cases:
  "f_fullfsync B = Some F \<Longrightarrow>
     unchecked_full_fsync B sys fd
     = TEMP_FAILURE_RETRY (errnos B) (syscall sys (Sys_fcntl fd F [0]))"
  "f_fullfsync B = None \<Longrightarrow> unchecked_full_fsync B sys fd = unchecked_fsync B sys fd"
  by (simp_all add: unchecked_full_fsync_def unchecked_fsync_def)

lemma passes_on_last_fsync:
  assumes "io_fsync B sys fd = syscall sys c"
  shows "passes_on_last (errnos B) (return_io ()) (unchecked_fsync B sys fd) sys c"
    and "passes_on_last (errnos B) (CHECK_OPENED B ''during fsync()'' fd) (fsync B sys fd) sys c"
  using assms
  by (simp_all add: unchecked_fsync_def fsync_def passes_on_last_retry passes_on_last_opened)

lemma passes_on_last_full_fsync:
  assumes "f_fullfsync B = Some F \<and> c = Sys_fcntl fd F [0]
           \<or> f_fullfsync B = None \<and> io_fsync B sys fd = syscall sys c"
  shows "passes_on_last (errnos B) (return_io ()) (unchecked_full_fsync B sys fd) sys c"
    and "passes_on_last (errnos B) (CHECK_OPENED B ''during full_fsync()'' fd)
           (full_fsync B sys fd) sys c"
  using assms
  by (auto simp: unchecked_full_fsync_def full_fsync_def passes_on_last_retry
      passes_on_last_opened)

lemma noop_sync:
  assumes "\<not> have_fdatasync B" "\<not> have_fsync B"
  shows "unchecked_fsync B sys fd p = Some (Inr (0, p))"
    and "fsync B sys fd p = bind_io (CHECK_OPENED B ''during fsync()'' fd) (\<lambda>_. return_io 0) p"
    and "f_fullfsync B = None \<Longrightarrow> unchecked_full_fsync B sys fd p = Some (Inr (0, p))"
    and "f_fullfsync B = None \<Longrightarrow>
         full_fsync B sys fd p
         = bind_io (CHECK_OPENED B ''during full_fsync()'' fd) (\<lambda>_. return_io 0) p"
  using assms
  by (simp_all add: fsync_def full_fsync_def bind_io_def return_io_def unchecked_fsync_cases
      unchecked_full_fsync_cases split: option.splits sum.splits)

lemma noop_sync_returns:
  assumes "\<not> have_fdatasync B" "\<not> have_fsync B"
  shows "fsync B sys fd p = Some (Inr (r, p')) \<Longrightarrow> r = 0 \<and> p' = p"
    and "f_fullfsync B = None \<Longrightarrow> full_fsync B sys fd p = Some (Inr (r, p')) \<Longrightarrow> r = 0 \<and> p' = p"
  using assms
  by (auto simp: fsync_def full_fsync_def bind_io_returns unchecked_fsync_cases
      unchecked_full_fsync_cases dest: CHECK_OPENED_same)

text \<open>A wrapper that checks and then returns a constant.\<close>

lemma checked_constant:
  "CHECK_OPENED B msg fd p = Some (Inl a) \<Longrightarrow>
     bind_io (CHECK_OPENED B msg fd) (\<lambda>_. return_io v) p = Some (Inl a)"
  "CHECK_OPENED B msg fd p = Some (Inr ((), p)) \<Longrightarrow>
     bind_io (CHECK_OPENED B msg fd) (\<lambda>_. return_io v) p = Some (Inr (v, p))"
  "bind_io (CHECK_OPENED B msg fd) (\<lambda>_. return_io v) p = Some (Inr (r, p')) \<Longrightarrow> r = v \<and> p' = p"
  by (auto simp: bind_io_def return_io_def split: option.splits sum.splits
      dest: CHECK_OPENED_same)

text \<open>\<^verbatim>\<open>io::fadvise\<close> and \<^verbatim>\<open>io::fallocate\<close>.\<close>

lemma fadvise_returns:
  assumes "fadvise B sys fd offset amount advice p = Some (Inr (r, p'))"
  shows "have_posix_fadvise B \<Longrightarrow>
           \<exists>v. sys (Sys_posix_fadvise fd offset amount advice) (os p) = (v, os p')
               \<and> r = (if v = 0 then 1 else 0)"
    and "\<not> have_posix_fadvise B \<Longrightarrow> r = 0 \<and> p' = p"
proof -
  show "\<exists>v. sys (Sys_posix_fadvise fd offset amount advice) (os p) = (v, os p')
            \<and> r = (if v = 0 then 1 else 0)" if "have_posix_fadvise B"
  proof -
    from assms that obtain u p0 v where
      c: "CHECK_OPENED B ''during fadvise()'' fd p = Some (Inr (u, p0))"
      and s: "syscall sys (Sys_posix_fadvise fd offset amount advice) p0 = Some (Inr (v, p'))"
      and r: "r = (if v = 0 then 1 else 0)"
      by (auto simp: fadvise_def bind_io_returns return_io_def)
    from CHECK_OPENED_same[OF c] syscall_frame(3)[OF s] r show ?thesis by auto
  qed
  show "r = 0 \<and> p' = p" if "\<not> have_posix_fadvise B"
    using assms that
    by (auto simp: fadvise_def bind_io_returns return_io_def dest: CHECK_OPENED_same)
qed

lemma fadvise_runs:
  assumes "CHECK_OPENED B ''during fadvise()'' fd p = Some (Inr ((), p))"
  shows "have_posix_fadvise B \<Longrightarrow> sys (Sys_posix_fadvise fd offset amount advice) (os p) = (v, k)
         \<Longrightarrow> fadvise B sys fd offset amount advice p
             = Some (Inr (if v = 0 then 1 else 0, p\<lparr>os := k\<rparr>))"
    and "\<not> have_posix_fadvise B \<Longrightarrow> fadvise B sys fd offset amount advice p = Some (Inr (0, p))"
  using assms by (simp_all add: fadvise_def bind_io_def syscall_def return_io_def)

lemma fadvise_aborts:
  "CHECK_OPENED B ''during fadvise()'' fd p = Some (Inl a) \<Longrightarrow>
   fadvise B sys fd offset amount advice p = Some (Inl a)"
  by (simp add: fadvise_def bind_io_def)

lemma keeps_tracker_fallocate: "keeps_tracker (fallocate B sys fd mode offset amount)"
  by (simp add: fallocate_def fallocate_fallback_def keeps_tracker_intros)

section \<open>Error classification: the claims\<close>

text \<open>
  C2. On a platform whose error numbers make the switch compile, for every error
  number and every combination of the three flags: \<^verbatim>\<open>EAGAIN\<close> and
  \<^verbatim>\<open>EWOULDBLOCK\<close> are ignored iff \<open>again\<close> is true, \<^verbatim>\<open>EPIPE\<close> and
  \<^verbatim>\<open>EINPROGRESS\<close> iff \<open>tcp\<close> is true, and \<^verbatim>\<open>ENETDOWN\<close>, \<^verbatim>\<open>EPROTO\<close>,
  \<^verbatim>\<open>ENOPROTOOPT\<close>, \<^verbatim>\<open>EHOSTDOWN\<close>, \<^verbatim>\<open>ENONET\<close> (where defined),
  \<^verbatim>\<open>EHOSTUNREACH\<close>, \<^verbatim>\<open>EOPNOTSUPP\<close>, \<^verbatim>\<open>ENETUNREACH\<close> and \<^verbatim>\<open>ECONNRESET\<close>
  iff \<open>udp\<close> is true.
\<close>

theorem ignored_errorno_by_channel:
  assumes "distinct (case_labels E)"
  shows "(e = EAGAIN E \<or> e = EWOULDBLOCK E \<longrightarrow>
            ignored_errorno E e again tcp udp p = again)
       \<and> (e = EPIPE E \<or> e = EINPROGRESS E \<longrightarrow>
            ignored_errorno E e again tcp udp p = tcp)
       \<and> (e = ENETDOWN E \<or> e = EPROTO E \<or> e = ENOPROTOOPT E \<or> e = EHOSTDOWN E
            \<or> ENONET E = Some e \<or> e = EHOSTUNREACH E \<or> e = EOPNOTSUPP E
            \<or> e = ENETUNREACH E \<or> e = ECONNRESET E \<longrightarrow>
            ignored_errorno E e again tcp udp p = udp)"
proof (intro conjI impI)
  assume "e = EAGAIN E \<or> e = EWOULDBLOCK E"
  then have "e \<in> set (again_labels E)" by (simp add: again_labels_iff)
  with assms show "ignored_errorno E e again tcp udp p = again" by (rule again_case)
next
  assume "e = EPIPE E \<or> e = EINPROGRESS E"
  then have "e \<in> set (tcp_labels E)" by (auto simp: tcp_labels_def)
  with assms show "ignored_errorno E e again tcp udp p = tcp" by (rule tcp_case)
next
  assume "e = ENETDOWN E \<or> e = EPROTO E \<or> e = ENOPROTOOPT E \<or> e = EHOSTDOWN E
            \<or> ENONET E = Some e \<or> e = EHOSTUNREACH E \<or> e = EOPNOTSUPP E
            \<or> e = ENETUNREACH E \<or> e = ECONNRESET E"
  then have "e \<in> set (udp_labels E)" by (simp only: udp_labels_iff)
  with assms show "ignored_errorno E e again tcp udp p = udp" by (rule udp_case)
qed

theorem ignored_errorno_by_channel_witness:
  "distinct (case_labels linux_errno)
   \<and> ignored_errorno linux_errno 11 True False False (process_at 0 () (\<lambda>_. 0) False)
   \<and> \<not> ignored_errorno linux_errno 11 False True True (process_at 0 () (\<lambda>_. 0) False)
   \<and> ignored_errorno linux_errno 32 False True False (process_at 0 () (\<lambda>_. 0) False)
   \<and> \<not> ignored_errorno linux_errno 115 True False True (process_at 0 () (\<lambda>_. 0) False)
   \<and> ignored_errorno linux_errno 64 False False True (process_at 0 () (\<lambda>_. 0) False)
   \<and> ignored_errorno linux_errno 113 False False True (process_at 0 () (\<lambda>_. 0) False)
   \<and> \<not> ignored_errorno linux_errno 113 True True False (process_at 0 () (\<lambda>_. 0) False)"
  using ignored_errorno_by_channel[OF case_labels_linux, of 11 True False False "process_at 0 () (\<lambda>_. 0) False"]
    ignored_errorno_by_channel[OF case_labels_linux, of 11 False True True "process_at 0 () (\<lambda>_. 0) False"]
    ignored_errorno_by_channel[OF case_labels_linux, of 32 False True False "process_at 0 () (\<lambda>_. 0) False"]
    ignored_errorno_by_channel[OF case_labels_linux, of 115 True False True "process_at 0 () (\<lambda>_. 0) False"]
    ignored_errorno_by_channel[OF case_labels_linux, of 64 False False True "process_at 0 () (\<lambda>_. 0) False"]
    ignored_errorno_by_channel[OF case_labels_linux, of 113 False False True "process_at 0 () (\<lambda>_. 0) False"]
    ignored_errorno_by_channel[OF case_labels_linux, of 113 True True False "process_at 0 () (\<lambda>_. 0) False"]
  by (simp add: ignored_errorno_def linux_errno_def process_at_def case_labels_def
      again_labels_def tcp_labels_def udp_labels_def)

text \<open>
  C3. The classification is a total function of the error number, the three flags
  and the flag behind \<^verbatim>\<open>ignore_intr()\<close>, which it reads from the process at the
  time of the call: \<^verbatim>\<open>EINTR\<close> is ignored iff that flag is set, and the answer
  follows the flag when it is flipped; two processes with the same flag get the same
  answer; an error number that is no label of the switch is never ignored; with the
  three flags false no error number but \<^verbatim>\<open>EINTR\<close> is ignored.
\<close>

theorem ignored_errorno_total:
  "ignored_errorno E (EINTR E) again tcp udp p = ignore_intr p
   \<and> ignored_errorno E (EINTR E) again tcp udp (p\<lparr>ignore_intr := b\<rparr>) = b
   \<and> (ignore_intr p = ignore_intr q \<longrightarrow>
        ignored_errorno E e again tcp udp p = ignored_errorno E e again tcp udp q)
   \<and> (e \<notin> set (case_labels E) \<longrightarrow> \<not> ignored_errorno E e again tcp udp p)
   \<and> (e \<noteq> EINTR E \<longrightarrow> \<not> ignored_errorno E e False False False p)"
proof (intro conjI impI)
  show "ignored_errorno E (EINTR E) again tcp udp p = ignore_intr p"
    by (simp add: ignored_errorno_def)
  show "ignored_errorno E (EINTR E) again tcp udp (p\<lparr>ignore_intr := b\<rparr>) = b"
    by (simp add: ignored_errorno_def)
  show "ignored_errorno E e again tcp udp p = ignored_errorno E e again tcp udp q"
    if "ignore_intr p = ignore_intr q"
    using that by (simp add: ignored_errorno_def)
  show "\<not> ignored_errorno E e again tcp udp p" if "e \<notin> set (case_labels E)"
    using that by (rule default_case)
  show "\<not> ignored_errorno E e False False False p" if "e \<noteq> EINTR E"
    using that by (simp add: ignored_errorno_def)
qed

theorem ignored_errorno_total_witness:
  "ignore_intr (process_at 0 () (\<lambda>_. 0) True) = ignore_intr (process_at 5 () (\<lambda>_. 3) True)
   \<and> ignored_errorno linux_errno 4 False False False (process_at 0 () (\<lambda>_. 0) True)
   \<and> ignored_errorno linux_errno 4 False False False (process_at 5 () (\<lambda>_. 3) True)
   \<and> \<not> ignored_errorno linux_errno 4 True True True (process_at 0 () (\<lambda>_. 0) False)
   \<and> 9 \<notin> set (case_labels linux_errno)
   \<and> \<not> ignored_errorno linux_errno 9 True True True (process_at 0 () (\<lambda>_. 0) True)
   \<and> 104 \<noteq> EINTR linux_errno
   \<and> \<not> ignored_errorno linux_errno 104 False False False (process_at 0 () (\<lambda>_. 0) True)"
  using ignored_errorno_total[of linux_errno False False False "process_at 0 () (\<lambda>_. 0) True"
      False "process_at 5 () (\<lambda>_. 3) True" 4]
    ignored_errorno_total[of linux_errno True True True "process_at 0 () (\<lambda>_. 0) False"
      False "process_at 0 () (\<lambda>_. 0) False" 9]
    ignored_errorno_total[of linux_errno True True True "process_at 0 () (\<lambda>_. 0) True"
      True "process_at 0 () (\<lambda>_. 0) True" 9]
    ignored_errorno_total[of linux_errno False False False "process_at 0 () (\<lambda>_. 0) True"
      True "process_at 0 () (\<lambda>_. 0) True" 104]
  by (simp add: ignored_errorno_def linux_errno_def process_at_def case_labels_def
      again_labels_def tcp_labels_def udp_labels_def)

section \<open>The retry macro: the claims\<close>

text \<open>
  C1, as the specification states it: with the flag behind \<^verbatim>\<open>ignore_intr()\<close> clear,
  the caller of a wrapped call sees the interruption (-1 with \<^verbatim>\<open>EINTR\<close>) like any
  other error. The macro does not read the flag. In the run below the flag is clear,
  the first \<^verbatim>\<open>recv\<close> is interrupted, and both the macro and \<open>recv\<close> call again
  and return 7.
\<close>

theorem TEMP_FAILURE_RETRY_flag_clear_counterexample:
  "\<not> ignore_intr (process_at 0 ([(- 1, Some 4), (7, None)] :: script) (\<lambda>_. 0) False)
   \<and> syscall scripted (Sys_recv 5 0 16 0) (process_at 0 [(- 1, Some 4), (7, None)] (\<lambda>_. 0) False)
       = Some (Inr (- 1, process_at 4 [(7, None)] (\<lambda>_. 0) False))
   \<and> errno (os (process_at 4 ([(7, None)] :: script) (\<lambda>_. 0) False)) = EINTR linux_errno
   \<and> TEMP_FAILURE_RETRY linux_errno (syscall scripted (Sys_recv 5 0 16 0))
         (process_at 0 [(- 1, Some 4), (7, None)] (\<lambda>_. 0) False)
       = Some (Inr (7, process_at 4 [] (\<lambda>_. 0) False))
   \<and> recv linux_build scripted 5 0 16 0 (process_at 0 [(- 1, Some 4), (7, None)] (\<lambda>_. 0) False)
       = Some (Inr (7, process_at 4 [] (\<lambda>_. 0) False))"
proof -
  let ?c = "syscall scripted (Sys_recv 5 0 16 0)"
  let ?p0 = "process_at 0 ([(- 1, Some 4), (7, None)] :: script) (\<lambda>_. 0) False"
  let ?p1 = "process_at 4 ([(7, None)] :: script) (\<lambda>_. 0) False"
  let ?p2 = "process_at 4 ([] :: script) (\<lambda>_. 0) False"
  have first: "?c ?p0 = Some (Inr (- 1, ?p1))" by (simp add: scripted_step)
  have second: "?c ?p1 = Some (Inr (7, ?p2))" by (simp add: scripted_step)
  have eintr: "errno (os ?p1) = EINTR linux_errno"
    by (simp add: process_at_sel linux_errno_def)
  have "TEMP_FAILURE_RETRY linux_errno ?c ?p0 = TEMP_FAILURE_RETRY linux_errno ?c ?p1"
    using first eintr by (rule retry_interrupted)
  also have "\<dots> = Some (Inr (7, ?p2))"
    using second by (rule retry_returned) simp
  finally have retry: "TEMP_FAILURE_RETRY linux_errno ?c ?p0 = Some (Inr (7, ?p2))" .
  have "recv linux_build scripted 5 0 16 0 ?p0 = TEMP_FAILURE_RETRY linux_errno ?c ?p0"
    by (simp add: recv_def CHECK_OPENED_SOCKET_def linux_build_def bind_io_return)
  with retry first eintr show ?thesis by (simp add: process_at_sel)
qed

text \<open>
  C1, amended. The macro calls the expression again exactly when it returned -1 and
  left \<^verbatim>\<open>EINTR\<close>, and otherwise returns that result; so what it returns is never
  an interruption. The flag behind \<^verbatim>\<open>ignore_intr()\<close> has no part in it: a run on
  an operating-system call gives the same value and the same state whatever the flag
  is set to.
\<close>

theorem TEMP_FAILURE_RETRY_until_not_interrupted:
  "(exp p = Some (Inr (err, p')) \<longrightarrow>
      TEMP_FAILURE_RETRY E exp p =
        (if err = - 1 \<and> errno (os p') = EINTR E then TEMP_FAILURE_RETRY E exp p'
         else Some (Inr (err, p'))))
   \<and> (TEMP_FAILURE_RETRY E exp p = Some (Inr (r, q)) \<longrightarrow>
        \<not> (r = - 1 \<and> errno (os q) = EINTR E))
   \<and> (TEMP_FAILURE_RETRY E (syscall sys c) p = Some (Inr (r, q)) \<longrightarrow>
        TEMP_FAILURE_RETRY E (syscall sys c) (p\<lparr>ignore_intr := b\<rparr>)
        = Some (Inr (r, q\<lparr>ignore_intr := b\<rparr>)))"
  by (intro conjI impI retry_step retry_not_interrupted retry_flag_irrelevant)

theorem TEMP_FAILURE_RETRY_until_not_interrupted_witness:
  "syscall scripted (Sys_recv 5 0 16 0) (process_at 0 [(- 1, Some 4), (7, None)] (\<lambda>_. 0) False)
     = Some (Inr (- 1, process_at 4 [(7, None)] (\<lambda>_. 0) False))
   \<and> TEMP_FAILURE_RETRY linux_errno (syscall scripted (Sys_recv 5 0 16 0))
         (process_at 0 [(- 1, Some 4), (7, None)] (\<lambda>_. 0) False)
       = TEMP_FAILURE_RETRY linux_errno (syscall scripted (Sys_recv 5 0 16 0))
         (process_at 4 [(7, None)] (\<lambda>_. 0) False)
   \<and> TEMP_FAILURE_RETRY linux_errno (syscall scripted (Sys_recv 5 0 16 0))
         (process_at 4 [(7, None)] (\<lambda>_. 0) False)
       = Some (Inr (7, process_at 4 [] (\<lambda>_. 0) False))
   \<and> \<not> (7 = (- 1 :: int)
          \<and> errno (os (process_at 4 ([] :: script) (\<lambda>_. 0) False)) = EINTR linux_errno)
   \<and> TEMP_FAILURE_RETRY linux_errno (syscall scripted (Sys_recv 5 0 16 0))
         (process_at 4 [(7, None)] (\<lambda>_. 0) True)
       = Some (Inr (7, process_at 4 [] (\<lambda>_. 0) True))"
proof -
  let ?c = "syscall scripted (Sys_recv 5 0 16 0)"
  let ?p0 = "process_at 0 ([(- 1, Some 4), (7, None)] :: script) (\<lambda>_. 0) False"
  let ?p1 = "process_at 4 ([(7, None)] :: script) (\<lambda>_. 0) False"
  let ?p2 = "process_at 4 ([] :: script) (\<lambda>_. 0) False"
  have first: "?c ?p0 = Some (Inr (- 1, ?p1))" by (simp add: scripted_step)
  have second: "?c ?p1 = Some (Inr (7, ?p2))" by (simp add: scripted_step)
  have a: "TEMP_FAILURE_RETRY linux_errno ?c ?p0 = TEMP_FAILURE_RETRY linux_errno ?c ?p1"
    using TEMP_FAILURE_RETRY_until_not_interrupted
      [where exp = ?c and p = ?p0 and err = "- 1" and p' = ?p1 and E = linux_errno] first
    by (simp add: process_at_sel linux_errno_def)
  have b: "TEMP_FAILURE_RETRY linux_errno ?c ?p1 = Some (Inr (7, ?p2))"
    using TEMP_FAILURE_RETRY_until_not_interrupted
      [where exp = ?c and p = ?p1 and err = 7 and p' = ?p2 and E = linux_errno] second
    by simp
  have c: "TEMP_FAILURE_RETRY linux_errno ?c (?p1\<lparr>ignore_intr := True\<rparr>)
           = Some (Inr (7, ?p2\<lparr>ignore_intr := True\<rparr>))"
    using TEMP_FAILURE_RETRY_until_not_interrupted
      [where sys = scripted and c = "Sys_recv 5 0 16 0" and p = ?p1 and r = 7 and q = ?p2
         and E = linux_errno and b = True] b
    by simp
  from first a b c show ?thesis by (simp add: process_at_def)
qed

text \<open>
  C8. Let a wrapped expression be interrupted \<open>n\<close> times in a row from the state
  \<open>q 0\<close> (each time it returns -1 and leaves \<^verbatim>\<open>EINTR\<close>), and let its next result
  \<open>r\<close> be no interruption. Then, with the flag behind \<^verbatim>\<open>ignore_intr()\<close> set, the
  retry macro terminates and returns \<open>r\<close> with the state that last call left: the
  caller sees the eventual result and no interruption. (The proof makes no use of the
  flag: the macro does not read it.)
\<close>

theorem retry_returns_eventual_result:
  assumes "ignore_intr (q 0)"
    and "\<forall>i<n. exp (q i) = Some (Inr (- 1, q (Suc i))) \<and> errno (os (q (Suc i))) = EINTR E"
    and "exp (q n) = Some (Inr (r, p'))"
    and "\<not> (r = - 1 \<and> errno (os p') = EINTR E)"
  shows "TEMP_FAILURE_RETRY E exp (q 0) = Some (Inr (r, p'))"
  using assms(2-4) by (intro retry_absorbs[where n = n]) auto

theorem retry_returns_eventual_result_witness:
  "ignore_intr (process_at 0 ([(- 1, Some 4), (- 1, Some 4), (7, None)] :: script) (\<lambda>_. 0) True)
   \<and> TEMP_FAILURE_RETRY linux_errno (syscall scripted (Sys_send 5 0 16 0))
        (process_at 0 [(- 1, Some 4), (- 1, Some 4), (7, None)] (\<lambda>_. 0) True)
      = Some (Inr (7, process_at 4 [] (\<lambda>_. 0) True))"
proof -
  let ?c = "syscall scripted (Sys_send 5 0 16 0)"
  let ?q = "\<lambda>i::nat. process_at (if i = 0 then 0 else 4)
              (drop i ([(- 1, Some 4), (- 1, Some 4), (7, None)] :: script))
              (\<lambda>_. 0) True"
  have "\<forall>i<2. ?c (?q i) = Some (Inr (- 1, ?q (Suc i))) \<and> errno (os (?q (Suc i))) = EINTR linux_errno"
  proof (intro allI impI)
    fix i :: nat assume "i < 2"
    then have "i = 0 \<or> i = 1" by auto
    then show "?c (?q i) = Some (Inr (- 1, ?q (Suc i))) \<and> errno (os (?q (Suc i))) = EINTR linux_errno"
      by (auto simp: scripted_step process_at_sel linux_errno_def)
  qed
  moreover have "?c (?q 2) = Some (Inr (7, process_at 4 [] (\<lambda>_. 0) True))"
    by (simp add: scripted_step)
  moreover have "ignore_intr (?q 0)" by (simp add: process_at_sel)
  ultimately have "TEMP_FAILURE_RETRY linux_errno ?c (?q 0)
      = Some (Inr (7, process_at 4 [] (\<lambda>_. 0) True))"
    by (intro retry_returns_eventual_result[where n = 2 and q = ?q]) simp_all
  then show ?thesis by (simp add: process_at_sel)
qed

section \<open>The lifecycle tracker: the claims\<close>

text \<open>
  C9. In a diagnostic build, a descriptor number below
  \<^verbatim>\<open>XAPIAND_MINIMUM_FILE_DESCRIPTOR\<close> (and other than the failure sentinel -1, which is
  no descriptor) is rejected with a configuration error, by \<open>CHECK_OPEN\<close> and by
  \<open>CHECK_OPEN_SOCKET\<close> alike and whatever bits the call asks for. The floor is the
  override of the build where there is one and \<^verbatim>\<open>STDERR_FILENO + 1\<close>, that is 3,
  otherwise: by default the descriptors 0, 1 and 2 are never accepted.
\<close>

theorem below_minimum_rejected:
  "(check_io_fdes B \<and> fd \<noteq> - 1 \<and> fd < XAPIAND_MINIMUM_FILE_DESCRIPTOR B \<longrightarrow>
      CHECK_OPEN B fd p = Some (Inl Configuration_error)
      \<and> CHECK_OPEN_SOCKET B fd p = Some (Inl Configuration_error)
      \<and> check B msg fd check_set check_unset set_bits p = Some (Inl Configuration_error))
   \<and> (minimum_file_descriptor_override B = None \<longrightarrow>
        XAPIAND_MINIMUM_FILE_DESCRIPTOR B = STDERR_FILENO + 1
        \<and> XAPIAND_MINIMUM_FILE_DESCRIPTOR B = 3)
   \<and> (minimum_file_descriptor_override B = Some v \<longrightarrow> XAPIAND_MINIMUM_FILE_DESCRIPTOR B = v)
   \<and> (check_io_fdes B \<and> minimum_file_descriptor_override B = None \<and> 0 \<le> fd \<and> fd \<le> 2 \<longrightarrow>
        CHECK_OPEN B fd p = Some (Inl Configuration_error)
        \<and> CHECK_OPEN_SOCKET B fd p = Some (Inl Configuration_error))"
proof (intro conjI impI)
  assume a: "check_io_fdes B \<and> fd \<noteq> - 1 \<and> fd < XAPIAND_MINIMUM_FILE_DESCRIPTOR B"
  then show "CHECK_OPEN B fd p = Some (Inl Configuration_error)"
    by (simp add: CHECK_OPEN_def check_below)
  from a show "CHECK_OPEN_SOCKET B fd p = Some (Inl Configuration_error)"
    by (simp add: CHECK_OPEN_SOCKET_def check_below)
  from a show "check B msg fd check_set check_unset set_bits p = Some (Inl Configuration_error)"
    by (simp add: check_below)
next
  assume "minimum_file_descriptor_override B = None"
  then show "XAPIAND_MINIMUM_FILE_DESCRIPTOR B = STDERR_FILENO + 1"
    "XAPIAND_MINIMUM_FILE_DESCRIPTOR B = 3"
    by (simp_all add: XAPIAND_MINIMUM_FILE_DESCRIPTOR_def STDERR_FILENO_def)
next
  assume "minimum_file_descriptor_override B = Some v"
  then show "XAPIAND_MINIMUM_FILE_DESCRIPTOR B = v"
    by (simp add: XAPIAND_MINIMUM_FILE_DESCRIPTOR_def)
next
  assume a: "check_io_fdes B \<and> minimum_file_descriptor_override B = None \<and> 0 \<le> fd \<and> fd \<le> 2"
  then have "fd \<noteq> - 1" "fd < XAPIAND_MINIMUM_FILE_DESCRIPTOR B"
    by (simp_all add: minimum_default)
  with a show "CHECK_OPEN B fd p = Some (Inl Configuration_error)"
    "CHECK_OPEN_SOCKET B fd p = Some (Inl Configuration_error)"
    by (simp_all add: CHECK_OPEN_def CHECK_OPEN_SOCKET_def check_below)
qed

theorem below_minimum_rejected_witness:
  "check_io_fdes linux_debug_build
   \<and> minimum_file_descriptor_override linux_debug_build = None
   \<and> XAPIAND_MINIMUM_FILE_DESCRIPTOR linux_debug_build = 3
   \<and> CHECK_OPEN linux_debug_build 2 (process_at 0 () (\<lambda>_. 0) False) = Some (Inl Configuration_error)
   \<and> CHECK_OPEN_SOCKET linux_debug_build 2 (process_at 0 () (\<lambda>_. 0) False)
        = Some (Inl Configuration_error)
   \<and> check linux_debug_build ''during lseek()'' 2 OPENED CLOSED 0 (process_at 0 () (\<lambda>_. 0) False)
        = Some (Inl Configuration_error)
   \<and> minimum_file_descriptor_override (linux_debug_build\<lparr>minimum_file_descriptor_override := Some 10\<rparr>)
        = Some 10
   \<and> XAPIAND_MINIMUM_FILE_DESCRIPTOR (linux_debug_build\<lparr>minimum_file_descriptor_override := Some 10\<rparr>) = 10"
proof -
  let ?p = "process_at 0 () (\<lambda>_. 0) False"
  let ?B' = "linux_debug_build\<lparr>minimum_file_descriptor_override := Some 10\<rparr>"
  note fact = below_minimum_rejected
    [where B = linux_debug_build and fd = 2 and p = ?p and msg = "''during lseek()''"
       and check_set = OPENED and check_unset = CLOSED and set_bits = 0]
  have none: "minimum_file_descriptor_override linux_debug_build = None"
    by (rule linux_debug_build_sel)
  from fact none have three: "XAPIAND_MINIMUM_FILE_DESCRIPTOR linux_debug_build = 3" by blast
  have "check_io_fdes linux_debug_build \<and> (2::int) \<noteq> - 1
        \<and> 2 < XAPIAND_MINIMUM_FILE_DESCRIPTOR linux_debug_build"
    using three by (simp add: linux_debug_build_sel)
  with fact have rejected:
    "CHECK_OPEN linux_debug_build 2 ?p = Some (Inl Configuration_error)
     \<and> CHECK_OPEN_SOCKET linux_debug_build 2 ?p = Some (Inl Configuration_error)
     \<and> check linux_debug_build ''during lseek()'' 2 OPENED CLOSED 0 ?p
         = Some (Inl Configuration_error)"
    by blast
  have some: "minimum_file_descriptor_override ?B' = Some 10" by simp
  with below_minimum_rejected[where B = ?B' and v = 10]
  have "XAPIAND_MINIMUM_FILE_DESCRIPTOR ?B' = 10" by blast
  with rejected three none some show ?thesis by (simp add: linux_debug_build_sel)
qed

text \<open>
  C4, as the specification states it: a file operation on a descriptor tracked as
  a socket is rejected. In the diagnostic build below, \<open>socket\<close> registers
  descriptor 5 as a socket, and \<open>lseek\<close> on it passes \<open>CHECK_OPENED\<close>, which asks
  for \<open>OPENED\<close> and the absence of \<open>CLOSED\<close> only, and returns what \<^verbatim>\<open>::lseek\<close>
  returned.
\<close>

theorem tracker_file_operation_on_socket_counterexample:
  "bind_io (socket linux_debug_build scripted 2 1 0) (\<lambda>s. lseek linux_debug_build scripted s 0 0)
      (process_at 0 [(5, None), (0, None)] (\<lambda>_. 0) False)
    = Some (Inr (0, process_at 0 [] ((\<lambda>_. 0)(5 := OPENED OR SOCKET)) False))"
proof -
  note B = linux_debug_build_sel
  let ?t = "(\<lambda>_. 0)(5 := OPENED OR SOCKET) :: int \<Rightarrow> int"
  have five: "(5::int) \<noteq> - 1" "XAPIAND_MINIMUM_FILE_DESCRIPTOR linux_debug_build \<le> 5"
    by (simp_all add: B)
  have s1: "syscall scripted (Sys_socket 2 1 0) (process_at 0 [(5, None), (0, None)] (\<lambda>_. 0) False)
      = Some (Inr (5, process_at 0 [(0, None)] (\<lambda>_. 0) False))"
    by (simp add: scripted_step)
  have c1: "CHECK_OPEN_SOCKET linux_debug_build 5 (process_at 0 [(0, None)] (\<lambda>_. 0) False)
      = Some (Inr ((), process_at 0 [(0, None)] ?t False))"
    using fresh_accepts_open(2)[OF B(1) five, of "process_at 0 [(0, None)] (\<lambda>_. 0) False"]
    by (simp add: process_at_def)
  have created: "socket linux_debug_build scripted 2 1 0 (process_at 0 [(5, None), (0, None)] (\<lambda>_. 0) False)
      = Some (Inr (5, process_at 0 [(0, None)] ?t False))"
    by (simp add: socket_def bind_io_def s1 c1 return_io_def)
  have c2: "CHECK_OPENED linux_debug_build ''during lseek()'' 5 (process_at 0 [(0, None)] ?t False)
      = Some (Inr ((), process_at 0 [(0, None)] ?t False))"
    using socket_accepts_file_op[OF B(1) five, of "process_at 0 [(0, None)] ?t False"]
    by (simp add: process_at_sel)
  have s2: "syscall scripted (Sys_lseek 5 0 0) (process_at 0 [(0, None)] ?t False)
      = Some (Inr (0, process_at 0 [] ?t False))"
    by (simp add: scripted_step)
  have seek: "lseek linux_debug_build scripted 5 0 0 (process_at 0 [(0, None)] ?t False)
      = Some (Inr (0, process_at 0 [] ?t False))"
    by (simp add: lseek_def bind_io_def c2 s2)
  from created seek show ?thesis
    by (simp add: bind_io_def)
qed

text \<open>
  C4, amended: the sentence of the specification with the file operation on a socket
  accepted instead of rejected. In a diagnostic build, for a descriptor number other
  than -1:
  \<^item> once \<open>CHECK_OPEN\<close> or \<open>CHECK_OPEN_SOCKET\<close> has passed, either of them aborts
    (opening twice without a close in between is rejected);
  \<^item> on a descriptor that is not marked \<open>OPENED\<close>, be it unopened or closed,
    \<open>CHECK_CLOSING\<close> aborts, and so does \<open>io_close\<close>, before it calls
    \<^verbatim>\<open>::close\<close>; it is \<open>CHECK_CLOSING\<close> that rejects, \<open>CHECK_CLOSE\<close> alone only
    forbids \<open>CLOSED\<close>;
  \<^item> once \<open>io_close\<close> has returned something other than -1, or \<open>CHECK_CLOSE\<close> has
    passed, the descriptor is marked \<open>CLOSED\<close> and not \<open>OPENED\<close>: \<open>CHECK_CLOSING\<close>,
    \<open>CHECK_CLOSE\<close> and \<open>io_close\<close> abort (closing twice is rejected), and so does
    every operation on it;
  \<^item> the same number is then accepted by \<open>CHECK_OPEN\<close> and by \<open>CHECK_OPEN_SOCKET\<close>
    as a fresh descriptor, and marked \<open>OPENED\<close>, or \<open>OPENED\<close> and \<open>SOCKET\<close>, alone;
  \<^item> a socket operation (\<open>CHECK_OPENED_SOCKET\<close>) on a descriptor tracked as a file
    aborts, while a file operation (\<open>CHECK_OPENED\<close>, which asks for \<open>OPENED\<close>
    only) on a descriptor tracked as a socket passes;
  \<^item> a descriptor with no bits is accepted by both opening checks and marked, and an
    open descriptor is accepted by \<open>io_close\<close>, which returns what \<^verbatim>\<open>::close\<close>
    returned and, unless that is -1, leaves the descriptor marked \<open>CLOSED\<close> alone.
\<close>

theorem tracker_transitions:
  assumes "check_io_fdes B" and "fd \<noteq> - 1"
  shows
    "(CHECK_OPEN B fd p = Some (Inr (u, p')) \<or> CHECK_OPEN_SOCKET B fd p = Some (Inr (u, p')) \<longrightarrow>
        CHECK_OPEN B fd p' = Some (Inl (Lifecycle_violation ''while opening as file''))
        \<and> CHECK_OPEN_SOCKET B fd p' = Some (Inl (Lifecycle_violation ''while opening as socket'')))
     \<and> (XAPIAND_MINIMUM_FILE_DESCRIPTOR B \<le> fd \<and> (fdes p fd AND OPENED) \<noteq> OPENED \<longrightarrow>
        CHECK_CLOSING B fd p = Some (Inl (Lifecycle_violation ''while closing''))
        \<and> io_close B sys fd p = Some (Inl (Lifecycle_violation ''while closing'')))
     \<and> (io_close B sys fd p = Some (Inr (r, p')) \<and> r \<noteq> - 1
          \<or> CHECK_CLOSE B fd p = Some (Inr (u, p')) \<longrightarrow>
        (fdes p' fd AND CLOSED) \<noteq> 0 \<and> (fdes p' fd AND OPENED) \<noteq> OPENED
        \<and> CHECK_CLOSING B fd p' = Some (Inl (Lifecycle_violation ''while closing''))
        \<and> CHECK_CLOSE B fd p' = Some (Inl (Lifecycle_violation ''while closing''))
        \<and> io_close B sys fd p' = Some (Inl (Lifecycle_violation ''while closing''))
        \<and> CHECK_OPENED B msg fd p' = Some (Inl (Lifecycle_violation msg))
        \<and> CHECK_OPENED_SOCKET B msg fd p' = Some (Inl (Lifecycle_violation msg))
        \<and> CHECK_OPEN B fd p' = Some (Inr ((), p'\<lparr>fdes := (fdes p')(fd := OPENED)\<rparr>))
        \<and> CHECK_OPEN_SOCKET B fd p'
            = Some (Inr ((), p'\<lparr>fdes := (fdes p')(fd := OPENED OR SOCKET)\<rparr>)))
     \<and> (XAPIAND_MINIMUM_FILE_DESCRIPTOR B \<le> fd \<and> fdes p fd = OPENED \<longrightarrow>
        CHECK_OPENED_SOCKET B msg fd p = Some (Inl (Lifecycle_violation msg)))
     \<and> (XAPIAND_MINIMUM_FILE_DESCRIPTOR B \<le> fd \<and> fdes p fd = (OPENED OR SOCKET) \<longrightarrow>
        CHECK_OPENED B msg fd p = Some (Inr ((), p)))
     \<and> (XAPIAND_MINIMUM_FILE_DESCRIPTOR B \<le> fd \<and> fdes p fd = 0 \<longrightarrow>
        CHECK_OPEN B fd p = Some (Inr ((), p\<lparr>fdes := (fdes p)(fd := OPENED)\<rparr>))
        \<and> CHECK_OPEN_SOCKET B fd p = Some (Inr ((), p\<lparr>fdes := (fdes p)(fd := OPENED OR SOCKET)\<rparr>)))
     \<and> (XAPIAND_MINIMUM_FILE_DESCRIPTOR B \<le> fd
          \<and> (fdes p fd = OPENED \<or> fdes p fd = (OPENED OR SOCKET))
          \<and> sys (Sys_close fd) (os p) = (r, k) \<longrightarrow>
        io_close B sys fd p
        = Some (Inr (r, if r = - 1 then p\<lparr>os := k\<rparr>
                        else p\<lparr>os := k, fdes := (fdes p)(fd := CLOSED)\<rparr>)))"
proof -
  have twice: "CHECK_OPEN B fd p' = Some (Inl (Lifecycle_violation ''while opening as file''))
        \<and> CHECK_OPEN_SOCKET B fd p' = Some (Inl (Lifecycle_violation ''while opening as socket''))"
    if a: "CHECK_OPEN B fd p = Some (Inr (u, p')) \<or> CHECK_OPEN_SOCKET B fd p = Some (Inr (u, p'))"
  proof -
    from a have m: "XAPIAND_MINIMUM_FILE_DESCRIPTOR B \<le> fd"
      using CHECK_OPEN_returns(3)[of B fd p u p'] CHECK_OPEN_SOCKET_returns(3)[of B fd p u p'] assms
      by blast
    from a have "(fdes p' fd AND (OPENED OR CLOSED)) = OPENED
        \<or> (fdes p' fd AND (OPENED OR SOCKET OR CLOSED)) = (OPENED OR SOCKET)"
      using CHECK_OPEN_returns(5)[of B fd p u p'] CHECK_OPEN_SOCKET_returns(5)[of B fd p u p'] assms
      by blast
    then have o: "(fdes p' fd AND OPENED) = OPENED" and c: "(fdes p' fd AND CLOSED) = 0"
      using open_bits[of "fdes p' fd"] by blast+
    from opened_rejects_open[OF assms m o c] show ?thesis by simp
  qed
  have unopened: "CHECK_CLOSING B fd p = Some (Inl (Lifecycle_violation ''while closing''))
        \<and> io_close B sys fd p = Some (Inl (Lifecycle_violation ''while closing''))"
    if "XAPIAND_MINIMUM_FILE_DESCRIPTOR B \<le> fd \<and> (fdes p fd AND OPENED) \<noteq> OPENED"
    using that assms by (simp add: not_opened_rejects_closing io_close_rejects)
  have closed: "(fdes p' fd AND CLOSED) \<noteq> 0 \<and> (fdes p' fd AND OPENED) \<noteq> OPENED
        \<and> CHECK_CLOSING B fd p' = Some (Inl (Lifecycle_violation ''while closing''))
        \<and> CHECK_CLOSE B fd p' = Some (Inl (Lifecycle_violation ''while closing''))
        \<and> io_close B sys fd p' = Some (Inl (Lifecycle_violation ''while closing''))
        \<and> CHECK_OPENED B msg fd p' = Some (Inl (Lifecycle_violation msg))
        \<and> CHECK_OPENED_SOCKET B msg fd p' = Some (Inl (Lifecycle_violation msg))
        \<and> CHECK_OPEN B fd p' = Some (Inr ((), p'\<lparr>fdes := (fdes p')(fd := OPENED)\<rparr>))
        \<and> CHECK_OPEN_SOCKET B fd p'
            = Some (Inr ((), p'\<lparr>fdes := (fdes p')(fd := OPENED OR SOCKET)\<rparr>))"
    if a: "io_close B sys fd p = Some (Inr (r, p')) \<and> r \<noteq> - 1
          \<or> CHECK_CLOSE B fd p = Some (Inr (u, p'))"
  proof -
    from a have m: "XAPIAND_MINIMUM_FILE_DESCRIPTOR B \<le> fd"
      using io_close_floor[OF assms, of sys p r p'] CHECK_CLOSE_returns(1)[OF assms, of p u p']
      by blast
    from a have "fdes p' fd = ((fdes p fd OR CLOSED) AND NOT (OPENED OR SOCKET))"
      using io_close_returns(4)[OF assms, of sys p r p'] CHECK_CLOSE_returns(2)[OF assms, of p u p']
      by auto
    then have c: "(fdes p' fd AND CLOSED) \<noteq> 0" and o: "(fdes p' fd AND OPENED) \<noteq> OPENED"
      using closed_bit_set[OF closed_masks(1), of "fdes p fd"] closed_not_opened[of "fdes p fd"]
      by simp_all
    from c o not_opened_rejects_closing[OF assms m o] io_close_rejects[OF assms m o]
      closed_rejects[OF assms m c] closed_accepts_open[OF assms m c]
    show ?thesis by simp
  qed
  have sockop: "CHECK_OPENED_SOCKET B msg fd p = Some (Inl (Lifecycle_violation msg))"
    if "XAPIAND_MINIMUM_FILE_DESCRIPTOR B \<le> fd \<and> fdes p fd = OPENED"
    using that assms by (simp add: file_rejects_socket_op)
  have fileop: "CHECK_OPENED B msg fd p = Some (Inr ((), p))"
    if "XAPIAND_MINIMUM_FILE_DESCRIPTOR B \<le> fd \<and> fdes p fd = (OPENED OR SOCKET)"
    using that assms by (simp add: socket_accepts_file_op)
  have fresh: "CHECK_OPEN B fd p = Some (Inr ((), p\<lparr>fdes := (fdes p)(fd := OPENED)\<rparr>))
        \<and> CHECK_OPEN_SOCKET B fd p = Some (Inr ((), p\<lparr>fdes := (fdes p)(fd := OPENED OR SOCKET)\<rparr>))"
    if "XAPIAND_MINIMUM_FILE_DESCRIPTOR B \<le> fd \<and> fdes p fd = 0"
    using that assms by (simp add: fresh_accepts_open)
  have closing: "io_close B sys fd p
        = Some (Inr (r, if r = - 1 then p\<lparr>os := k\<rparr>
                        else p\<lparr>os := k, fdes := (fdes p)(fd := CLOSED)\<rparr>))"
    if a: "XAPIAND_MINIMUM_FILE_DESCRIPTOR B \<le> fd
          \<and> (fdes p fd = OPENED \<or> fdes p fd = (OPENED OR SOCKET))
          \<and> sys (Sys_close fd) (os p) = (r, k)"
  proof -
    from a have m: "XAPIAND_MINIMUM_FILE_DESCRIPTOR B \<le> fd"
      and s: "fdes p fd = OPENED \<or> fdes p fd = (OPENED OR SOCKET)"
      and k: "sys (Sys_close fd) (os p) = (r, k)" by blast+
    from s have o: "(fdes p fd AND OPENED) = OPENED" and c: "(fdes p fd AND CLOSED) = 0"
      by (auto simp: bits_values)
    from io_close_accepts[where sys = sys, OF assms m o c k] closed_state[OF s]
    show ?thesis by simp
  qed
  from twice unopened closed sockop fileop fresh closing show ?thesis by blast
qed

theorem tracker_transitions_witness:
  "check_io_fdes linux_debug_build \<and> (5::int) \<noteq> - 1
   \<and> XAPIAND_MINIMUM_FILE_DESCRIPTOR linux_debug_build \<le> 5
   \<and> CHECK_OPEN linux_debug_build 5 (process_at 0 ([(0, None)] :: script) (\<lambda>_. 0) False)
       = Some (Inr ((), process_at 0 [(0, None)] ((\<lambda>_. 0)(5 := OPENED)) False))
   \<and> CHECK_OPEN linux_debug_build 5
         (process_at 0 ([(0, None)] :: script) ((\<lambda>_. 0)(5 := OPENED)) False)
       = Some (Inl (Lifecycle_violation ''while opening as file''))
   \<and> CHECK_OPENED_SOCKET linux_debug_build ''during send()'' 5
         (process_at 0 ([(0, None)] :: script) ((\<lambda>_. 0)(5 := OPENED)) False)
       = Some (Inl (Lifecycle_violation ''during send()''))
   \<and> io_close linux_debug_build scripted 5 (process_at 0 [(0, None)] (\<lambda>_. 0) False)
       = Some (Inl (Lifecycle_violation ''while closing''))
   \<and> io_close linux_debug_build scripted 5
         (process_at 0 [(0, None)] ((\<lambda>_. 0)(5 := OPENED)) False)
       = Some (Inr (0, process_at 0 [] ((\<lambda>_. 0)(5 := CLOSED)) False))
   \<and> io_close linux_debug_build scripted 5 (process_at 0 [] ((\<lambda>_. 0)(5 := CLOSED)) False)
       = Some (Inl (Lifecycle_violation ''while closing''))
   \<and> CHECK_OPEN linux_debug_build 5 (process_at 0 ([] :: script) ((\<lambda>_. 0)(5 := CLOSED)) False)
       = Some (Inr ((), process_at 0 [] ((\<lambda>_. 0)(5 := OPENED)) False))
   \<and> CHECK_OPENED linux_debug_build ''during lseek()'' 5
         (process_at 0 ([] :: script) ((\<lambda>_. 0)(5 := OPENED OR SOCKET)) False)
       = Some (Inr ((), process_at 0 [] ((\<lambda>_. 0)(5 := OPENED OR SOCKET)) False))"
proof -
  note B = linux_debug_build_sel
  have five: "(5::int) \<noteq> - 1" by simp
  have m: "XAPIAND_MINIMUM_FILE_DESCRIPTOR linux_debug_build \<le> 5" by (simp add: B)
  let ?p0 = "process_at 0 ([(0, None)] :: script) (\<lambda>_. 0) False"
  let ?po = "process_at 0 ([(0, None)] :: script) ((\<lambda>_. 0)(5 := OPENED)) False"
  let ?pc = "process_at 0 ([] :: script) ((\<lambda>_. 0)(5 := CLOSED)) False"
  let ?pr = "process_at 0 ([] :: script) ((\<lambda>_. 0)(5 := OPENED)) False"
  let ?ps = "process_at 0 ([] :: script) ((\<lambda>_. 0)(5 := OPENED OR SOCKET)) False"
  note t = tracker_transitions[OF B(1) five, where sys = scripted]
  have fresh: "XAPIAND_MINIMUM_FILE_DESCRIPTOR linux_debug_build \<le> 5 \<and> fdes ?p0 5 = 0"
    using m by (simp add: process_at_sel)
  have opened: "CHECK_OPEN linux_debug_build 5 ?p0 = Some (Inr ((), ?po))"
    using t[of ?p0] fresh by (simp add: process_at_def)
  then have twice: "CHECK_OPEN linux_debug_build 5 ?po
      = Some (Inl (Lifecycle_violation ''while opening as file''))"
    using t[of ?p0 "()" ?po] by blast
  have isfile: "XAPIAND_MINIMUM_FILE_DESCRIPTOR linux_debug_build \<le> 5 \<and> fdes ?po 5 = OPENED"
    using m by (simp add: process_at_sel)
  then have sockop: "CHECK_OPENED_SOCKET linux_debug_build ''during send()'' 5 ?po
      = Some (Inl (Lifecycle_violation ''during send()''))"
    using t[of ?po _ _ _ "''during send()''"] by blast
  have "XAPIAND_MINIMUM_FILE_DESCRIPTOR linux_debug_build \<le> 5
      \<and> (fdes ?p0 5 AND OPENED) \<noteq> OPENED"
    using m by (simp add: process_at_sel OPENED_def)
  then have unopened: "io_close linux_debug_build scripted 5 ?p0
      = Some (Inl (Lifecycle_violation ''while closing''))"
    using t[of ?p0] by blast
  have "XAPIAND_MINIMUM_FILE_DESCRIPTOR linux_debug_build \<le> 5
      \<and> (fdes ?po 5 = OPENED \<or> fdes ?po 5 = (OPENED OR SOCKET))
      \<and> scripted (Sys_close 5) (os ?po) = (0, \<lparr>errno = 0, kernel = []\<rparr>)"
    using m by (simp add: process_at_def scripted_def)
  then have closed: "io_close linux_debug_build scripted 5 ?po = Some (Inr (0, ?pc))"
    using t[of ?po _ _ 0 _ "\<lparr>errno = 0, kernel = []\<rparr>"] by (simp add: process_at_def)
  then have c: "io_close linux_debug_build scripted 5 ?po = Some (Inr (0, ?pc)) \<and> (0::int) \<noteq> - 1
      \<or> CHECK_CLOSE linux_debug_build 5 ?po = Some (Inr ((), ?pc))"
    by simp
  have again: "io_close linux_debug_build scripted 5 ?pc
      = Some (Inl (Lifecycle_violation ''while closing''))"
    using t[of ?po "()" ?pc 0] c by blast
  have "CHECK_OPEN linux_debug_build 5 ?pc
      = Some (Inr ((), ?pc\<lparr>fdes := (fdes ?pc)(5 := OPENED)\<rparr>))"
    using t[of ?po "()" ?pc 0] c by blast
  then have reuse: "CHECK_OPEN linux_debug_build 5 ?pc = Some (Inr ((), ?pr))"
    by (simp add: process_at_def)
  have "XAPIAND_MINIMUM_FILE_DESCRIPTOR linux_debug_build \<le> 5 \<and> fdes ?ps 5 = (OPENED OR SOCKET)"
    using m by (simp add: process_at_sel)
  then have fileop: "CHECK_OPENED linux_debug_build ''during lseek()'' 5 ?ps = Some (Inr ((), ?ps))"
    using t[of ?ps _ _ _ "''during lseek()''"] by blast
  from B(1) m opened twice sockop unopened closed again reuse fileop show ?thesis by simp
qed

text \<open>
  C7. In a diagnostic build the creating wrappers \<open>io_open\<close>, \<open>socket\<close> and
  \<open>accept\<close> register a descriptor exactly when the call of the operating system
  succeeded.
  \<^item> When the primitive returns the failure sentinel -1, the wrapper returns -1 and
    the process is as the primitive left it: nothing is registered, nothing aborts.
    (For \<open>accept\<close> the pre-check of the listening socket has passed and the failure
    is not an interruption; an interrupted \<^verbatim>\<open>::accept\<close> registers nothing either
    and is called again.)
  \<^item> When the primitive returns a descriptor \<open>r\<close> at or above the floor that the
    tracker holds as unopened or as closed, the wrapper returns \<open>r\<close> and the only
    change to the registry is that \<open>r\<close> is marked \<open>OPENED\<close> by \<open>io_open\<close>, and
    \<open>OPENED\<close> and \<open>SOCKET\<close> by \<open>socket\<close> and \<open>accept\<close>.
  \<^item> Whenever one of the wrappers returns, its value \<open>r\<close> is what the primitive
    returned; if that is -1 the registry is as it was, and otherwise only the entry
    of \<open>r\<close> has changed, and it is marked open (as a socket for \<open>socket\<close> and
    \<open>accept\<close>) and not closed.
\<close>

theorem creation_registers_on_success_only:
  assumes "check_io_fdes B"
  shows
    "(sys (Sys_open path oflag mode) (os p) = (- 1, k) \<longrightarrow>
        io_open B sys path oflag mode p = Some (Inr (- 1, p\<lparr>os := k\<rparr>)))
     \<and> (sys (Sys_socket domain type protocol) (os p) = (- 1, k) \<longrightarrow>
        socket B sys domain type protocol p = Some (Inr (- 1, p\<lparr>os := k\<rparr>)))
     \<and> (CHECK_OPENED_SOCKET B ''during accept()'' sock p = Some (Inr ((), p))
          \<and> sys (Sys_accept sock address address_len) (os p) = (- 1, k) \<longrightarrow>
        (if errno k = EINTR (errnos B)
         then accept B sys sock address address_len p
              = accept B sys sock address address_len (p\<lparr>os := k\<rparr>)
         else accept B sys sock address address_len p = Some (Inr (- 1, p\<lparr>os := k\<rparr>))))
     \<and> (sys (Sys_open path oflag mode) (os p) = (r, k) \<and> r \<noteq> - 1
          \<and> XAPIAND_MINIMUM_FILE_DESCRIPTOR B \<le> r
          \<and> (fdes p r = 0 \<or> (fdes p r AND CLOSED) \<noteq> 0) \<longrightarrow>
        io_open B sys path oflag mode p
        = Some (Inr (r, p\<lparr>os := k, fdes := (fdes p)(r := OPENED)\<rparr>)))
     \<and> (sys (Sys_socket domain type protocol) (os p) = (r, k) \<and> r \<noteq> - 1
          \<and> XAPIAND_MINIMUM_FILE_DESCRIPTOR B \<le> r
          \<and> (fdes p r = 0 \<or> (fdes p r AND CLOSED) \<noteq> 0) \<longrightarrow>
        socket B sys domain type protocol p
        = Some (Inr (r, p\<lparr>os := k, fdes := (fdes p)(r := OPENED OR SOCKET)\<rparr>)))
     \<and> (CHECK_OPENED_SOCKET B ''during accept()'' sock p = Some (Inr ((), p))
          \<and> sys (Sys_accept sock address address_len) (os p) = (r, k) \<and> r \<noteq> - 1
          \<and> XAPIAND_MINIMUM_FILE_DESCRIPTOR B \<le> r
          \<and> (fdes p r = 0 \<or> (fdes p r AND CLOSED) \<noteq> 0) \<longrightarrow>
        accept B sys sock address address_len p
        = Some (Inr (r, p\<lparr>os := k, fdes := (fdes p)(r := OPENED OR SOCKET)\<rparr>)))
     \<and> (io_open B sys path oflag mode p = Some (Inr (r, p')) \<longrightarrow>
        sys (Sys_open path oflag mode) (os p) = (r, os p')
        \<and> fdes p' = (if r = - 1 then fdes p else (fdes p)(r := fdes p' r))
        \<and> (r \<noteq> - 1 \<longrightarrow> (fdes p' r AND (OPENED OR CLOSED)) = OPENED))
     \<and> (socket B sys domain type protocol p = Some (Inr (r, p')) \<longrightarrow>
        sys (Sys_socket domain type protocol) (os p) = (r, os p')
        \<and> fdes p' = (if r = - 1 then fdes p else (fdes p)(r := fdes p' r))
        \<and> (r \<noteq> - 1 \<longrightarrow> (fdes p' r AND (OPENED OR SOCKET OR CLOSED)) = (OPENED OR SOCKET)))
     \<and> (accept B sys sock address address_len p = Some (Inr (r, p')) \<longrightarrow>
        (\<exists>k. sys (Sys_accept sock address address_len) k = (r, os p'))
        \<and> fdes p' = (if r = - 1 then fdes p else (fdes p)(r := fdes p' r))
        \<and> (r \<noteq> - 1 \<longrightarrow> (fdes p' r AND (OPENED OR SOCKET OR CLOSED)) = (OPENED OR SOCKET)))"
proof -
  have open_fails: "io_open B sys path oflag mode p = Some (Inr (- 1, p\<lparr>os := k\<rparr>))"
    if "sys (Sys_open path oflag mode) (os p) = (- 1, k)"
    using that by (rule io_open_failure)
  have socket_fails: "socket B sys domain type protocol p = Some (Inr (- 1, p\<lparr>os := k\<rparr>))"
    if "sys (Sys_socket domain type protocol) (os p) = (- 1, k)"
    using that by (rule socket_failure)
  have accept_fails: "if errno k = EINTR (errnos B)
         then accept B sys sock address address_len p
              = accept B sys sock address address_len (p\<lparr>os := k\<rparr>)
         else accept B sys sock address address_len p = Some (Inr (- 1, p\<lparr>os := k\<rparr>))"
    if "CHECK_OPENED_SOCKET B ''during accept()'' sock p = Some (Inr ((), p))
          \<and> sys (Sys_accept sock address address_len) (os p) = (- 1, k)"
    using that accept_again[where sys = sys and B = B and sock = sock and p = p and k = k
        and address = address and address_len = address_len]
      accept_failure[where sys = sys and B = B and sock = sock and p = p and k = k
        and address = address and address_len = address_len]
    by simp
  have open_succeeds: "io_open B sys path oflag mode p
        = Some (Inr (r, p\<lparr>os := k, fdes := (fdes p)(r := OPENED)\<rparr>))"
    if "sys (Sys_open path oflag mode) (os p) = (r, k) \<and> r \<noteq> - 1
          \<and> XAPIAND_MINIMUM_FILE_DESCRIPTOR B \<le> r
          \<and> (fdes p r = 0 \<or> (fdes p r AND CLOSED) \<noteq> 0)"
    using that assms by (simp add: io_open_success)
  have socket_succeeds: "socket B sys domain type protocol p
        = Some (Inr (r, p\<lparr>os := k, fdes := (fdes p)(r := OPENED OR SOCKET)\<rparr>))"
    if "sys (Sys_socket domain type protocol) (os p) = (r, k) \<and> r \<noteq> - 1
          \<and> XAPIAND_MINIMUM_FILE_DESCRIPTOR B \<le> r
          \<and> (fdes p r = 0 \<or> (fdes p r AND CLOSED) \<noteq> 0)"
    using that assms by (simp add: socket_success)
  have accept_succeeds: "accept B sys sock address address_len p
        = Some (Inr (r, p\<lparr>os := k, fdes := (fdes p)(r := OPENED OR SOCKET)\<rparr>))"
    if "CHECK_OPENED_SOCKET B ''during accept()'' sock p = Some (Inr ((), p))
          \<and> sys (Sys_accept sock address address_len) (os p) = (r, k) \<and> r \<noteq> - 1
          \<and> XAPIAND_MINIMUM_FILE_DESCRIPTOR B \<le> r
          \<and> (fdes p r = 0 \<or> (fdes p r AND CLOSED) \<noteq> 0)"
    using that assms by (simp add: accept_success)
  have open_returned: "sys (Sys_open path oflag mode) (os p) = (r, os p')
        \<and> fdes p' = (if r = - 1 then fdes p else (fdes p)(r := fdes p' r))
        \<and> (r \<noteq> - 1 \<longrightarrow> (fdes p' r AND (OPENED OR CLOSED)) = OPENED)"
    if a: "io_open B sys path oflag mode p = Some (Inr (r, p'))"
    using io_open_returns(1)[OF a] io_open_returns(2)[OF a assms] io_open_returns(3)[OF a assms]
    by simp
  have socket_returned: "sys (Sys_socket domain type protocol) (os p) = (r, os p')
        \<and> fdes p' = (if r = - 1 then fdes p else (fdes p)(r := fdes p' r))
        \<and> (r \<noteq> - 1 \<longrightarrow> (fdes p' r AND (OPENED OR SOCKET OR CLOSED)) = (OPENED OR SOCKET))"
    if a: "socket B sys domain type protocol p = Some (Inr (r, p'))"
    using socket_returns(1)[OF a] socket_returns(2)[OF a assms] socket_returns(3)[OF a assms]
    by simp
  have accept_returned: "(\<exists>k. sys (Sys_accept sock address address_len) k = (r, os p'))
        \<and> fdes p' = (if r = - 1 then fdes p else (fdes p)(r := fdes p' r))
        \<and> (r \<noteq> - 1 \<longrightarrow> (fdes p' r AND (OPENED OR SOCKET OR CLOSED)) = (OPENED OR SOCKET))"
    if a: "accept B sys sock address address_len p = Some (Inr (r, p'))"
    using accept_returns(1)[OF a] accept_returns(3)[OF a assms] accept_returns(4)[OF a assms]
    by simp
  from open_fails socket_fails accept_fails open_succeeds socket_succeeds accept_succeeds
    open_returned socket_returned accept_returned
  show ?thesis by blast
qed

theorem creation_registers_on_success_only_witness:
  "check_io_fdes linux_debug_build
   \<and> io_open linux_debug_build scripted 0 0 420 (process_at 0 [(- 1, Some 2)] (\<lambda>_. 0) False)
     = Some (Inr (- 1, process_at 2 [] (\<lambda>_. 0) False))
   \<and> io_open linux_debug_build scripted 0 0 420 (process_at 0 [(6, None)] (\<lambda>_. 0) False)
     = Some (Inr (6, process_at 0 [] ((\<lambda>_. 0)(6 := OPENED)) False))
   \<and> socket linux_debug_build scripted 2 1 0 (process_at 0 [(- 1, Some 24)] (\<lambda>_. 0) False)
     = Some (Inr (- 1, process_at 24 [] (\<lambda>_. 0) False))
   \<and> socket linux_debug_build scripted 2 1 0
        (process_at 0 [(7, None)] ((\<lambda>_. 0)(7 := CLOSED)) False)
     = Some (Inr (7, process_at 0 [] ((\<lambda>_. 0)(7 := OPENED OR SOCKET)) False))
   \<and> accept linux_debug_build scripted 5 0 0
        (process_at 0 [(- 1, Some 4), (8, None)] ((\<lambda>_. 0)(5 := OPENED OR SOCKET)) False)
     = Some (Inr (8, process_at 4 [] ((\<lambda>_. 0)(5 := OPENED OR SOCKET, 8 := OPENED OR SOCKET)) False))
   \<and> accept linux_debug_build scripted 5 0 0
        (process_at 0 [(- 1, Some 24)] ((\<lambda>_. 0)(5 := OPENED OR SOCKET)) False)
     = Some (Inr (- 1, process_at 24 [] ((\<lambda>_. 0)(5 := OPENED OR SOCKET)) False))
   \<and> fdes (process_at 4 ([] :: script) ((\<lambda>_. 0)(5 := OPENED OR SOCKET, 8 := OPENED OR SOCKET)) False)
     = (fdes (process_at 0 ([(- 1, Some 4), (8, None)] :: script)
          ((\<lambda>_. 0)(5 := OPENED OR SOCKET)) False))(8 := OPENED OR SOCKET)"
proof -
  note B = linux_debug_build_sel
  note t = creation_registers_on_success_only[OF B(1), where sys = scripted]
  let ?t5 = "(\<lambda>_. 0)(5 := OPENED OR SOCKET) :: int \<Rightarrow> int"
  let ?t58 = "(\<lambda>_. 0)(5 := OPENED OR SOCKET, 8 := OPENED OR SOCKET) :: int \<Rightarrow> int"
  let ?of = "process_at 0 ([(- 1, Some 2)] :: script) (\<lambda>_. 0) False"
  let ?os = "process_at 0 ([(6, None)] :: script) (\<lambda>_. 0) False"
  let ?f = "process_at 0 ([(- 1, Some 24)] :: script) (\<lambda>_. 0) False"
  let ?g = "process_at 0 ([(7, None)] :: script) ((\<lambda>_. 0)(7 := CLOSED)) False"
  let ?a0 = "process_at 0 ([(- 1, Some 4), (8, None)] :: script) ?t5 False"
  let ?a1 = "process_at 4 ([(8, None)] :: script) ?t5 False"
  let ?a3 = "process_at 4 ([] :: script) ?t58 False"
  let ?b0 = "process_at 0 ([(- 1, Some 24)] :: script) ?t5 False"
  note on_open_failure = t[THEN conjunct1, rule_format]
  note on_socket_failure = t[THEN conjunct2, THEN conjunct1, rule_format]
  note on_accept_failure = t[THEN conjunct2, THEN conjunct2, THEN conjunct1, rule_format]
  note on_open_success = t[THEN conjunct2, THEN conjunct2, THEN conjunct2, THEN conjunct1,
      rule_format]
  note on_socket_success = t[THEN conjunct2, THEN conjunct2, THEN conjunct2, THEN conjunct2,
      THEN conjunct1, rule_format]
  note on_accept_success = t[THEN conjunct2, THEN conjunct2, THEN conjunct2, THEN conjunct2,
      THEN conjunct2, THEN conjunct1, rule_format]
  note on_accept_returned = t[THEN conjunct2, THEN conjunct2, THEN conjunct2, THEN conjunct2,
      THEN conjunct2, THEN conjunct2, THEN conjunct2, THEN conjunct2, rule_format]
  have "scripted (Sys_open 0 0 420) (os ?of) = (- 1, \<lparr>errno = 2, kernel = []\<rparr>)"
    by (simp add: scripted_def process_at_def)
  from on_open_failure[OF this] have open_failed:
    "io_open linux_debug_build scripted 0 0 420 ?of = Some (Inr (- 1, process_at 2 [] (\<lambda>_. 0) False))"
    by (simp add: process_at_def)
  have "scripted (Sys_open 0 0 420) (os ?os) = (6, \<lparr>errno = 0, kernel = []\<rparr>) \<and> (6::int) \<noteq> - 1
      \<and> XAPIAND_MINIMUM_FILE_DESCRIPTOR linux_debug_build \<le> 6
      \<and> (fdes ?os 6 = 0 \<or> (fdes ?os 6 AND CLOSED) \<noteq> 0)"
    by (simp add: scripted_def process_at_def B)
  from on_open_success[OF this] have opened:
    "io_open linux_debug_build scripted 0 0 420 ?os
      = Some (Inr (6, process_at 0 [] ((\<lambda>_. 0)(6 := OPENED)) False))"
    by (simp add: process_at_def)
  have "scripted (Sys_socket 2 1 0) (os ?f) = (- 1, \<lparr>errno = 24, kernel = []\<rparr>)"
    by (simp add: scripted_def process_at_def)
  from on_socket_failure[OF this] have failed: "socket linux_debug_build scripted 2 1 0 ?f
      = Some (Inr (- 1, process_at 24 [] (\<lambda>_. 0) False))"
    by (simp add: process_at_def)
  have "scripted (Sys_socket 2 1 0) (os ?g) = (7, \<lparr>errno = 0, kernel = []\<rparr>) \<and> (7::int) \<noteq> - 1
      \<and> XAPIAND_MINIMUM_FILE_DESCRIPTOR linux_debug_build \<le> 7
      \<and> (fdes ?g 7 = 0 \<or> (fdes ?g 7 AND CLOSED) \<noteq> 0)"
    by (simp add: scripted_def process_at_def B closed_nonzero)
  from on_socket_success[OF this] have created: "socket linux_debug_build scripted 2 1 0 ?g
      = Some (Inr (7, process_at 0 [] ((\<lambda>_. 0)(7 := OPENED OR SOCKET)) False))"
    by (simp add: process_at_def)
  have c0: "CHECK_OPENED_SOCKET linux_debug_build ''during accept()'' 5 ?a0 = Some (Inr ((), ?a0))"
    by (rule socket_accepts_socket_op) (simp_all add: B process_at_sel)
  have c1: "CHECK_OPENED_SOCKET linux_debug_build ''during accept()'' 5 ?a1 = Some (Inr ((), ?a1))"
    by (rule socket_accepts_socket_op) (simp_all add: B process_at_sel)
  have c2: "CHECK_OPENED_SOCKET linux_debug_build ''during accept()'' 5 ?b0 = Some (Inr ((), ?b0))"
    by (rule socket_accepts_socket_op) (simp_all add: B process_at_sel)
  have "CHECK_OPENED_SOCKET linux_debug_build ''during accept()'' 5 ?a0 = Some (Inr ((), ?a0))
      \<and> scripted (Sys_accept 5 0 0) (os ?a0) = (- 1, \<lparr>errno = 4, kernel = [(8, None)]\<rparr>)"
    using c0 by (simp add: scripted_def process_at_def)
  from on_accept_failure[OF this] have interrupted:
    "accept linux_debug_build scripted 5 0 0 ?a0 = accept linux_debug_build scripted 5 0 0 ?a1"
    by (simp add: B linux_errno_def process_at_def)
  have "CHECK_OPENED_SOCKET linux_debug_build ''during accept()'' 5 ?a1 = Some (Inr ((), ?a1))
      \<and> scripted (Sys_accept 5 0 0) (os ?a1) = (8, \<lparr>errno = 4, kernel = []\<rparr>) \<and> (8::int) \<noteq> - 1
      \<and> XAPIAND_MINIMUM_FILE_DESCRIPTOR linux_debug_build \<le> 8
      \<and> (fdes ?a1 8 = 0 \<or> (fdes ?a1 8 AND CLOSED) \<noteq> 0)"
    using c1 by (simp add: scripted_def process_at_def B)
  from on_accept_success[OF this] interrupted
  have accepted: "accept linux_debug_build scripted 5 0 0 ?a0 = Some (Inr (8, ?a3))"
    by (simp add: process_at_def)
  have "CHECK_OPENED_SOCKET linux_debug_build ''during accept()'' 5 ?b0 = Some (Inr ((), ?b0))
      \<and> scripted (Sys_accept 5 0 0) (os ?b0) = (- 1, \<lparr>errno = 24, kernel = []\<rparr>)"
    using c2 by (simp add: scripted_def process_at_def)
  from on_accept_failure[OF this] have accept_failed:
    "accept linux_debug_build scripted 5 0 0 ?b0 = Some (Inr (- 1, process_at 24 [] ?t5 False))"
    by (simp add: B linux_errno_def process_at_def)
  from on_accept_returned[OF accepted]
  have "fdes ?a3 = (fdes ?a0)(8 := fdes ?a3 8)" by simp
  then have "fdes ?a3 = (fdes ?a0)(8 := OPENED OR SOCKET)" by (simp add: process_at_sel)
  with open_failed opened failed created accepted accept_failed B(1) show ?thesis by simp
qed

text \<open>
  C10. The wrappers that neither create nor close a descriptor keep the registry of
  the tracker: whenever \<open>lseek\<close>, \<open>fstat\<close>, \<open>dup\<close>, \<open>dup2\<close>, \<open>fcntl\<close>,
  \<open>shutdown\<close>, \<open>send\<close>, \<open>sendto\<close>, \<open>recv\<close>, \<open>recvfrom\<close>, \<open>getsockopt\<close>,
  \<open>setsockopt\<close>, \<open>listen\<close>, \<open>bind\<close>, \<open>connect\<close>, \<open>fsync\<close>, \<open>full_fsync\<close>,
  \<open>fallocate\<close> or \<open>fadvise\<close> (or one of the unchecked variants) returns, with
  whatever value, the tracked state of every descriptor is what it was before the
  call; for \<open>fallocate\<close> both with and without \<^verbatim>\<open>HAVE_FALLOCATE\<close>. The reason is in the last two parts: in a diagnostic build their macros call
  \<open>check\<close> with no bits to set, and such a call leaves the process as it was.
\<close>

theorem wrappers_keep_tracker:
  "keeps_tracker (lseek B sys fd offset whence)
   \<and> keeps_tracker (fstat B sys fd buf)
   \<and> keeps_tracker (dup B sys fd)
   \<and> keeps_tracker (dup2 B sys fd fd2)
   \<and> keeps_tracker (unchecked_fcntl B sys fd cmd args)
   \<and> keeps_tracker (fcntl B sys fd cmd args)
   \<and> keeps_tracker (shutdown B sys sock how)
   \<and> keeps_tracker (send B sys sock buffer len flags)
   \<and> keeps_tracker (sendto B sys sock buffer len flags dest_addr dest_len)
   \<and> keeps_tracker (recv B sys sock buffer len flags)
   \<and> keeps_tracker (recvfrom B sys sock buffer len flags address address_len)
   \<and> keeps_tracker (getsockopt B sys sock level option_name option_value option_len)
   \<and> keeps_tracker (setsockopt B sys sock level option_name option_value option_size)
   \<and> keeps_tracker (listen B sys sock backlog)
   \<and> keeps_tracker (bind B sys sock address addr_size)
   \<and> keeps_tracker (connect B sys sock address addr_size)
   \<and> keeps_tracker (unchecked_fsync B sys fd)
   \<and> keeps_tracker (fsync B sys fd)
   \<and> keeps_tracker (unchecked_full_fsync B sys fd)
   \<and> keeps_tracker (full_fsync B sys fd)
   \<and> keeps_tracker (fallocate B sys fd mode offset amount)
   \<and> keeps_tracker (fadvise B sys fd offset amount advice)
   \<and> (check_io_fdes B \<longrightarrow>
        CHECK_OPENED B msg fd = check B msg fd OPENED CLOSED 0
        \<and> CHECK_OPENED_SOCKET B msg fd = check B msg fd (OPENED OR SOCKET) CLOSED 0
        \<and> CHECK_CLOSING B fd = check B ''while closing'' fd OPENED 0 0)
   \<and> (check B msg fd check_set check_unset 0 p = Some (Inr (u, p')) \<longrightarrow> p' = p)"
proof (intro conjI impI)
  show "CHECK_CLOSING B fd = check B ''while closing'' fd OPENED 0 0" if "check_io_fdes B"
    using that by (simp add: CHECK_CLOSING_def)
  show "CHECK_OPENED B msg fd = check B msg fd OPENED CLOSED 0" if "check_io_fdes B"
    using that by (simp add: CHECK_OPENED_def)
  show "CHECK_OPENED_SOCKET B msg fd = check B msg fd (OPENED OR SOCKET) CLOSED 0"
    if "check_io_fdes B"
    using that by (simp add: CHECK_OPENED_SOCKET_def)
  show "p' = p" if "check B msg fd check_set check_unset 0 p = Some (Inr (u, p'))"
    using that by (rule check_zero_same)
  show "keeps_tracker (unchecked_full_fsync B sys fd)"
    by (cases "f_fullfsync B") (simp_all add: unchecked_full_fsync_def keeps_tracker_intros)
  then show "keeps_tracker (full_fsync B sys fd)"
    by (simp add: full_fsync_def keeps_tracker_intros)
  show "keeps_tracker (fadvise B sys fd offset amount advice)"
    by (simp add: fadvise_def keeps_tracker_intros)
  show "keeps_tracker (fallocate B sys fd mode offset amount)"
    by (rule keeps_tracker_fallocate)
qed (simp_all add: lseek_def fstat_def dup_def dup2_def unchecked_fcntl_def fcntl_def shutdown_def
      send_def sendto_def recv_def recvfrom_def getsockopt_def setsockopt_def listen_def bind_def
      connect_def unchecked_fsync_def fsync_def keeps_tracker_intros)

theorem wrappers_keep_tracker_witness:
  "send linux_debug_build scripted 5 0 16 0
      (process_at 0 [(- 1, Some 32)] ((\<lambda>_. 0)(5 := OPENED OR SOCKET)) False)
    = Some (Inr (- 1, process_at 32 [] ((\<lambda>_. 0)(5 := OPENED OR SOCKET)) False))
   \<and> fdes (process_at 32 ([] :: script) ((\<lambda>_. 0)(5 := OPENED OR SOCKET)) False)
     = fdes (process_at 0 ([(- 1, Some 32)] :: script) ((\<lambda>_. 0)(5 := OPENED OR SOCKET)) False)
   \<and> lseek linux_debug_build scripted 6 0 0 (process_at 0 [(100, None)] ((\<lambda>_. 0)(6 := OPENED)) False)
    = Some (Inr (100, process_at 0 [] ((\<lambda>_. 0)(6 := OPENED)) False))
   \<and> fdes (process_at 0 ([] :: script) ((\<lambda>_. 0)(6 := OPENED)) False)
     = fdes (process_at 0 ([(100, None)] :: script) ((\<lambda>_. 0)(6 := OPENED)) False)"
proof -
  note B = linux_debug_build_sel
  let ?ts = "(\<lambda>_. 0)(5 := OPENED OR SOCKET) :: int \<Rightarrow> int"
  let ?tf = "(\<lambda>_. 0)(6 := OPENED) :: int \<Rightarrow> int"
  let ?p = "process_at 0 ([(- 1, Some 32)] :: script) ?ts False"
  let ?p' = "process_at 32 ([] :: script) ?ts False"
  let ?q = "process_at 0 ([(100, None)] :: script) ?tf False"
  let ?q' = "process_at 0 ([] :: script) ?tf False"
  have c: "CHECK_OPENED_SOCKET linux_debug_build ''during send()'' 5 ?p = Some (Inr ((), ?p))"
    by (rule socket_accepts_socket_op) (simp_all add: B process_at_sel)
  have "syscall scripted (Sys_send 5 0 16 0) ?p = Some (Inr (- 1, ?p'))"
    by (simp add: scripted_step)
  then have "TEMP_FAILURE_RETRY linux_errno (syscall scripted (Sys_send 5 0 16 0)) ?p
      = Some (Inr (- 1, ?p'))"
    by (rule retry_returned) (simp add: process_at_sel linux_errno_def)
  with c have sent: "send linux_debug_build scripted 5 0 16 0 ?p = Some (Inr (- 1, ?p'))"
    by (simp add: send_def bind_io_def B)
  have d: "CHECK_OPENED linux_debug_build ''during lseek()'' 6 ?q = Some (Inr ((), ?q))"
    by (rule file_accepts_file_op) (simp_all add: B process_at_sel)
  have "syscall scripted (Sys_lseek 6 0 0) ?q = Some (Inr (100, ?q'))"
    by (simp add: scripted_step)
  with d have sought: "lseek linux_debug_build scripted 6 0 0 ?q = Some (Inr (100, ?q'))"
    by (simp add: lseek_def bind_io_def)
  note all = wrappers_keep_tracker[where B = linux_debug_build and sys = scripted and sock = 5
        and buffer = 0 and len = 16 and flags = 0 and fd = 6 and offset = 0 and whence = 0]
  have "keeps_tracker (send linux_debug_build scripted 5 0 16 0)"
    by (rule all[THEN conjunct2, THEN conjunct2, THEN conjunct2, THEN conjunct2,
          THEN conjunct2, THEN conjunct2, THEN conjunct2, THEN conjunct1])
  moreover have "keeps_tracker (lseek linux_debug_build scripted 6 0 0)"
    by (rule all[THEN conjunct1])
  ultimately have "fdes ?p' = fdes ?p" "fdes ?q' = fdes ?q"
    using sent sought unfolding keeps_tracker_def by blast+
  with sent sought show ?thesis by simp
qed

section \<open>The sync operations: the claims\<close>

text \<open>
  C5, as the specification states it: the sync operations prefer a full-durability
  primitive where the platform has one, and on a platform without it the call still
  returns success. On the disk below \<^verbatim>\<open>fdatasync\<close> and \<^verbatim>\<open>fsync\<close> fail with
  \<^verbatim>\<open>EIO\<close>. The Linux build has no \<^verbatim>\<open>F_FULLFSYNC\<close>: \<open>full_fsync\<close> falls back to
  \<^verbatim>\<open>fdatasync\<close> and returns its -1. The macOS build has \<^verbatim>\<open>F_FULLFSYNC\<close>:
  \<open>fsync\<close> still calls \<^verbatim>\<open>::fsync\<close> and returns -1, where \<open>full_fsync\<close>, through
  \<^verbatim>\<open>fcntl\<close>, returns 0.
\<close>

theorem full_fsync_fallback_counterexample:
  "f_fullfsync linux_build = None
   \<and> full_fsync linux_build failing_disk 5 (process_at 0 () (\<lambda>_. 0) False)
     = Some (Inr (- 1, process_at 5 () (\<lambda>_. 0) False))
   \<and> f_fullfsync macos_build = Some 51
   \<and> fsync macos_build failing_disk 5 (process_at 0 () (\<lambda>_. 0) False)
     = Some (Inr (- 1, process_at 5 () (\<lambda>_. 0) False))
   \<and> full_fsync macos_build failing_disk 5 (process_at 0 () (\<lambda>_. 0) False)
     = Some (Inr (0, process_at 0 () (\<lambda>_. 0) False))"
proof -
  let ?p = "process_at 0 () (\<lambda>_. 0) False"
  have a: "TEMP_FAILURE_RETRY linux_errno (syscall failing_disk (Sys_fdatasync 5)) ?p
      = Some (Inr (- 1, process_at 5 () (\<lambda>_. 0) False))"
    using retry_syscall_once[of failing_disk "Sys_fdatasync 5" ?p "- 1" "\<lparr>errno = 5, kernel = ()\<rparr>"
        linux_errno]
    by (simp add: failing_disk_def process_at_def linux_errno_def)
  have b: "TEMP_FAILURE_RETRY macos_errno (syscall failing_disk (Sys_fsync 5)) ?p
      = Some (Inr (- 1, process_at 5 () (\<lambda>_. 0) False))"
    using retry_syscall_once[of failing_disk "Sys_fsync 5" ?p "- 1" "\<lparr>errno = 5, kernel = ()\<rparr>"
        macos_errno]
    by (simp add: failing_disk_def process_at_def macos_errno_def)
  have c: "TEMP_FAILURE_RETRY macos_errno (syscall failing_disk (Sys_fcntl 5 51 [0])) ?p
      = Some (Inr (0, ?p))"
    using retry_syscall_once[of failing_disk "Sys_fcntl 5 51 [0]" ?p 0 "\<lparr>errno = 0, kernel = ()\<rparr>"
        macos_errno]
    by (simp add: failing_disk_def process_at_def)
  show ?thesis
    using a b c
    by (simp add: full_fsync_def fsync_def production_checks build_sel bind_io_return
        unchecked_full_fsync_cases unchecked_fsync_cases)
qed

text \<open>
  C5, amended. \<open>full_fsync\<close> uses \<^verbatim>\<open>fcntl(fd, F_FULLFSYNC, 0)\<close> where the platform
  defines \<^verbatim>\<open>F_FULLFSYNC\<close> and otherwise does what \<open>fsync\<close> does; \<open>fsync\<close> uses
  \<^verbatim>\<open>fdatasync\<close> where the build has it, else \<^verbatim>\<open>::fsync\<close> where the build has that,
  else a no-op that returns 0 and leaves the process as it is. Each goes through the
  retry macro, after the tracker's check in a diagnostic build. A missing primitive is
  never an error by itself, but the call returns what the fallback returns: its
  first result that is no interruption, success or failure.
\<close>

theorem sync_fallback_chain:
  "(f_fullfsync B = Some F \<longrightarrow>
      unchecked_full_fsync B sys fd
      = TEMP_FAILURE_RETRY (errnos B) (syscall sys (Sys_fcntl fd F [0])))
   \<and> (f_fullfsync B = None \<longrightarrow> unchecked_full_fsync B sys fd = unchecked_fsync B sys fd)
   \<and> (have_fdatasync B \<longrightarrow>
      unchecked_fsync B sys fd = TEMP_FAILURE_RETRY (errnos B) (syscall sys (Sys_fdatasync fd)))
   \<and> (\<not> have_fdatasync B \<and> have_fsync B \<longrightarrow>
      unchecked_fsync B sys fd = TEMP_FAILURE_RETRY (errnos B) (syscall sys (Sys_fsync fd)))
   \<and> (\<not> have_fdatasync B \<and> \<not> have_fsync B \<longrightarrow> unchecked_fsync B sys fd p = Some (Inr (0, p)))
   \<and> (\<not> check_io_fdes B \<longrightarrow>
      fsync B sys fd = unchecked_fsync B sys fd
      \<and> full_fsync B sys fd = unchecked_full_fsync B sys fd)
   \<and> (CHECK_OPENED B ''during fsync()'' fd p = Some (Inr ((), p)) \<longrightarrow>
      fsync B sys fd p = unchecked_fsync B sys fd p)
   \<and> (CHECK_OPENED B ''during full_fsync()'' fd p = Some (Inr ((), p)) \<longrightarrow>
      full_fsync B sys fd p = unchecked_full_fsync B sys fd p)
   \<and> (sys c (os p) = (r, k) \<and> \<not> (r = - 1 \<and> errno k = EINTR (errnos B)) \<longrightarrow>
      TEMP_FAILURE_RETRY (errnos B) (syscall sys c) p = Some (Inr (r, p\<lparr>os := k\<rparr>)))"
proof (intro conjI impI)
  show "fsync B sys fd = unchecked_fsync B sys fd" if "\<not> check_io_fdes B"
    using that by (simp add: fsync_def production_checks bind_io_return)
  show "full_fsync B sys fd = unchecked_full_fsync B sys fd" if "\<not> check_io_fdes B"
    using that by (simp add: full_fsync_def production_checks bind_io_return)
  show "fsync B sys fd p = unchecked_fsync B sys fd p"
    if "CHECK_OPENED B ''during fsync()'' fd p = Some (Inr ((), p))"
    using that by (simp add: fsync_def bind_io_def)
  show "full_fsync B sys fd p = unchecked_full_fsync B sys fd p"
    if "CHECK_OPENED B ''during full_fsync()'' fd p = Some (Inr ((), p))"
    using that by (simp add: full_fsync_def bind_io_def)
  show "TEMP_FAILURE_RETRY (errnos B) (syscall sys c) p = Some (Inr (r, p\<lparr>os := k\<rparr>))"
    if "sys c (os p) = (r, k) \<and> \<not> (r = - 1 \<and> errno k = EINTR (errnos B))"
    using that by (intro retry_syscall_once) blast+
qed (simp_all add: unchecked_fsync_cases unchecked_full_fsync_cases)

theorem sync_fallback_chain_witness:
  "f_fullfsync bare_build = None \<and> \<not> have_fdatasync bare_build \<and> \<not> have_fsync bare_build
   \<and> \<not> check_io_fdes bare_build
   \<and> full_fsync bare_build failing_disk 5 (process_at 0 () (\<lambda>_. 0) False)
     = Some (Inr (0, process_at 0 () (\<lambda>_. 0) False))
   \<and> fsync bare_build failing_disk 5 (process_at 0 () (\<lambda>_. 0) False)
     = Some (Inr (0, process_at 0 () (\<lambda>_. 0) False))
   \<and> f_fullfsync macos_build = Some 51 \<and> \<not> check_io_fdes macos_build
   \<and> full_fsync macos_build failing_disk 5 (process_at 0 () (\<lambda>_. 0) False)
     = Some (Inr (0, process_at 0 () (\<lambda>_. 0) False))
   \<and> have_fdatasync linux_build \<and> \<not> check_io_fdes linux_build
   \<and> fsync linux_build failing_disk 5 (process_at 0 () (\<lambda>_. 0) False)
     = Some (Inr (- 1, process_at 5 () (\<lambda>_. 0) False))"
proof -
  let ?p = "process_at 0 () (\<lambda>_. 0) False"
  note bare = sync_fallback_chain[where B = bare_build and sys = failing_disk and fd = 5 and p = ?p]
  note macos = sync_fallback_chain[where B = macos_build and sys = failing_disk and fd = 5
      and p = ?p and F = 51 and c = "Sys_fcntl 5 51 [0]" and r = 0
      and k = "\<lparr>errno = 0, kernel = ()\<rparr>"]
  note linux = sync_fallback_chain[where B = linux_build and sys = failing_disk and fd = 5
      and p = ?p and c = "Sys_fdatasync 5" and r = "- 1" and k = "\<lparr>errno = 5, kernel = ()\<rparr>"]
  have b1: "unchecked_fsync bare_build failing_disk 5 ?p = Some (Inr (0, ?p))"
    using bare[THEN conjunct2, THEN conjunct2, THEN conjunct2, THEN conjunct2, THEN conjunct1]
    by (simp add: build_sel)
  have b2: "unchecked_full_fsync bare_build failing_disk 5 = unchecked_fsync bare_build failing_disk 5"
    using bare[THEN conjunct2, THEN conjunct1] by (simp add: build_sel)
  have b3: "fsync bare_build failing_disk 5 = unchecked_fsync bare_build failing_disk 5"
    "full_fsync bare_build failing_disk 5 = unchecked_full_fsync bare_build failing_disk 5"
    using bare[THEN conjunct2, THEN conjunct2, THEN conjunct2, THEN conjunct2, THEN conjunct2,
        THEN conjunct1]
    by (simp_all add: build_sel)
  have m1: "unchecked_full_fsync macos_build failing_disk 5
      = TEMP_FAILURE_RETRY macos_errno (syscall failing_disk (Sys_fcntl 5 51 [0]))"
    using macos[THEN conjunct1] by (simp add: build_sel)
  have m2: "TEMP_FAILURE_RETRY macos_errno (syscall failing_disk (Sys_fcntl 5 51 [0])) ?p
      = Some (Inr (0, ?p))"
    using macos[THEN conjunct2, THEN conjunct2, THEN conjunct2, THEN conjunct2, THEN conjunct2,
        THEN conjunct2, THEN conjunct2, THEN conjunct2]
    by (simp add: build_sel failing_disk_def process_at_def)
  have m3: "full_fsync macos_build failing_disk 5 = unchecked_full_fsync macos_build failing_disk 5"
    using macos[THEN conjunct2, THEN conjunct2, THEN conjunct2, THEN conjunct2, THEN conjunct2,
        THEN conjunct1]
    by (simp add: build_sel)
  have l1: "unchecked_fsync linux_build failing_disk 5
      = TEMP_FAILURE_RETRY linux_errno (syscall failing_disk (Sys_fdatasync 5))"
    using linux[THEN conjunct2, THEN conjunct2, THEN conjunct1] by (simp add: build_sel)
  have l2: "TEMP_FAILURE_RETRY linux_errno (syscall failing_disk (Sys_fdatasync 5)) ?p
      = Some (Inr (- 1, process_at 5 () (\<lambda>_. 0) False))"
    using linux[THEN conjunct2, THEN conjunct2, THEN conjunct2, THEN conjunct2, THEN conjunct2,
        THEN conjunct2, THEN conjunct2, THEN conjunct2]
    by (simp add: build_sel failing_disk_def process_at_def linux_errno_def)
  have l3: "fsync linux_build failing_disk 5 = unchecked_fsync linux_build failing_disk 5"
    using linux[THEN conjunct2, THEN conjunct2, THEN conjunct2, THEN conjunct2, THEN conjunct2,
        THEN conjunct1]
    by (simp add: build_sel)
  show ?thesis
    by (simp add: build_sel b1 b2 b3 m1 m2 m3 l1 l2 l3)
qed

section \<open>Error reporting: the claims\<close>

text \<open>
  C6, as the specification states it: every wrapper returns the failure value of its
  primitive without translation. On a build with \<^verbatim>\<open>posix_fadvise\<close>, \<open>fadvise\<close> returns
  the truth value of \<^verbatim>\<open>::posix_fadvise(...) == 0\<close>: below the primitive fails with the
  error number 9 and the wrapper returns 0, and the primitive succeeds with 0 and the
  wrapper returns 1.
\<close>

theorem fadvise_translates_result_counterexample:
  "have_posix_fadvise linux_build
   \<and> syscall scripted (Sys_posix_fadvise 5 0 0 2) (process_at 0 [(9, None)] (\<lambda>_. 0) False)
     = Some (Inr (9, process_at 0 [] (\<lambda>_. 0) False))
   \<and> fadvise linux_build scripted 5 0 0 2 (process_at 0 [(9, None)] (\<lambda>_. 0) False)
     = Some (Inr (0, process_at 0 [] (\<lambda>_. 0) False))
   \<and> syscall scripted (Sys_posix_fadvise 5 0 0 2) (process_at 0 [(0, None)] (\<lambda>_. 0) False)
     = Some (Inr (0, process_at 0 [] (\<lambda>_. 0) False))
   \<and> fadvise linux_build scripted 5 0 0 2 (process_at 0 [(0, None)] (\<lambda>_. 0) False)
     = Some (Inr (1, process_at 0 [] (\<lambda>_. 0) False))"
  by (simp add: fadvise_def build_sel production_checks bind_io_return bind_io_def
      scripted_step return_io_def)

text \<open>
  C6, amended. Every wrapper the header defines, but \<open>fadvise\<close>, returns the value its
  primitive returned, success or failure, and leaves the state of the operating system,
  \<^verbatim>\<open>errno\<close> included, as that call left it.
  \<^item> A wrapper that calls its primitive once passes that call on (\<open>passes_on\<close>): if
    the pre-check aborts, so does the wrapper; if it lets the call through, the wrapper
    returns what the primitive returns on the state the wrapper started from; and it
    returns nothing else.
  \<^item> A wrapper that goes through the retry macro passes the last call on
    (\<open>passes_on_last\<close>): a result that is no interruption, be it a failure such as
    \<^verbatim>\<open>ECONNRESET\<close>, is returned as it is, and an interrupted call is made again.
    \<open>fallocate\<close> is such a wrapper where the build has \<^verbatim>\<open>HAVE_FALLOCATE\<close>;
    otherwise the header only declares it.
  \<^item> \<open>socket\<close> and \<open>accept\<close> hand the new descriptor to the tracker before they
    return it: given the result of the primitive, they return it and leave the state of
    the operating system as the primitive left it, unless the tracker aborts; whenever
    they return, the value is the primitive's; in a production build they pass the
    call on like the others.
  \<^item> Which primitive \<open>fsync\<close> and \<open>full_fsync\<close> pass on depends on the build; with no
    sync primitive they return 0 and touch nothing.
  \<^item> \<open>fadvise\<close> translates: with \<^verbatim>\<open>posix_fadvise\<close> it returns 1 when the primitive
    returned 0 and 0 when it returned an error number, leaving the state as the
    primitive left it, and without it returns 0.
  \<^item> The pre-checks either abort or leave the process as it is, and in a production
    build they always let the call through.
  So no wrapper hides or rewrites a failure of its primitive, but an interruption the
  retry macro absorbs, and the truth value \<open>fadvise\<close> makes of its result.
\<close>

theorem wrappers_pass_results_on:
  "passes_on (return_io ()) (unlink sys path) sys (Sys_unlink path)
   \<and> passes_on (CHECK_OPENED B ''during lseek()'' fd) (lseek B sys fd offset whence) sys
        (Sys_lseek fd offset whence)
   \<and> passes_on (CHECK_OPENED B ''during fstat()'' fd) (fstat B sys fd buf) sys
        (Sys_fstat fd buf)
   \<and> passes_on (CHECK_OPENED B ''during dup()'' fd) (dup B sys fd) sys (Sys_dup fd)
   \<and> passes_on (CHECK_OPENED B ''during dup2()'' fd) (dup2 B sys fd newfd) sys
        (Sys_dup2 fd newfd)
   \<and> passes_on (CHECK_OPENED_SOCKET B ''during shutdown()'' sock) (shutdown B sys sock how)
        sys (Sys_shutdown sock how)
   \<and> passes_on (CHECK_OPENED_SOCKET B ''during getsockopt()'' sock)
        (getsockopt B sys sock level option_name option_value option_len) sys
        (Sys_getsockopt sock level option_name option_value option_len)
   \<and> passes_on (CHECK_OPENED_SOCKET B ''during setsockopt()'' sock)
        (setsockopt B sys sock level option_name option_value option_size) sys
        (Sys_setsockopt sock level option_name option_value option_size)
   \<and> passes_on (CHECK_OPENED_SOCKET B ''during listen()'' sock) (listen B sys sock backlog)
        sys (Sys_listen sock backlog)
   \<and> passes_on (CHECK_OPENED_SOCKET B ''during bind()'' sock)
        (bind B sys sock address addr_size) sys (Sys_bind sock address addr_size)
   \<and> passes_on_last (errnos B) (return_io ()) (unchecked_fcntl B sys fd cmd args) sys
        (Sys_fcntl fd cmd args)
   \<and> passes_on_last (errnos B) (CHECK_OPENED B ''during fcntl()'' fd)
        (fcntl B sys fd cmd args) sys (Sys_fcntl fd cmd args)
   \<and> passes_on_last (errnos B) (CHECK_OPENED_SOCKET B ''during send()'' sock)
        (send B sys sock buffer len flags) sys (Sys_send sock buffer len flags)
   \<and> passes_on_last (errnos B) (CHECK_OPENED_SOCKET B ''during sendto()'' sock)
        (sendto B sys sock buffer len flags dest_addr dest_len) sys
        (Sys_sendto sock buffer len flags dest_addr dest_len)
   \<and> passes_on_last (errnos B) (CHECK_OPENED_SOCKET B ''during recv()'' sock)
        (recv B sys sock buffer len flags) sys (Sys_recv sock buffer len flags)
   \<and> passes_on_last (errnos B) (CHECK_OPENED_SOCKET B ''during recvfrom()'' sock)
        (recvfrom B sys sock buffer len flags address address_len) sys
        (Sys_recvfrom sock buffer len flags address address_len)
   \<and> passes_on_last (errnos B) (CHECK_OPENED_SOCKET B ''during connect()'' sock)
        (connect B sys sock address addr_size) sys (Sys_connect sock address addr_size)
   \<and> (have_fallocate B \<longrightarrow>
        passes_on_last (errnos B) (CHECK_OPENED B ''during fallocate()'' fd)
          (fallocate B sys fd mode offset amount) sys
          (Sys_fallocate fd mode offset amount))
   \<and> (sys (Sys_socket domain type protocol) (os p) = (r, k) \<longrightarrow>
        (\<exists>a. socket B sys domain type protocol p = Some (Inl a))
        \<or> (\<exists>q. socket B sys domain type protocol p = Some (Inr (r, q)) \<and> os q = k))
   \<and> (socket B sys domain type protocol p = Some (Inr (r, p')) \<longrightarrow>
        sys (Sys_socket domain type protocol) (os p) = (r, os p'))
   \<and> (\<not> check_io_fdes B \<longrightarrow>
        passes_on (return_io ()) (socket B sys domain type protocol) sys (Sys_socket domain type protocol))
   \<and> (CHECK_OPENED_SOCKET B ''during accept()'' sock p = Some (Inl a) \<longrightarrow>
        accept B sys sock address address_len p = Some (Inl a))
   \<and> (CHECK_OPENED_SOCKET B ''during accept()'' sock p = Some (Inr ((), p))
        \<and> sys (Sys_accept sock address address_len) (os p) = (r, k)
        \<and> \<not> (r = - 1 \<and> errno k = EINTR (errnos B)) \<longrightarrow>
        (\<exists>a. accept B sys sock address address_len p = Some (Inl a))
        \<or> (\<exists>q. accept B sys sock address address_len p = Some (Inr (r, q)) \<and> os q = k))
   \<and> (CHECK_OPENED_SOCKET B ''during accept()'' sock p = Some (Inr ((), p))
        \<and> sys (Sys_accept sock address address_len) (os p) = (- 1, k) \<and> errno k = EINTR (errnos B) \<longrightarrow>
        accept B sys sock address address_len p = accept B sys sock address address_len (p\<lparr>os := k\<rparr>))
   \<and> (accept B sys sock address address_len p = Some (Inr (r, p')) \<longrightarrow>
        (\<exists>k. sys (Sys_accept sock address address_len) k = (r, os p'))
        \<and> \<not> (r = - 1 \<and> errno (os p') = EINTR (errnos B)))
   \<and> (\<not> check_io_fdes B \<longrightarrow>
        passes_on_last (errnos B) (return_io ()) (accept B sys sock address address_len) sys
          (Sys_accept sock address address_len))
   \<and> (have_fdatasync B \<longrightarrow>
        passes_on_last (errnos B) (return_io ()) (unchecked_fsync B sys fd) sys (Sys_fdatasync fd)
        \<and> passes_on_last (errnos B) (CHECK_OPENED B ''during fsync()'' fd) (fsync B sys fd) sys
            (Sys_fdatasync fd))
   \<and> (\<not> have_fdatasync B \<and> have_fsync B \<longrightarrow>
        passes_on_last (errnos B) (return_io ()) (unchecked_fsync B sys fd) sys (Sys_fsync fd)
        \<and> passes_on_last (errnos B) (CHECK_OPENED B ''during fsync()'' fd) (fsync B sys fd) sys
            (Sys_fsync fd))
   \<and> (\<not> have_fdatasync B \<and> \<not> have_fsync B \<longrightarrow>
        unchecked_fsync B sys fd p = Some (Inr (0, p))
        \<and> (CHECK_OPENED B ''during fsync()'' fd p = Some (Inl a) \<longrightarrow> fsync B sys fd p = Some (Inl a))
        \<and> (CHECK_OPENED B ''during fsync()'' fd p = Some (Inr ((), p)) \<longrightarrow>
             fsync B sys fd p = Some (Inr (0, p))))
   \<and> (f_fullfsync B = Some F \<longrightarrow>
        passes_on_last (errnos B) (return_io ()) (unchecked_full_fsync B sys fd) sys
          (Sys_fcntl fd F [0])
        \<and> passes_on_last (errnos B) (CHECK_OPENED B ''during full_fsync()'' fd) (full_fsync B sys fd) sys
            (Sys_fcntl fd F [0]))
   \<and> (f_fullfsync B = None \<and> have_fdatasync B \<longrightarrow>
        passes_on_last (errnos B) (return_io ()) (unchecked_full_fsync B sys fd) sys
          (Sys_fdatasync fd)
        \<and> passes_on_last (errnos B) (CHECK_OPENED B ''during full_fsync()'' fd) (full_fsync B sys fd) sys
            (Sys_fdatasync fd))
   \<and> (f_fullfsync B = None \<and> \<not> have_fdatasync B \<and> have_fsync B \<longrightarrow>
        passes_on_last (errnos B) (return_io ()) (unchecked_full_fsync B sys fd) sys
          (Sys_fsync fd)
        \<and> passes_on_last (errnos B) (CHECK_OPENED B ''during full_fsync()'' fd) (full_fsync B sys fd) sys
            (Sys_fsync fd))
   \<and> (f_fullfsync B = None \<and> \<not> have_fdatasync B \<and> \<not> have_fsync B \<longrightarrow>
        unchecked_full_fsync B sys fd p = Some (Inr (0, p))
        \<and> (CHECK_OPENED B ''during full_fsync()'' fd p = Some (Inl a) \<longrightarrow> full_fsync B sys fd p = Some (Inl a))
        \<and> (CHECK_OPENED B ''during full_fsync()'' fd p = Some (Inr ((), p)) \<longrightarrow>
             full_fsync B sys fd p = Some (Inr (0, p))))
   \<and> (CHECK_OPENED B ''during fadvise()'' fd p = Some (Inl a) \<longrightarrow>
        fadvise B sys fd offset amount advice p = Some (Inl a))
   \<and> (have_posix_fadvise B \<and> CHECK_OPENED B ''during fadvise()'' fd p = Some (Inr ((), p))
        \<and> sys (Sys_posix_fadvise fd offset amount advice) (os p) = (v, k) \<longrightarrow>
        fadvise B sys fd offset amount advice p
        = Some (Inr (if v = 0 then 1 else 0, p\<lparr>os := k\<rparr>)))
   \<and> (\<not> have_posix_fadvise B \<and> CHECK_OPENED B ''during fadvise()'' fd p = Some (Inr ((), p)) \<longrightarrow>
        fadvise B sys fd offset amount advice p = Some (Inr (0, p)))
   \<and> ((\<exists>a. CHECK_OPENED B msg fd p = Some (Inl a))
        \<or> CHECK_OPENED B msg fd p = Some (Inr ((), p)))
   \<and> ((\<exists>a. CHECK_OPENED_SOCKET B msg sock p = Some (Inl a))
        \<or> CHECK_OPENED_SOCKET B msg sock p = Some (Inr ((), p)))
   \<and> (\<not> check_io_fdes B \<longrightarrow> CHECK_OPENED B msg fd p = Some (Inr ((), p)))
   \<and> (\<not> check_io_fdes B \<longrightarrow> CHECK_OPENED_SOCKET B msg sock p = Some (Inr ((), p)))"
proof -
  have c1: "passes_on (return_io ()) (unlink sys path) sys (Sys_unlink path)"
    by (simp add: unlink_def passes_on_syscall)
  have c2: "passes_on (CHECK_OPENED B ''during lseek()'' fd) (lseek B sys fd offset whence) sys
          (Sys_lseek fd offset whence)"
    by (simp add: lseek_def passes_on_opened)
  have c3: "passes_on (CHECK_OPENED B ''during fstat()'' fd) (fstat B sys fd buf) sys
          (Sys_fstat fd buf)"
    by (simp add: fstat_def passes_on_opened)
  have c4: "passes_on (CHECK_OPENED B ''during dup()'' fd) (dup B sys fd) sys (Sys_dup fd)"
    by (simp add: dup_def passes_on_opened)
  have c5: "passes_on (CHECK_OPENED B ''during dup2()'' fd) (dup2 B sys fd newfd) sys
          (Sys_dup2 fd newfd)"
    by (simp add: dup2_def passes_on_opened)
  have c6: "passes_on (CHECK_OPENED_SOCKET B ''during shutdown()'' sock) (shutdown B sys sock how)
          sys (Sys_shutdown sock how)"
    by (simp add: shutdown_def passes_on_opened)
  have c7: "passes_on (CHECK_OPENED_SOCKET B ''during getsockopt()'' sock)
          (getsockopt B sys sock level option_name option_value option_len) sys
          (Sys_getsockopt sock level option_name option_value option_len)"
    by (simp add: getsockopt_def passes_on_opened)
  have c8: "passes_on (CHECK_OPENED_SOCKET B ''during setsockopt()'' sock)
          (setsockopt B sys sock level option_name option_value option_size) sys
          (Sys_setsockopt sock level option_name option_value option_size)"
    by (simp add: setsockopt_def passes_on_opened)
  have c9: "passes_on (CHECK_OPENED_SOCKET B ''during listen()'' sock) (listen B sys sock backlog)
          sys (Sys_listen sock backlog)"
    by (simp add: listen_def passes_on_opened)
  have c10: "passes_on (CHECK_OPENED_SOCKET B ''during bind()'' sock)
          (bind B sys sock address addr_size) sys (Sys_bind sock address addr_size)"
    by (simp add: bind_def passes_on_opened)
  have c11: "passes_on_last (errnos B) (return_io ()) (unchecked_fcntl B sys fd cmd args) sys
          (Sys_fcntl fd cmd args)"
    by (simp add: unchecked_fcntl_def passes_on_last_retry)
  have c12: "passes_on_last (errnos B) (CHECK_OPENED B ''during fcntl()'' fd)
          (fcntl B sys fd cmd args) sys (Sys_fcntl fd cmd args)"
    by (simp add: fcntl_def unchecked_fcntl_def passes_on_last_opened)
  have c13: "passes_on_last (errnos B) (CHECK_OPENED_SOCKET B ''during send()'' sock)
          (send B sys sock buffer len flags) sys (Sys_send sock buffer len flags)"
    by (simp add: send_def passes_on_last_opened)
  have c14: "passes_on_last (errnos B) (CHECK_OPENED_SOCKET B ''during sendto()'' sock)
          (sendto B sys sock buffer len flags dest_addr dest_len) sys
          (Sys_sendto sock buffer len flags dest_addr dest_len)"
    by (simp add: sendto_def passes_on_last_opened)
  have c15: "passes_on_last (errnos B) (CHECK_OPENED_SOCKET B ''during recv()'' sock)
          (recv B sys sock buffer len flags) sys (Sys_recv sock buffer len flags)"
    by (simp add: recv_def passes_on_last_opened)
  have c16: "passes_on_last (errnos B) (CHECK_OPENED_SOCKET B ''during recvfrom()'' sock)
          (recvfrom B sys sock buffer len flags address address_len) sys
          (Sys_recvfrom sock buffer len flags address address_len)"
    by (simp add: recvfrom_def passes_on_last_opened)
  have c17: "passes_on_last (errnos B) (CHECK_OPENED_SOCKET B ''during connect()'' sock)
          (connect B sys sock address addr_size) sys (Sys_connect sock address addr_size)"
    by (simp add: connect_def passes_on_last_opened)
  have c18: "(have_fallocate B \<longrightarrow>
          passes_on_last (errnos B) (CHECK_OPENED B ''during fallocate()'' fd)
            (fallocate B sys fd mode offset amount) sys
            (Sys_fallocate fd mode offset amount))"
    by (simp add: fallocate_def passes_on_last_opened)
  have c19: "(sys (Sys_socket domain type protocol) (os p) = (r, k) \<longrightarrow>
          (\<exists>a. socket B sys domain type protocol p = Some (Inl a))
          \<or> (\<exists>q. socket B sys domain type protocol p = Some (Inr (r, q)) \<and> os q = k))"
    using socket_total[where sys = sys and p = p and r = r and k = k and B = B] by blast
  have c20: "(socket B sys domain type protocol p = Some (Inr (r, p')) \<longrightarrow>
          sys (Sys_socket domain type protocol) (os p) = (r, os p'))"
    by (blast dest: socket_returns(1))
  have c21: "(\<not> check_io_fdes B \<longrightarrow>
          passes_on (return_io ()) (socket B sys domain type protocol) sys (Sys_socket domain type protocol))"
    by (simp add: socket_def production_checks bind_io_return bind_io_unit passes_on_syscall)
  have c22: "(CHECK_OPENED_SOCKET B ''during accept()'' sock p = Some (Inl a) \<longrightarrow>
          accept B sys sock address address_len p = Some (Inl a))"
    by (blast intro: accept_aborts)
  have c23: "(CHECK_OPENED_SOCKET B ''during accept()'' sock p = Some (Inr ((), p))
          \<and> sys (Sys_accept sock address address_len) (os p) = (r, k)
          \<and> \<not> (r = - 1 \<and> errno k = EINTR (errnos B)) \<longrightarrow>
          (\<exists>a. accept B sys sock address address_len p = Some (Inl a))
          \<or> (\<exists>q. accept B sys sock address address_len p = Some (Inr (r, q)) \<and> os q = k))"
    using accept_total[where sys = sys and p = p and r = r and k = k and B = B] by blast
  have c24: "(CHECK_OPENED_SOCKET B ''during accept()'' sock p = Some (Inr ((), p))
          \<and> sys (Sys_accept sock address address_len) (os p) = (- 1, k) \<and> errno k = EINTR (errnos B) \<longrightarrow>
          accept B sys sock address address_len p = accept B sys sock address address_len (p\<lparr>os := k\<rparr>))"
    using accept_again[where sys = sys and p = p and k = k and B = B] by blast
  have c25: "(accept B sys sock address address_len p = Some (Inr (r, p')) \<longrightarrow>
          (\<exists>k. sys (Sys_accept sock address address_len) k = (r, os p'))
          \<and> \<not> (r = - 1 \<and> errno (os p') = EINTR (errnos B)))"
    using accept_returns(1,2)[of B sys sock address address_len p r p'] by blast
  have c26: "(\<not> check_io_fdes B \<longrightarrow>
          passes_on_last (errnos B) (return_io ()) (accept B sys sock address address_len) sys
            (Sys_accept sock address address_len))"
    by (simp add: accept_def production_checks bind_io_return bind_io_unit passes_on_last_retry)
  have c27: "(have_fdatasync B \<longrightarrow>
          passes_on_last (errnos B) (return_io ()) (unchecked_fsync B sys fd) sys (Sys_fdatasync fd)
          \<and> passes_on_last (errnos B) (CHECK_OPENED B ''during fsync()'' fd) (fsync B sys fd) sys
              (Sys_fdatasync fd))"
    by (simp add: passes_on_last_fsync io_fsync_def)
  have c28: "(\<not> have_fdatasync B \<and> have_fsync B \<longrightarrow>
          passes_on_last (errnos B) (return_io ()) (unchecked_fsync B sys fd) sys (Sys_fsync fd)
          \<and> passes_on_last (errnos B) (CHECK_OPENED B ''during fsync()'' fd) (fsync B sys fd) sys
              (Sys_fsync fd))"
    by (simp add: passes_on_last_fsync io_fsync_def)
  have c29: "(\<not> have_fdatasync B \<and> \<not> have_fsync B \<longrightarrow>
          unchecked_fsync B sys fd p = Some (Inr (0, p))
          \<and> (CHECK_OPENED B ''during fsync()'' fd p = Some (Inl a) \<longrightarrow> fsync B sys fd p = Some (Inl a))
          \<and> (CHECK_OPENED B ''during fsync()'' fd p = Some (Inr ((), p)) \<longrightarrow>
               fsync B sys fd p = Some (Inr (0, p))))"
    by (simp add: noop_sync checked_constant(1,2))
  have c30: "(f_fullfsync B = Some F \<longrightarrow>
          passes_on_last (errnos B) (return_io ()) (unchecked_full_fsync B sys fd) sys
            (Sys_fcntl fd F [0])
          \<and> passes_on_last (errnos B) (CHECK_OPENED B ''during full_fsync()'' fd) (full_fsync B sys fd) sys
              (Sys_fcntl fd F [0]))"
    by (simp add: passes_on_last_full_fsync)
  have c31: "(f_fullfsync B = None \<and> have_fdatasync B \<longrightarrow>
          passes_on_last (errnos B) (return_io ()) (unchecked_full_fsync B sys fd) sys
            (Sys_fdatasync fd)
          \<and> passes_on_last (errnos B) (CHECK_OPENED B ''during full_fsync()'' fd) (full_fsync B sys fd) sys
              (Sys_fdatasync fd))"
    by (simp add: passes_on_last_full_fsync io_fsync_def)
  have c32: "(f_fullfsync B = None \<and> \<not> have_fdatasync B \<and> have_fsync B \<longrightarrow>
          passes_on_last (errnos B) (return_io ()) (unchecked_full_fsync B sys fd) sys
            (Sys_fsync fd)
          \<and> passes_on_last (errnos B) (CHECK_OPENED B ''during full_fsync()'' fd) (full_fsync B sys fd) sys
              (Sys_fsync fd))"
    by (simp add: passes_on_last_full_fsync io_fsync_def)
  have c33: "(f_fullfsync B = None \<and> \<not> have_fdatasync B \<and> \<not> have_fsync B \<longrightarrow>
          unchecked_full_fsync B sys fd p = Some (Inr (0, p))
          \<and> (CHECK_OPENED B ''during full_fsync()'' fd p = Some (Inl a) \<longrightarrow> full_fsync B sys fd p = Some (Inl a))
          \<and> (CHECK_OPENED B ''during full_fsync()'' fd p = Some (Inr ((), p)) \<longrightarrow>
               full_fsync B sys fd p = Some (Inr (0, p))))"
    by (simp add: noop_sync checked_constant(1,2))
  have c34: "(CHECK_OPENED B ''during fadvise()'' fd p = Some (Inl a) \<longrightarrow>
          fadvise B sys fd offset amount advice p = Some (Inl a))"
    by (blast intro: fadvise_aborts)
  have c35: "(have_posix_fadvise B \<and> CHECK_OPENED B ''during fadvise()'' fd p = Some (Inr ((), p))
          \<and> sys (Sys_posix_fadvise fd offset amount advice) (os p) = (v, k) \<longrightarrow>
          fadvise B sys fd offset amount advice p
          = Some (Inr (if v = 0 then 1 else 0, p\<lparr>os := k\<rparr>)))"
    using fadvise_runs(1)[where sys = sys and p = p and v = v and k = k and B = B] by blast
  have c36: "(\<not> have_posix_fadvise B \<and> CHECK_OPENED B ''during fadvise()'' fd p = Some (Inr ((), p)) \<longrightarrow>
          fadvise B sys fd offset amount advice p = Some (Inr (0, p)))"
    using fadvise_runs(2)[where sys = sys and p = p and B = B] by blast
  have c37: "((\<exists>a. CHECK_OPENED B msg fd p = Some (Inl a))
          \<or> CHECK_OPENED B msg fd p = Some (Inr ((), p)))"
    by (rule CHECK_total)
  have c38: "((\<exists>a. CHECK_OPENED_SOCKET B msg sock p = Some (Inl a))
          \<or> CHECK_OPENED_SOCKET B msg sock p = Some (Inr ((), p)))"
    by (rule CHECK_total)
  have c39: "(\<not> check_io_fdes B \<longrightarrow> CHECK_OPENED B msg fd p = Some (Inr ((), p)))"
    by (simp add: production_checks return_io_def)
  have c40: "(\<not> check_io_fdes B \<longrightarrow> CHECK_OPENED_SOCKET B msg sock p = Some (Inr ((), p)))"
    by (simp add: production_checks return_io_def)
  show ?thesis
    by (intro conjI; fact)
qed

theorem wrappers_pass_results_on_witness:
  "lseek linux_debug_build scripted 5 0 0
      (process_at 0 [(- 1, Some 29)] ((\<lambda>_. 0)(5 := OPENED)) False)
     = Some (Inr (- 1, process_at 29 [] ((\<lambda>_. 0)(5 := OPENED)) False))
   \<and> lseek linux_debug_build scripted 5 0 0 (process_at 0 [(- 1, Some 29)] (\<lambda>_. 0) False)
     = Some (Inl (Lifecycle_violation ''during lseek()''))
   \<and> recv linux_build scripted 5 0 16 0 (process_at 0 [(- 1, Some 4), (- 1, Some 104)] (\<lambda>_. 0) False)
     = Some (Inr (- 1, process_at 104 [] (\<lambda>_. 0) False))
   \<and> have_fallocate linux_build
   \<and> fallocate linux_build scripted 5 0 0 4096 (process_at 0 [(- 1, Some 28)] (\<lambda>_. 0) False)
     = Some (Inr (- 1, process_at 28 [] (\<lambda>_. 0) False))
   \<and> have_posix_fadvise linux_build
   \<and> fadvise linux_build scripted 5 0 0 2 (process_at 0 [(9, None)] (\<lambda>_. 0) False)
     = Some (Inr (0, process_at 0 [] (\<lambda>_. 0) False))"
proof -
  note B = linux_debug_build_sel
  let ?l = "process_at 0 ([(- 1, Some 29)] :: script) ((\<lambda>_. 0)(5 := OPENED)) False"
  let ?l' = "process_at 29 ([] :: script) ((\<lambda>_. 0)(5 := OPENED)) False"
  let ?u = "process_at 0 ([(- 1, Some 29)] :: script) (\<lambda>_. 0) False"
  let ?r0 = "process_at 0 ([(- 1, Some 4), (- 1, Some 104)] :: script) (\<lambda>_. 0) False"
  let ?r1 = "process_at 4 ([(- 1, Some 104)] :: script) (\<lambda>_. 0) False"
  let ?r2 = "process_at 104 ([] :: script) (\<lambda>_. 0) False"
  let ?f = "process_at 0 ([(- 1, Some 28)] :: script) (\<lambda>_. 0) False"
  let ?f' = "process_at 28 ([] :: script) (\<lambda>_. 0) False"
  let ?a = "process_at 0 ([(9, None)] :: script) (\<lambda>_. 0) False"
  let ?a' = "process_at 0 ([] :: script) (\<lambda>_. 0) False"
  note inst = wrappers_pass_results_on[where sys = scripted and path = 0
      and fd = 5 and offset = 0 and whence = 0 and buf = 0 and newfd = 0 and sock = 5 and how = 0
      and domain = 0 and type = 0 and protocol = 0 and level = 0 and option_name = 0
      and option_value = 0 and option_len = 0 and option_size = 0 and backlog = 0
      and address = 0 and addr_size = 0 and cmd = 0 and args = "[]" and buffer = 0 and len = 16
      and flags = 0 and dest_addr = 0 and dest_len = 0 and address_len = 0 and mode = 0
      and F = 0 and msg = "''during lseek()''" and a = Configuration_error and p' = ?a'
      and r = 0]
  note dbg = inst[where B = linux_debug_build and amount = 0 and advice = 0 and p = ?l and v = 0
      and k = "\<lparr>errno = 29, kernel = []\<rparr>"]
  note prod = inst[where B = linux_build and amount = 4096 and advice = 0 and p = ?f and v = 0
      and k = "\<lparr>errno = 28, kernel = []\<rparr>"]
  note adv = inst[where B = linux_build and amount = 0 and advice = 2 and p = ?a and v = 9
      and k = "\<lparr>errno = 0, kernel = []\<rparr>"]
  from dbg have seeks: "passes_on (CHECK_OPENED linux_debug_build ''during lseek()'' 5)
      (lseek linux_debug_build scripted 5 0 0) scripted (Sys_lseek 5 0 0)"
    by simp
  have "CHECK_OPENED linux_debug_build ''during lseek()'' 5 ?l = Some (Inr ((), ?l))"
    by (rule file_accepts_file_op) (simp_all add: B process_at_sel)
  moreover have "scripted (Sys_lseek 5 0 0) (os ?l) = (- 1, \<lparr>errno = 29, kernel = []\<rparr>)"
    by (simp add: scripted_def process_at_def)
  ultimately have "lseek linux_debug_build scripted 5 0 0 ?l
      = Some (Inr (- 1, ?l\<lparr>os := \<lparr>errno = 29, kernel = []\<rparr>\<rparr>))"
    using seeks unfolding passes_on_def by blast
  then have sought: "lseek linux_debug_build scripted 5 0 0 ?l = Some (Inr (- 1, ?l'))"
    by (simp add: process_at_def)
  have "CHECK_OPENED linux_debug_build ''during lseek()'' 5 ?u
      = Some (Inl (Lifecycle_violation ''during lseek()''))"
    by (simp add: CHECK_OPENED_def B check_violation tracked_simps process_at_sel OPENED_def)
  then have refused: "lseek linux_debug_build scripted 5 0 0 ?u
      = Some (Inl (Lifecycle_violation ''during lseek()''))"
    using seeks unfolding passes_on_def by blast
  from prod have receives: "passes_on_last linux_errno
      (CHECK_OPENED_SOCKET linux_build ''during recv()'' 5)
      (recv linux_build scripted 5 0 16 0) scripted (Sys_recv 5 0 16 0)"
    by (simp add: build_sel)
  have pass: "CHECK_OPENED_SOCKET linux_build ''during recv()'' 5 q = Some (Inr ((), q))"
    "CHECK_OPENED linux_build msg 5 q = Some (Inr ((), q))" for q :: "script process" and msg
    by (simp_all add: production_checks build_sel return_io_def)
  have "scripted (Sys_recv 5 0 16 0) (os ?r0) = (- 1, \<lparr>errno = 4, kernel = [(- 1, Some 104)]\<rparr>)"
    "errno \<lparr>errno = 4, kernel = [(- 1, Some 104)] :: script\<rparr> = EINTR linux_errno"
    by (simp_all add: scripted_def process_at_def linux_errno_def)
  with pass(1)[of ?r0] have "recv linux_build scripted 5 0 16 0 ?r0
      = recv linux_build scripted 5 0 16 0 (?r0\<lparr>os := \<lparr>errno = 4, kernel = [(- 1, Some 104)]\<rparr>\<rparr>)"
    using receives unfolding passes_on_last_def by blast
  then have again: "recv linux_build scripted 5 0 16 0 ?r0 = recv linux_build scripted 5 0 16 0 ?r1"
    by (simp add: process_at_def)
  have "scripted (Sys_recv 5 0 16 0) (os ?r1) = (- 1, \<lparr>errno = 104, kernel = []\<rparr>)"
    "\<not> (- 1 = (- 1 :: int) \<and> errno \<lparr>errno = 104, kernel = [] :: script\<rparr> = EINTR linux_errno)"
    by (simp_all add: scripted_def process_at_def linux_errno_def)
  with pass(1)[of ?r1] have "recv linux_build scripted 5 0 16 0 ?r1
      = Some (Inr (- 1, ?r1\<lparr>os := \<lparr>errno = 104, kernel = []\<rparr>\<rparr>))"
    using receives unfolding passes_on_last_def by blast
  with again have received: "recv linux_build scripted 5 0 16 0 ?r0 = Some (Inr (- 1, ?r2))"
    by (simp add: process_at_def)
  from prod have allocates: "passes_on_last linux_errno
      (CHECK_OPENED linux_build ''during fallocate()'' 5)
      (fallocate linux_build scripted 5 0 0 4096) scripted (Sys_fallocate 5 0 0 4096)"
    by (simp add: build_sel linux_build_def)
  have "scripted (Sys_fallocate 5 0 0 4096) (os ?f) = (- 1, \<lparr>errno = 28, kernel = []\<rparr>)"
    "\<not> (- 1 = (- 1 :: int) \<and> errno \<lparr>errno = 28, kernel = [] :: script\<rparr> = EINTR linux_errno)"
    by (simp_all add: scripted_def process_at_def linux_errno_def)
  with pass(2)[of "''during fallocate()''" ?f]
  have "fallocate linux_build scripted 5 0 0 4096 ?f
      = Some (Inr (- 1, ?f\<lparr>os := \<lparr>errno = 28, kernel = []\<rparr>\<rparr>))"
    using allocates unfolding passes_on_last_def by blast
  then have allocated: "fallocate linux_build scripted 5 0 0 4096 ?f = Some (Inr (- 1, ?f'))"
    by (simp add: process_at_def)
  have "scripted (Sys_posix_fadvise 5 0 0 2) (os ?a) = (9, \<lparr>errno = 0, kernel = []\<rparr>)"
    by (simp add: scripted_def process_at_def)
  with adv pass(2)[of "''during fadvise()''" ?a]
  have "fadvise linux_build scripted 5 0 0 2 ?a
      = Some (Inr (0, ?a\<lparr>os := \<lparr>errno = 0, kernel = []\<rparr>\<rparr>))"
    by (simp add: build_sel)
  then have advised: "fadvise linux_build scripted 5 0 0 2 ?a = Some (Inr (0, ?a'))"
    by (simp add: process_at_def)
  from sought refused received allocated advised show ?thesis
    by (simp add: build_sel linux_build_def)
qed

end
